theory Spec2Isabelle
  imports Main "HOL-Library.Sublist" "HOL-Library.Stream" "HOL-Library.AList"
begin

section \<open>Python values\<close>

text \<open>
  A Python \<open>str\<close> is modelled as a \<open>string\<close> holding its UTF-8 encoding. The source
  only concatenates strings, tests prefixes (\<open>startswith\<close>) and searches for ASCII
  brackets; on well-formed UTF-8 these agree with the same operations on code points.
  Text outside ASCII (the Chinese messages of the source) is written byte by byte.

  An exception is a value. \<open>ValueError\<close> is the one class the source raises itself; every
  other instance of Python's \<open>Exception\<close> (raised by the model port, a tool or a library
  call) is \<open>Exception\<close> with its message. Interpreter signals outside the \<open>Exception\<close>
  class (KeyboardInterrupt, SystemExit) are not part of the model. Printing
  (\<open>_log\<close>, \<open>verbose\<close>) changes no state and no result and is left out, taken to
  succeed; so are the methods that only render an object for display (\<open>__repr__\<close>,
  \<open>SharedState.summary\<close>) and the configuration of the client in \<open>llm.py\<close>.
\<close>

datatype exn = ValueError string | Exception string

fun str_exn :: "exn \<Rightarrow> string" where
  "str_exn (ValueError m) = m"
| "str_exn (Exception m) = m"

text \<open>A value decoded from JSON text (numbers with a fraction are left out).\<close>

datatype json =
  JNull | JBool bool | JInt int | JStr string | JArr "json list" | JObj "(string \<times> json) list"

text \<open>\<open>xs[s:]\<close>: a negative start counts from the end, and the start is clamped.\<close>

definition py_slice_from :: "'a list \<Rightarrow> int \<Rightarrow> 'a list" where
  "py_slice_from xs s =
     (let n = int (length xs);
          s' = (if s < 0 then max (s + n) 0 else min s n)
      in drop (nat s') xs)"

text \<open>A dict keeps insertion order; assigning to a key that is present keeps its place.\<close>

definition dict_set :: "('k \<times> 'v) list \<Rightarrow> 'k \<Rightarrow> 'v \<Rightarrow> ('k \<times> 'v) list" where
  "dict_set d k v = AList.update k v d"

definition dict_get :: "('k \<times> 'v) list \<Rightarrow> 'k \<Rightarrow> 'v option" where
  "dict_get d k = map_of d k"

definition dict_keys :: "('k \<times> 'v) list \<Rightarrow> 'k list" where
  "dict_keys d = map fst d"

definition dict_values :: "('k \<times> 'v) list \<Rightarrow> 'v list" where
  "dict_values d = map snd d"

section \<open>memory/history.py: ConversationHistory\<close>

text \<open>
  A tool invocation requested by the model, and a chat message: the dict the source
  builds, with a key that may be absent as an option.
\<close>

record tool_call =
  tc_id :: string
  tc_name :: string
  tc_arguments :: string

record chat_message =
  chat_role :: string
  chat_content :: "string option"
  chat_tool_calls :: "tool_call list option"
  chat_tool_call_id :: "string option"

definition role_msg :: "string \<Rightarrow> string \<Rightarrow> chat_message" where
  "role_msg r c =
     \<lparr>chat_role = r, chat_content = Some c, chat_tool_calls = None, chat_tool_call_id = None\<rparr>"

record ConversationHistory =
  max_turns :: int
  h_messages :: "chat_message list"

definition ConversationHistory_init :: "int \<Rightarrow> ConversationHistory" where
  "ConversationHistory_init mt = \<lparr>max_turns = mt, h_messages = []\<rparr>"

definition truncate_history :: "ConversationHistory \<Rightarrow> ConversationHistory" where
  "truncate_history h =
     (let max_messages = max_turns h * 2
      in if int (length (h_messages h)) > max_messages
         then h\<lparr>h_messages := py_slice_from (h_messages h) (- max_messages)\<rparr>
         else h)"

definition add_user_message :: "ConversationHistory \<Rightarrow> string \<Rightarrow> ConversationHistory" where
  "add_user_message h c =
     truncate_history (h\<lparr>h_messages := h_messages h @ [role_msg ''user'' c]\<rparr>)"

definition add_assistant_message :: "ConversationHistory \<Rightarrow> string \<Rightarrow> ConversationHistory" where
  "add_assistant_message h c =
     truncate_history (h\<lparr>h_messages := h_messages h @ [role_msg ''assistant'' c]\<rparr>)"

definition get_messages :: "ConversationHistory \<Rightarrow> chat_message list" where
  "get_messages h = h_messages h"

definition clear :: "ConversationHistory \<Rightarrow> ConversationHistory" where
  "clear h = h\<lparr>h_messages := []\<rparr>"

definition turn_count :: "ConversationHistory \<Rightarrow> nat" where
  "turn_count h = length (h_messages h) div 2"

definition len_history :: "ConversationHistory \<Rightarrow> nat" where
  "len_history h = length (h_messages h)"

text \<open>One turn is a question and its answer; a run of turns adds them in order.\<close>

definition add_turn :: "ConversationHistory \<Rightarrow> string \<times> string \<Rightarrow> ConversationHistory" where
  "add_turn h t = add_assistant_message (add_user_message h (fst t)) (snd t)"

definition add_turns :: "ConversationHistory \<Rightarrow> (string \<times> string) list \<Rightarrow> ConversationHistory" where
  "add_turns h ts = foldl add_turn h ts"

definition turn_messages :: "string \<times> string \<Rightarrow> chat_message list" where
  "turn_messages t = [role_msg ''user'' (fst t), role_msg ''assistant'' (snd t)]"

subsection \<open>The history as a list object\<close>

text \<open>
  \<open>_messages\<close> is a reference to a list object: \<open>append\<close> and \<open>clear\<close> change the object
  in place, the slice in \<open>_truncate\<close> and \<open>list(...)\<close> in \<open>get_messages\<close> build a new one.
  The store holds the list objects, an address is an index, and a new object takes the
  next free address.
\<close>

type_synonym list_store = "chat_message list list"

record history_obj =
  o_max_turns :: int
  o_messages :: nat

definition new_list :: "list_store \<Rightarrow> chat_message list \<Rightarrow> nat \<times> list_store" where
  "new_list s xs = (length s, s @ [xs])"

definition abs_history :: "list_store \<Rightarrow> history_obj \<Rightarrow> ConversationHistory" where
  "abs_history s h = \<lparr>max_turns = o_max_turns h, h_messages = s ! o_messages h\<rparr>"

definition truncate_obj :: "list_store \<Rightarrow> history_obj \<Rightarrow> list_store \<times> history_obj" where
  "truncate_obj s h =
     (let max_messages = o_max_turns h * 2
      in if int (length (s ! o_messages h)) > max_messages
         then (let (r, s') = new_list s (py_slice_from (s ! o_messages h) (- max_messages))
               in (s', h\<lparr>o_messages := r\<rparr>))
         else (s, h))"

definition append_obj :: "list_store \<Rightarrow> nat \<Rightarrow> chat_message \<Rightarrow> list_store" where
  "append_obj s r m = s[r := s ! r @ [m]]"

definition add_user_message_obj ::
  "list_store \<Rightarrow> history_obj \<Rightarrow> string \<Rightarrow> list_store \<times> history_obj" where
  "add_user_message_obj s h c = truncate_obj (append_obj s (o_messages h) (role_msg ''user'' c)) h"

definition add_assistant_message_obj ::
  "list_store \<Rightarrow> history_obj \<Rightarrow> string \<Rightarrow> list_store \<times> history_obj" where
  "add_assistant_message_obj s h c =
     truncate_obj (append_obj s (o_messages h) (role_msg ''assistant'' c)) h"

definition get_messages_obj :: "list_store \<Rightarrow> history_obj \<Rightarrow> nat \<times> list_store" where
  "get_messages_obj s h = new_list s (s ! o_messages h)"

definition clear_obj :: "list_store \<Rightarrow> history_obj \<Rightarrow> list_store" where
  "clear_obj s h = s[o_messages h := []]"

section \<open>tools/base.py: Tool and ToolRegistry\<close>

text \<open>
  \<open>join sep xs\<close> is \<open>sep.join(xs)\<close>; \<open>str_nat\<close> is \<open>str\<close> on a number that is not negative.
\<close>

fun join :: "string \<Rightarrow> string list \<Rightarrow> string" where
  "join sep [] = []"
| "join sep [x] = x"
| "join sep (x # y # ys) = x @ sep @ join sep (y # ys)"

fun str_nat :: "nat \<Rightarrow> string" where
  "str_nat n =
     (if n < 10 then [''0123456789'' ! n] else str_nat (n div 10) @ [''0123456789'' ! (n mod 10)])"

definition str_int :: "int \<Rightarrow> string" where
  "str_int i = (if i < 0 then ''-'' @ str_nat (nat (- i)) else str_nat (nat i))"

text \<open>
  A tool: its three properties, and \<open>run\<close> as the call \<open>tool.run(**arguments)\<close> on the
  decoded arguments, which returns text or raises (also when the arguments are no
  mapping or do not fit the signature).
\<close>

record Tool =
  name :: string
  description :: string
  parameters :: json
  run :: "json \<Rightarrow> exn + string"

definition to_openai_tool :: "Tool \<Rightarrow> json" where
  "to_openai_tool t =
     JObj [(''type'', JStr ''function''),
           (''function'', JObj [(''name'', JStr (name t)),
                                (''description'', JStr (description t)),
                                (''parameters'', parameters t)])]"

text \<open>The registry is the dict \<open>_tools\<close>, from a tool's name to the tool.\<close>

type_synonym ToolRegistry = "(string \<times> Tool) list"

definition ToolRegistry_init :: ToolRegistry where
  "ToolRegistry_init = []"

text \<open>The message of the error: "tool 'NAME' is registered already, do not register it twice".\<close>

definition already_registered :: "string \<Rightarrow> string" where
  "already_registered n =
     [CHR 0xE5, CHR 0xB7, CHR 0xA5, CHR 0xE5, CHR 0x85, CHR 0xB7] @ '' '' @ [CHR 0x27] @ n @
     [CHR 0x27] @ '' '' @ [CHR 0xE5, CHR 0xB7, CHR 0xB2, CHR 0xE6, CHR 0xB3, CHR 0xA8,
       CHR 0xE5, CHR 0x86, CHR 0x8C, CHR 0xEF, CHR 0xBC, CHR 0x8C, CHR 0xE8, CHR 0xAF,
       CHR 0xB7, CHR 0xE5, CHR 0x8B, CHR 0xBF, CHR 0xE9, CHR 0x87, CHR 0x8D, CHR 0xE5,
       CHR 0xA4, CHR 0x8D, CHR 0xE6, CHR 0xB3, CHR 0xA8, CHR 0xE5, CHR 0x86, CHR 0x8C,
       CHR 0xE3, CHR 0x80, CHR 0x82]"

definition register :: "ToolRegistry \<Rightarrow> Tool \<Rightarrow> exn + ToolRegistry" where
  "register r tool =
     (if name tool \<in> set (dict_keys r) then Inl (ValueError (already_registered (name tool)))
      else Inr (dict_set r (name tool) tool))"

definition get :: "ToolRegistry \<Rightarrow> string \<Rightarrow> Tool option" where
  "get r n = dict_get r n"

definition to_openai_tools :: "ToolRegistry \<Rightarrow> json list" where
  "to_openai_tools r = map to_openai_tool (dict_values r)"

definition tool_names :: "ToolRegistry \<Rightarrow> string list" where
  "tool_names r = dict_keys r"

definition len_registry :: "ToolRegistry \<Rightarrow> nat" where
  "len_registry r = length r"

definition contains :: "ToolRegistry \<Rightarrow> string \<Rightarrow> bool" where
  "contains r n = (n \<in> set (dict_keys r))"

text \<open>The message of \<open>execute\<close> for a name that is not registered: "error: tool 'NAME' not found. Tools: LIST".\<close>

definition tool_not_found :: "string \<Rightarrow> string \<Rightarrow> string" where
  "tool_not_found n keys =
     [CHR 0xE9, CHR 0x94, CHR 0x99, CHR 0xE8, CHR 0xAF, CHR 0xAF, CHR 0xEF, CHR 0xBC,
       CHR 0x9A, CHR 0xE6, CHR 0x9C, CHR 0xAA, CHR 0xE6, CHR 0x89, CHR 0xBE, CHR 0xE5,
       CHR 0x88, CHR 0xB0, CHR 0xE5, CHR 0xB7, CHR 0xA5, CHR 0xE5, CHR 0x85, CHR 0xB7] @
       '' '' @ [CHR 0x27] @ n @
     [CHR 0x27, CHR 0xE3, CHR 0x80, CHR 0x82, CHR 0xE5, CHR 0x8F, CHR 0xAF, CHR 0xE7,
       CHR 0x94, CHR 0xA8, CHR 0xE5, CHR 0xB7, CHR 0xA5, CHR 0xE5, CHR 0x85, CHR 0xB7,
       CHR 0xEF, CHR 0xBC, CHR 0x9A] @ keys"

text \<open>"error: the JSON of the tool's arguments cannot be parsed: ARGUMENTS".\<close>

definition bad_arguments :: "string \<Rightarrow> string" where
  "bad_arguments arguments =
     [CHR 0xE9, CHR 0x94, CHR 0x99, CHR 0xE8, CHR 0xAF, CHR 0xAF, CHR 0xEF, CHR 0xBC,
       CHR 0x9A, CHR 0xE6, CHR 0x97, CHR 0xA0, CHR 0xE6, CHR 0xB3, CHR 0x95, CHR 0xE8,
       CHR 0xA7, CHR 0xA3, CHR 0xE6, CHR 0x9E, CHR 0x90, CHR 0xE5, CHR 0xB7, CHR 0xA5,
       CHR 0xE5, CHR 0x85, CHR 0xB7, CHR 0xE5, CHR 0x8F, CHR 0x82, CHR 0xE6, CHR 0x95,
       CHR 0xB0] @ '' JSON'' @ [CHR 0xEF, CHR 0xBC, CHR 0x9A] @ arguments"

text \<open>"error: tool 'NAME' failed: EXCEPTION".\<close>

definition tool_failed :: "string \<Rightarrow> exn \<Rightarrow> string" where
  "tool_failed n e =
     [CHR 0xE9, CHR 0x94, CHR 0x99, CHR 0xE8, CHR 0xAF, CHR 0xAF, CHR 0xEF, CHR 0xBC,
       CHR 0x9A, CHR 0xE5, CHR 0xB7, CHR 0xA5, CHR 0xE5, CHR 0x85, CHR 0xB7] @ '' '' @
       [CHR 0x27] @ n @
     [CHR 0x27] @ '' '' @ [CHR 0xE6, CHR 0x89, CHR 0xA7, CHR 0xE8, CHR 0xA1, CHR 0x8C,
       CHR 0xE5, CHR 0xA4, CHR 0xB1, CHR 0xE8, CHR 0xB4, CHR 0xA5, CHR 0xEF, CHR 0xBC,
       CHR 0x9A] @ str_exn e"

section \<open>multi/message.py and multi/shared_state.py: the data\<close>

datatype MessageType = TASK | RESULT | FEEDBACK | SYSTEM

record Message =
  sender :: string
  receiver :: string
  content :: string
  msg_type :: MessageType
  metadata :: "(string \<times> json) list"
  timestamp :: string

datatype status = Idle | Planning | Executing | Reviewing | Done | Failed

text \<open>
  A \<open>Message\<close> is an object: the log \<open>messages\<close> of the shared state holds references to
  messages, which are addresses into the store \<open>msg_heap\<close> of the world below.
\<close>

record SharedState =
  task :: string
  plan :: "string list"
  results :: "(string \<times> string) list"
  messages :: "nat list"
  status :: status
  current_step :: int
  state_max_steps :: int
  state_metadata :: "(string \<times> json) list"

text \<open>The keyword arguments a hook is called with, by event.\<close>

datatype hook_event =
  AgentStart string string
| AgentFinish string string
| AgentError string exn
| StepComplete int SharedState

section \<open>The world outside the source\<close>

text \<open>
  The reply of the model port to one call (\<open>response.choices[0].message\<close>): optional
  text and optional tool invocations. A request is what the port was called with: the
  messages and, when there are any, the tool schemas; the model name, the temperature
  and the token limit are constants of the client and are left out.
\<close>

record reply =
  reply_content :: "string option"
  reply_tool_calls :: "tool_call list option"

type_synonym request = "chat_message list \<times> json list option"

text \<open>
  The world holds what the source's files under \<open>src\<close> use and do not define:
  \<^item> functions of Python's library, as parameters: \<open>json.loads\<close> (\<open>None\<close> is
    \<open>JSONDecodeError\<close>), \<open>json.dumps(_, ensure_ascii=False, indent=2)\<close>, \<open>repr\<close> of
    a \<open>str\<close>, \<open>str.format\<close> with keyword arguments (it raises on a template it cannot
    fill), \<open>str.strip\<close>, and the three searches of the free-text protocol, each giving
    group 1 of the first match:
    \<open>re.search(r"Final Answer:\s*(.+)", text, re.DOTALL)\<close>,
    \<open>re.search(r"Action:\s*(\w+)", text)\<close> and
    \<open>re.search(r"Action Input:\s*({.*?})", text, re.DOTALL)\<close>;
  \<^item> the two prompts of \<open>src/agent/prompt.py\<close>, a file that is not among the sources;
  \<^item> the model port: the outcomes of its calls to come, in order, each a reply or an
    exception it raises;
  \<^item> the clock: \<open>clock n\<close> is \<open>datetime.now().isoformat()\<close> as read when the
    \<open>n\<close>-th \<open>Message\<close> is built;
  \<^item> the store of \<open>Message\<close> objects;
  \<^item> four traces, which are no data of the source: the requests the port received, the
    calls of \<open>ToolRegistry.execute\<close> (name and arguments), the calls of
    \<open>_dispatch\<close> (agent name and task) and the calls of hooks (event name, arguments
    and the exception a callback raised, if any).
\<close>

record world =
  json_loads :: "string \<Rightarrow> json option"
  json_dumps :: "json \<Rightarrow> string"
  repr_str :: "string \<Rightarrow> string"
  str_format :: "string \<Rightarrow> (string \<times> string) list \<Rightarrow> exn + string"
  str_strip :: "string \<Rightarrow> string"
  re_final_answer :: "string \<Rightarrow> string option"
  re_action :: "string \<Rightarrow> string option"
  re_action_input :: "string \<Rightarrow> string option"
  SYSTEM_PROMPT_FUNCTION_CALLING :: string
  SYSTEM_PROMPT_TEXT_PARSING :: string
  port :: "(exn + reply) stream"
  clock :: "nat \<Rightarrow> string"
  msg_heap :: "Message list"
  requests :: "request list"
  executions :: "(string \<times> string) list"
  dispatches :: "(string \<times> string) list"
  hook_calls :: "(string \<times> hook_event \<times> exn option) list"

text \<open>\<open>repr\<close> of a list of strings, as an f-string prints \<open>list(d.keys())\<close>.\<close>

definition repr_list :: "world \<Rightarrow> string list \<Rightarrow> string" where
  "repr_list w xs = ''['' @ join '', '' (map (repr_str w) xs) @ '']''"

text \<open>\<open>x or ""\<close> on an optional string.\<close>

definition or_empty :: "string option \<Rightarrow> string" where
  "or_empty x = (case x of None \<Rightarrow> [] | Some s \<Rightarrow> s)"

subsection \<open>llm.py: LLMClient\<close>

definition chat :: "world \<Rightarrow> chat_message list \<Rightarrow> json list option \<Rightarrow> (exn + reply) \<times> world" where
  "chat w msgs tools =
     (shd (port w),
      w\<lparr>port := stl (port w),
        requests := requests w @ [(msgs, if tools = Some [] then None else tools)]\<rparr>)"

definition chat_simple :: "world \<Rightarrow> string \<Rightarrow> string \<Rightarrow> (exn + string) \<times> world" where
  "chat_simple w prompt system =
     (let msgs = (if system \<noteq> [] then [role_msg ''system'' system] else [])
                 @ [role_msg ''user'' prompt];
          (response, w') = chat w msgs None
      in case response of
           Inl e \<Rightarrow> (Inl e, w')
         | Inr message \<Rightarrow> (Inr (or_empty (reply_content message)), w'))"

subsection \<open>ToolRegistry.execute and get_tools_description\<close>

text \<open>The arguments are the JSON text the model gave; the source's other case, a dict, does not occur.\<close>

definition execute :: "world \<Rightarrow> ToolRegistry \<Rightarrow> string \<Rightarrow> string \<Rightarrow> string \<times> world" where
  "execute w r n arguments =
     (let w' = w\<lparr>executions := executions w @ [(n, arguments)]\<rparr>
      in case get r n of
           None \<Rightarrow> (tool_not_found n (repr_list w (dict_keys r)), w')
         | Some tool \<Rightarrow>
             (case json_loads w arguments of
                None \<Rightarrow> (bad_arguments arguments, w')
              | Some args \<Rightarrow>
                  (case run tool args of
                     Inr text \<Rightarrow> (text, w')
                   | Inl e \<Rightarrow> (tool_failed n e, w'))))"

definition tool_description_line :: "world \<Rightarrow> Tool \<Rightarrow> string" where
  "tool_description_line w tool =
     ''- **'' @ name tool @ ''**: '' @ description tool @
     [CHR 0x0A] @ ''  '' @ [CHR 0xE5, CHR 0x8F, CHR 0x82, CHR 0xE6, CHR 0x95, CHR 0xB0] @
       '': '' @ json_dumps w (parameters tool)"

definition get_tools_description :: "world \<Rightarrow> ToolRegistry \<Rightarrow> string" where
  "get_tools_description w r = join [CHR 0x0A] (map (tool_description_line w) (dict_values r))"

section \<open>agent/react.py: ReActAgent\<close>

text \<open>
  The agent's fields; the client \<open>llm\<close> is the port of the world. \<open>role_system_prompt\<close>
  and \<open>role_name\<close> are the attributes \<open>_role_system_prompt\<close> and \<open>_role_name\<close> that
  \<open>add_agent\<close> sets on an agent (absent on an agent built any other way).
\<close>

record ReActAgent =
  tools :: ToolRegistry
  mode :: string
  max_steps :: int
  history :: ConversationHistory
  role_system_prompt :: "string option"
  role_name :: "string option"

definition ReActAgent_init :: "ToolRegistry \<Rightarrow> string \<Rightarrow> int \<Rightarrow> ReActAgent" where
  "ReActAgent_init tool_registry md ms =
     \<lparr>tools = tool_registry, mode = md, max_steps = ms,
      history = ConversationHistory_init 20,
      role_system_prompt = None, role_name = None\<rparr>"

text \<open>
  The fallback of the structured-call protocol and the fallback of the free-text
  protocol, each as its function writes it: "sorry, after several attempts I still have
  no clear conclusion; please simplify the question or give more information".
\<close>

definition fallback_function_calling :: string where
  "fallback_function_calling =
     [CHR 0xE6, CHR 0x8A, CHR 0xB1, CHR 0xE6, CHR 0xAD, CHR 0x89, CHR 0xEF, CHR 0xBC,
       CHR 0x8C, CHR 0xE6, CHR 0x88, CHR 0x91, CHR 0xE5, CHR 0x9C, CHR 0xA8, CHR 0xE5,
       CHR 0xA4, CHR 0x9A, CHR 0xE6, CHR 0xAC, CHR 0xA1, CHR 0xE5, CHR 0xB0, CHR 0x9D,
       CHR 0xE8, CHR 0xAF, CHR 0x95, CHR 0xE5, CHR 0x90, CHR 0x8E, CHR 0xE4, CHR 0xBB,
       CHR 0x8D, CHR 0xE6, CHR 0x9C, CHR 0xAA, CHR 0xE8, CHR 0x83, CHR 0xBD, CHR 0xE5,
       CHR 0xBE, CHR 0x97, CHR 0xE5, CHR 0x87, CHR 0xBA, CHR 0xE6, CHR 0x98, CHR 0x8E,
       CHR 0xE7, CHR 0xA1, CHR 0xAE, CHR 0xE7, CHR 0xBB, CHR 0x93, CHR 0xE8, CHR 0xAE,
       CHR 0xBA, CHR 0xE3, CHR 0x80, CHR 0x82, CHR 0xE8, CHR 0xAF, CHR 0xB7, CHR 0xE5,
       CHR 0xB0, CHR 0x9D, CHR 0xE8, CHR 0xAF, CHR 0x95, CHR 0xE7, CHR 0xAE, CHR 0x80,
       CHR 0xE5, CHR 0x8C, CHR 0x96, CHR 0xE9, CHR 0x97, CHR 0xAE, CHR 0xE9, CHR 0xA2,
       CHR 0x98, CHR 0xE6, CHR 0x88, CHR 0x96, CHR 0xE6, CHR 0x8F, CHR 0x90, CHR 0xE4,
       CHR 0xBE, CHR 0x9B, CHR 0xE6, CHR 0x9B, CHR 0xB4, CHR 0xE5, CHR 0xA4, CHR 0x9A,
       CHR 0xE4, CHR 0xBF, CHR 0xA1, CHR 0xE6, CHR 0x81, CHR 0xAF, CHR 0xE3, CHR 0x80,
       CHR 0x82]"

definition fallback_text_parsing :: string where
  "fallback_text_parsing =
     [CHR 0xE6, CHR 0x8A, CHR 0xB1, CHR 0xE6, CHR 0xAD, CHR 0x89, CHR 0xEF, CHR 0xBC,
       CHR 0x8C, CHR 0xE6, CHR 0x88, CHR 0x91, CHR 0xE5, CHR 0x9C, CHR 0xA8, CHR 0xE5,
       CHR 0xA4, CHR 0x9A, CHR 0xE6, CHR 0xAC, CHR 0xA1, CHR 0xE5, CHR 0xB0, CHR 0x9D,
       CHR 0xE8, CHR 0xAF, CHR 0x95, CHR 0xE5, CHR 0x90, CHR 0x8E, CHR 0xE4, CHR 0xBB,
       CHR 0x8D, CHR 0xE6, CHR 0x9C, CHR 0xAA, CHR 0xE8, CHR 0x83, CHR 0xBD, CHR 0xE5,
       CHR 0xBE, CHR 0x97, CHR 0xE5, CHR 0x87, CHR 0xBA, CHR 0xE6, CHR 0x98, CHR 0x8E,
       CHR 0xE7, CHR 0xA1, CHR 0xAE, CHR 0xE7, CHR 0xBB, CHR 0x93, CHR 0xE8, CHR 0xAE,
       CHR 0xBA, CHR 0xE3, CHR 0x80, CHR 0x82, CHR 0xE8, CHR 0xAF, CHR 0xB7, CHR 0xE5,
       CHR 0xB0, CHR 0x9D, CHR 0xE8, CHR 0xAF, CHR 0x95, CHR 0xE7, CHR 0xAE, CHR 0x80,
       CHR 0xE5, CHR 0x8C, CHR 0x96, CHR 0xE9, CHR 0x97, CHR 0xAE, CHR 0xE9, CHR 0xA2,
       CHR 0x98, CHR 0xE6, CHR 0x88, CHR 0x96, CHR 0xE6, CHR 0x8F, CHR 0x90, CHR 0xE4,
       CHR 0xBE, CHR 0x9B, CHR 0xE6, CHR 0x9B, CHR 0xB4, CHR 0xE5, CHR 0xA4, CHR 0x9A,
       CHR 0xE4, CHR 0xBF, CHR 0xA1, CHR 0xE6, CHR 0x81, CHR 0xAF, CHR 0xE3, CHR 0x80,
       CHR 0x82]"

text \<open>The assistant message built from a reply: a key is set when its value is truthy.\<close>

definition assistant_msg :: "reply \<Rightarrow> chat_message" where
  "assistant_msg message =
     \<lparr>chat_role = ''assistant'',
      chat_content = (if or_empty (reply_content message) \<noteq> [] then reply_content message else None),
      chat_tool_calls =
        (case reply_tool_calls message of
           None \<Rightarrow> None
         | Some tcs \<Rightarrow> if tcs \<noteq> [] then Some tcs else None),
      chat_tool_call_id = None\<rparr>"

definition tool_msg :: "string \<Rightarrow> string \<Rightarrow> chat_message" where
  "tool_msg call_id observation =
     \<lparr>chat_role = ''tool'', chat_content = Some observation, chat_tool_calls = None,
      chat_tool_call_id = Some call_id\<rparr>"

text \<open>\<open>x or []\<close> on an optional list of invocations: what \<open>if message.tool_calls\<close> tests.\<close>

definition or_empty_calls :: "tool_call list option \<Rightarrow> tool_call list" where
  "or_empty_calls x = (case x of None \<Rightarrow> [] | Some tcs \<Rightarrow> tcs)"

text \<open>The inner loop: every invocation of a reply, in the order of the reply.\<close>

fun run_tool_calls ::
  "ToolRegistry \<Rightarrow> tool_call list \<Rightarrow> world \<Rightarrow> chat_message list \<Rightarrow> chat_message list \<times> world" where
  "run_tool_calls r [] w msgs = (msgs, w)"
| "run_tool_calls r (tc # tcs) w msgs =
     (let (observation, w') = execute w r (tc_name tc) (tc_arguments tc)
      in run_tool_calls r tcs w' (msgs @ [tool_msg (tc_id tc) observation]))"

text \<open>
  The loop over \<open>range(1, max_steps + 1)\<close>, by the number of steps left. \<open>Inr (Some a)\<close>
  is the \<open>return\<close> of the answer \<open>a\<close> inside the loop, \<open>Inr None\<close> the end of the loop
  with no answer, \<open>Inl e\<close> an exception of the port.
\<close>

fun function_calling_steps ::
  "ToolRegistry \<Rightarrow> json list \<Rightarrow> nat \<Rightarrow> world \<Rightarrow> chat_message list \<Rightarrow> (exn + string option) \<times> world" where
  "function_calling_steps r openai_tools 0 w msgs = (Inr None, w)"
| "function_calling_steps r openai_tools (Suc n) w msgs =
     (let (response, w1) = chat w msgs (if openai_tools \<noteq> [] then Some openai_tools else None)
      in case response of
           Inl e \<Rightarrow> (Inl e, w1)
         | Inr message \<Rightarrow>
             (let msgs1 = msgs @ [assistant_msg message]
              in if or_empty_calls (reply_tool_calls message) = []
                 then (Inr (Some (or_empty (reply_content message))), w1)
                 else (let (msgs2, w2) =
                             run_tool_calls r (or_empty_calls (reply_tool_calls message)) w1 msgs1
                       in function_calling_steps r openai_tools n w2 msgs2)))"

text \<open>Both protocols end alike: the query and the answer go into the history.\<close>

definition remember :: "ReActAgent \<Rightarrow> string \<Rightarrow> string \<Rightarrow> ReActAgent" where
  "remember a query answer =
     a\<lparr>history := add_assistant_message (add_user_message (history a) query) answer\<rparr>"

definition run_function_calling ::
  "world \<Rightarrow> ReActAgent \<Rightarrow> string \<Rightarrow> (exn + string) \<times> ReActAgent \<times> world" where
  "run_function_calling w a query =
     (let msgs = [role_msg ''system'' (SYSTEM_PROMPT_FUNCTION_CALLING w)]
                 @ get_messages (history a) @ [role_msg ''user'' query];
          openai_tools = to_openai_tools (tools a);
          (outcome, w') = function_calling_steps (tools a) openai_tools (nat (max_steps a)) w msgs
      in case outcome of
           Inl e \<Rightarrow> (Inl e, a, w')
         | Inr (Some final_answer) \<Rightarrow> (Inr final_answer, remember a query final_answer, w')
         | Inr None \<Rightarrow>
             (Inr fallback_function_calling, remember a query fallback_function_calling, w'))"

text \<open>"Observation: TEXT", then "go on thinking, or give the Final Answer".\<close>

definition observation_msg :: "string \<Rightarrow> chat_message" where
  "observation_msg observation =
     role_msg ''user'' (''Observation: '' @ observation @
     [CHR 0x0A, CHR 0x0A, CHR 0xE8, CHR 0xAF, CHR 0xB7, CHR 0xE7, CHR 0xBB, CHR 0xA7,
       CHR 0xE7, CHR 0xBB, CHR 0xAD, CHR 0xE6, CHR 0x80, CHR 0x9D, CHR 0xE8, CHR 0x80,
       CHR 0x83, CHR 0xEF, CHR 0xBC, CHR 0x8C, CHR 0xE6, CHR 0x88, CHR 0x96, CHR 0xE7,
       CHR 0xBB, CHR 0x99, CHR 0xE5, CHR 0x87, CHR 0xBA] @ '' Final Answer'' @ [CHR 0xE3,
       CHR 0x80, CHR 0x82])"

fun text_parsing_steps ::
  "ToolRegistry \<Rightarrow> nat \<Rightarrow> world \<Rightarrow> chat_message list \<Rightarrow> (exn + string option) \<times> world" where
  "text_parsing_steps r 0 w msgs = (Inr None, w)"
| "text_parsing_steps r (Suc n) w msgs =
     (let (response, w1) = chat w msgs None
      in case response of
           Inl e \<Rightarrow> (Inl e, w1)
         | Inr message \<Rightarrow>
             (let text = or_empty (reply_content message)
              in case re_final_answer w1 text of
                   Some g \<Rightarrow> (Inr (Some (str_strip w1 g)), w1)
                 | None \<Rightarrow>
                     (case re_action w1 text of
                        None \<Rightarrow> (Inr (Some text), w1)
                      | Some action_name \<Rightarrow>
                          (let action_input =
                                 (case re_action_input w1 text of Some g \<Rightarrow> g | None \<Rightarrow> ''{}'');
                               (observation, w2) = execute w1 r action_name action_input
                           in text_parsing_steps r n w2
                                (msgs @ [role_msg ''assistant'' text, observation_msg observation])))))"

definition run_text_parsing ::
  "world \<Rightarrow> ReActAgent \<Rightarrow> string \<Rightarrow> (exn + string) \<times> ReActAgent \<times> world" where
  "run_text_parsing w a query =
     (case str_format w (SYSTEM_PROMPT_TEXT_PARSING w)
             [(''tools_description'', get_tools_description w (tools a))] of
        Inl e \<Rightarrow> (Inl e, a, w)
      | Inr system_prompt \<Rightarrow>
          (let context = ''Question: '' @ query @ [CHR 0x0A];
               msgs = [role_msg ''system'' system_prompt]
                      @ get_messages (history a) @ [role_msg ''user'' context];
               (outcome, w') = text_parsing_steps (tools a) (nat (max_steps a)) w msgs
           in case outcome of
                Inl e \<Rightarrow> (Inl e, a, w')
              | Inr (Some final_answer) \<Rightarrow> (Inr final_answer, remember a query final_answer, w')
              | Inr None \<Rightarrow>
                  (Inr fallback_text_parsing, remember a query fallback_text_parsing, w')))"

text \<open>"unsupported mode: MODE, use 'function_calling' or 'text_parsing'".\<close>

definition unsupported_mode :: "string \<Rightarrow> string" where
  "unsupported_mode md =
     [CHR 0xE4, CHR 0xB8, CHR 0x8D, CHR 0xE6, CHR 0x94, CHR 0xAF, CHR 0xE6, CHR 0x8C,
       CHR 0x81, CHR 0xE7, CHR 0x9A, CHR 0x84, CHR 0xE6, CHR 0xA8, CHR 0xA1, CHR 0xE5,
       CHR 0xBC, CHR 0x8F] @ '': '' @ md @
     [CHR 0xEF, CHR 0xBC, CHR 0x8C, CHR 0xE8, CHR 0xAF, CHR 0xB7, CHR 0xE4, CHR 0xBD,
       CHR 0xBF, CHR 0xE7, CHR 0x94, CHR 0xA8] @ '' '' @ [CHR 0x27] @
       ''function_calling'' @ [CHR 0x27] @ '' '' @ [CHR 0xE6, CHR 0x88, CHR 0x96] @ '' '' @
       [CHR 0x27] @ ''text_parsing'' @ [CHR 0x27]"

definition agent_run :: "world \<Rightarrow> ReActAgent \<Rightarrow> string \<Rightarrow> (exn + string) \<times> ReActAgent \<times> world" where
  "agent_run w a query =
     (if mode a = ''function_calling'' then run_function_calling w a query
      else if mode a = ''text_parsing'' then run_text_parsing w a query
      else (Inl (ValueError (unsupported_mode (mode a))), a, w))"

definition reset :: "ReActAgent \<Rightarrow> ReActAgent" where
  "reset a = a\<lparr>history := clear (history a)\<rparr>"

section \<open>multi/shared_state.py: SharedState\<close>

text \<open>Building a \<open>Message\<close> puts a new object into the store and reads the clock.\<close>

definition Message_init ::
  "world \<Rightarrow> string \<Rightarrow> string \<Rightarrow> string \<Rightarrow> MessageType \<Rightarrow> (string \<times> json) list \<Rightarrow> nat \<times> world" where
  "Message_init w s r c t md =
     (length (msg_heap w),
      w\<lparr>msg_heap := msg_heap w @
          [\<lparr>sender = s, receiver = r, content = c, msg_type = t, metadata = md,
            timestamp = clock w (length (msg_heap w))\<rparr>]\<rparr>)"

definition SharedState_init :: SharedState where
  "SharedState_init =
     \<lparr>task = [], plan = [], results = [], messages = [], status = Idle, current_step = 0,
      state_max_steps = 20, state_metadata = []\<rparr>"

definition add_message :: "SharedState \<Rightarrow> nat \<Rightarrow> SharedState" where
  "add_message st m = st\<lparr>messages := messages st @ [m]\<rparr>"

definition add_result :: "world \<Rightarrow> SharedState \<Rightarrow> string \<Rightarrow> string \<Rightarrow> SharedState \<times> world" where
  "add_result w st agent result =
     (let st1 = st\<lparr>results := dict_set (results st) agent result\<rparr>;
          (m, w') = Message_init w agent ''system'' result RESULT []
      in (add_message st1 m, w'))"

definition get_result :: "SharedState \<Rightarrow> string \<Rightarrow> string option" where
  "get_result st agent = dict_get (results st) agent"

text \<open>"(no results yet)", or for every agent "[NAME]'s result:" and its result.\<close>

definition result_block :: "string \<times> string \<Rightarrow> string" where
  "result_block nr =
     ''['' @ fst nr @
     ''] '' @ [CHR 0xE7, CHR 0x9A, CHR 0x84, CHR 0xE7, CHR 0xBB, CHR 0x93, CHR 0xE6,
       CHR 0x9E, CHR 0x9C] @ '':'' @ [CHR 0x0A] @ snd nr"

definition get_all_results :: "SharedState \<Rightarrow> string" where
  "get_all_results st =
     (if results st = []
      then ''('' @ [CHR 0xE6, CHR 0x9A, CHR 0x82, CHR 0xE6, CHR 0x97, CHR 0xA0, CHR 0xE7,
       CHR 0xBB, CHR 0x93, CHR 0xE6, CHR 0x9E, CHR 0x9C] @ '')''
      else join [CHR 0x0A, CHR 0x0A] (map result_block (results st)))"

definition get_messages_for :: "world \<Rightarrow> SharedState \<Rightarrow> string \<Rightarrow> nat list" where
  "get_messages_for w st r =
     filter (\<lambda>m. receiver (msg_heap w ! m) = r \<or> receiver (msg_heap w ! m) = ''all'') (messages st)"

definition reset_state :: "SharedState \<Rightarrow> SharedState" where
  "reset_state st =
     st\<lparr>task := [], plan := [], results := [], messages := [], status := Idle,
        current_step := 0, state_metadata := []\<rparr>"

section \<open>multi/base.py: BaseMultiAgent\<close>

record AgentRole =
  r_name :: string
  r_description :: string
  system_prompt :: string
  r_tools :: "string list"

text \<open>A hook is a callback of an observer: called with the event's arguments, it returns or raises.\<close>

type_synonym callback = "hook_event \<Rightarrow> exn option"

record BaseMultiAgent =
  global_tools :: ToolRegistry
  state :: SharedState
  agents :: "(string \<times> ReActAgent) list"
  hooks :: "(string \<times> callback list) list"

definition agent_names :: "'a BaseMultiAgent_scheme \<Rightarrow> string list" where
  "agent_names c = dict_keys (agents c)"

definition get_agent :: "'a BaseMultiAgent_scheme \<Rightarrow> string \<Rightarrow> ReActAgent option" where
  "get_agent c n = dict_get (agents c) n"

text \<open>The registry of a role: the tools of the global registry that the role names.\<close>

fun role_registry :: "ToolRegistry \<Rightarrow> string list \<Rightarrow> ToolRegistry \<Rightarrow> exn + ToolRegistry" where
  "role_registry g [] role_tools = Inr role_tools"
| "role_registry g (tool_name # ns) role_tools =
     (case get g tool_name of
        None \<Rightarrow> role_registry g ns role_tools
      | Some tool \<Rightarrow>
          (case register role_tools tool of
             Inl e \<Rightarrow> Inl e
           | Inr role_tools' \<Rightarrow> role_registry g ns role_tools'))"

text \<open>\<open>add_agent\<close>, with the keyword arguments \<open>mode\<close> and \<open>max_steps\<close> as options.\<close>

definition add_agent ::
  "'a BaseMultiAgent_scheme \<Rightarrow> AgentRole \<Rightarrow> string option \<Rightarrow> int option \<Rightarrow> exn + 'a BaseMultiAgent_scheme" where
  "add_agent c role md ms =
     (case role_registry (global_tools c) (r_tools role) ToolRegistry_init of
        Inl e \<Rightarrow> Inl e
      | Inr role_tools \<Rightarrow>
          (let agent = ReActAgent_init role_tools
                         (case md of None \<Rightarrow> ''function_calling'' | Some m \<Rightarrow> m)
                         (case ms of None \<Rightarrow> 10 | Some n \<Rightarrow> n);
               agent' = agent\<lparr>role_system_prompt := Some (system_prompt role),
                              role_name := Some (r_name role)\<rparr>
           in Inr (c\<lparr>agents := dict_set (agents c) (r_name role) agent'\<rparr>)))"

definition on :: "'a BaseMultiAgent_scheme \<Rightarrow> string \<Rightarrow> callback \<Rightarrow> 'a BaseMultiAgent_scheme" where
  "on c event cb =
     c\<lparr>hooks := dict_set (hooks c) event
                  ((case dict_get (hooks c) event of None \<Rightarrow> [] | Some cbs \<Rightarrow> cbs) @ [cb])\<rparr>"

text \<open>
  \<open>_fire_hook\<close> calls every callback of the event in turn; an exception of a callback is
  caught and dropped, so the next callback runs and the caller goes on.
\<close>

definition fire_hook :: "'a BaseMultiAgent_scheme \<Rightarrow> world \<Rightarrow> string \<Rightarrow> hook_event \<Rightarrow> world" where
  "fire_hook c w event kwargs =
     w\<lparr>hook_calls := hook_calls w @
          map (\<lambda>cb. (event, kwargs, cb kwargs))
              (case dict_get (hooks c) event of None \<Rightarrow> [] | Some cbs \<Rightarrow> cbs)\<rparr>"

text \<open>The reserved prefix of an error text, "error:" with a full-width colon.\<close>

definition error_prefix :: string where
  "error_prefix =
     [CHR 0xE9, CHR 0x94, CHR 0x99, CHR 0xE8, CHR 0xAF, CHR 0xAF, CHR 0xEF, CHR 0xBC,
       CHR 0x9A]"

text \<open>"error: agent 'NAME' does not exist. Available: LIST".\<close>

definition unknown_agent :: "string \<Rightarrow> string \<Rightarrow> string" where
  "unknown_agent agent names =
     [CHR 0xE9, CHR 0x94, CHR 0x99, CHR 0xE8, CHR 0xAF, CHR 0xAF, CHR 0xEF, CHR 0xBC,
       CHR 0x9A] @ ''Agent '' @ [CHR 0x27] @ agent @
     [CHR 0x27] @ '' '' @ [CHR 0xE4, CHR 0xB8, CHR 0x8D, CHR 0xE5, CHR 0xAD, CHR 0x98,
       CHR 0xE5, CHR 0x9C, CHR 0xA8, CHR 0xE3, CHR 0x80, CHR 0x82, CHR 0xE5, CHR 0x8F,
       CHR 0xAF, CHR 0xE7, CHR 0x94, CHR 0xA8, CHR 0xEF, CHR 0xBC, CHR 0x9A] @ names"

text \<open>"[system role instruction]", the role's prompt, "[current task]", the task.\<close>

definition with_role_prompt :: "string \<Rightarrow> string \<Rightarrow> string" where
  "with_role_prompt role_prompt t =
     ''['' @ [CHR 0xE7, CHR 0xB3, CHR 0xBB, CHR 0xE7, CHR 0xBB, CHR 0x9F, CHR 0xE8,
       CHR 0xA7, CHR 0x92, CHR 0xE8, CHR 0x89, CHR 0xB2, CHR 0xE6, CHR 0x8C, CHR 0x87,
       CHR 0xE4, CHR 0xBB, CHR 0xA4] @ '']'' @ [CHR 0x0A] @ role_prompt @
     [CHR 0x0A, CHR 0x0A] @ ''['' @ [CHR 0xE5, CHR 0xBD, CHR 0x93, CHR 0xE5, CHR 0x89,
       CHR 0x8D, CHR 0xE4, CHR 0xBB, CHR 0xBB, CHR 0xE5, CHR 0x8A, CHR 0xA1] @ '']'' @
       [CHR 0x0A] @ t"

text \<open>"error: agent 'NAME' failed: EXCEPTION".\<close>

definition agent_failed :: "string \<Rightarrow> exn \<Rightarrow> string" where
  "agent_failed agent e =
     [CHR 0xE9, CHR 0x94, CHR 0x99, CHR 0xE8, CHR 0xAF, CHR 0xAF, CHR 0xEF, CHR 0xBC,
       CHR 0x9A] @ ''Agent '' @ [CHR 0x27] @ agent @
     [CHR 0x27] @ '' '' @ [CHR 0xE6, CHR 0x89, CHR 0xA7, CHR 0xE8, CHR 0xA1, CHR 0x8C,
       CHR 0xE5, CHR 0xA4, CHR 0xB1, CHR 0xE8, CHR 0xB4, CHR 0xA5, CHR 0xEF, CHR 0xBC,
       CHR 0x9A] @ str_exn e"

text \<open>
  \<open>_dispatch\<close>. The agent is an object the dict \<open>_agents\<close> refers to: what \<open>run\<close> and
  \<open>reset\<close> change is written back under the agent's name.
\<close>

definition dispatch ::
  "'a BaseMultiAgent_scheme \<Rightarrow> world \<Rightarrow> string \<Rightarrow> string
   \<Rightarrow> string \<times> 'a BaseMultiAgent_scheme \<times> world" where
  "dispatch c w agent_name t =
     (let w0 = w\<lparr>dispatches := dispatches w @ [(agent_name, t)]\<rparr>
      in case dict_get (agents c) agent_name of
           None \<Rightarrow> (unknown_agent agent_name (repr_list w0 (agent_names c)), c, w0)
         | Some agent \<Rightarrow>
             (let w1 = fire_hook c w0 ''on_agent_start'' (AgentStart agent_name t);
                  (m, w2) = Message_init w1 ''system'' agent_name t TASK [];
                  c1 = c\<lparr>state := add_message (state c) m\<rparr>;
                  role_prompt = or_empty (role_system_prompt agent);
                  full_task = (if role_prompt \<noteq> [] then with_role_prompt role_prompt t else t);
                  (outcome, agent1, w3) = agent_run w2 agent full_task;
                  (result, w4) =
                    (case outcome of
                       Inr text \<Rightarrow> (text, w3)
                     | Inl e \<Rightarrow>
                         (agent_failed agent_name e,
                          fire_hook c1 w3 ''on_error'' (AgentError agent_name e)));
                  c2 = c1\<lparr>agents := dict_set (agents c1) agent_name (reset agent1)\<rparr>;
                  (st, w5) = add_result w4 (state c2) agent_name result;
                  c3 = c2\<lparr>state := st\<rparr>;
                  w6 = fire_hook c3 w5 ''on_agent_finish'' (AgentFinish agent_name result)
              in (result, c3, w6)))"

text \<open>\<open>_broadcast\<close> assigns to a field of the message it is given and logs the message.\<close>

definition broadcast ::
  "'a BaseMultiAgent_scheme \<Rightarrow> world \<Rightarrow> nat \<Rightarrow> 'a BaseMultiAgent_scheme \<times> world" where
  "broadcast c w m =
     (c\<lparr>state := add_message (state c) m\<rparr>,
      w\<lparr>msg_heap := (msg_heap w)[m := (msg_heap w ! m)\<lparr>receiver := ''all''\<rparr>]\<rparr>)"

section \<open>multi/pipeline.py: PipelineMultiAgent\<close>

text \<open>A step; \<open>transform\<close> is a callable of the caller's, which may raise.\<close>

record PipelineStep =
  agent_name :: string
  task_template :: string
  retry :: int
  transform :: "(string \<Rightarrow> exn + string) option"

record PipelineMultiAgent = BaseMultiAgent +
  steps :: "PipelineStep list"

definition add_step :: "PipelineMultiAgent \<Rightarrow> PipelineStep \<Rightarrow> PipelineMultiAgent" where
  "add_step c step = c\<lparr>steps := steps c @ [step]\<rparr>"

text \<open>
  The loop of \<open>_execute_with_retry\<close> over \<open>range(1, step.retry + 1)\<close>, by the number of
  attempts left, with \<open>last_error\<close> as it stands.
\<close>

fun retry_attempts ::
  "nat \<Rightarrow> 'a BaseMultiAgent_scheme \<Rightarrow> world \<Rightarrow> PipelineStep \<Rightarrow> string \<Rightarrow> string
   \<Rightarrow> string \<times> 'a BaseMultiAgent_scheme \<times> world" where
  "retry_attempts 0 c w step t last_error = (last_error, c, w)"
| "retry_attempts (Suc n) c w step t last_error =
     (let (result, c1, w1) = dispatch c w (agent_name step) t
      in if \<not> prefix error_prefix result then (result, c1, w1)
         else retry_attempts n c1 w1 step t result)"

definition execute_with_retry ::
  "'a BaseMultiAgent_scheme \<Rightarrow> world \<Rightarrow> PipelineStep \<Rightarrow> string
   \<Rightarrow> string \<times> 'a BaseMultiAgent_scheme \<times> world" where
  "execute_with_retry c w step t = retry_attempts (nat (retry step)) c w step t []"

text \<open>"error: the pipeline defines no step".\<close>

definition no_steps :: string where
  "no_steps =
     [CHR 0xE9, CHR 0x94, CHR 0x99, CHR 0xE8, CHR 0xAF, CHR 0xAF, CHR 0xEF, CHR 0xBC,
       CHR 0x9A, CHR 0xE6, CHR 0xB5, CHR 0x81, CHR 0xE6, CHR 0xB0, CHR 0xB4, CHR 0xE7,
       CHR 0xBA, CHR 0xBF, CHR 0xE6, CHR 0xB2, CHR 0xA1, CHR 0xE6, CHR 0x9C, CHR 0x89,
       CHR 0xE5, CHR 0xAE, CHR 0x9A, CHR 0xE4, CHR 0xB9, CHR 0x89, CHR 0xE4, CHR 0xBB,
       CHR 0xBB, CHR 0xE4, CHR 0xBD, CHR 0x95, CHR 0xE6, CHR 0xAD, CHR 0xA5, CHR 0xE9,
       CHR 0xAA, CHR 0xA4, CHR 0xE3, CHR 0x80, CHR 0x82]"

definition plan_line :: "nat \<Rightarrow> PipelineStep \<Rightarrow> string" where
  "plan_line i s = ''Step '' @ str_nat (i + 1) @ '': '' @ agent_name s"

text \<open>
  The loop of \<open>run\<close> over \<open>enumerate(self._steps)\<close>, from index \<open>i\<close> on. An exception of
  \<open>str.format\<close> or of \<open>transform\<close> leaves \<open>run\<close>.
\<close>

fun pipeline_steps ::
  "string \<Rightarrow> nat \<Rightarrow> PipelineStep list \<Rightarrow> 'a BaseMultiAgent_scheme \<Rightarrow> world \<Rightarrow> string \<Rightarrow> string
   \<Rightarrow> (exn + string) \<times> 'a BaseMultiAgent_scheme \<times> world" where
  "pipeline_steps tsk i [] c w prev_result final_result = (Inr final_result, c, w)"
| "pipeline_steps tsk i (step # rest) c w prev_result final_result =
     (let c1 = c\<lparr>state := (state c)\<lparr>current_step := int i + 1\<rparr>\<rparr>
      in case str_format w (task_template step)
                [(''task'', tsk), (''prev_result'', prev_result),
                 (''all_results'', get_all_results (state c1))] of
           Inl e \<Rightarrow> (Inl e, c1, w)
         | Inr rendered_task \<Rightarrow>
             (let (result, c2, w2) = execute_with_retry c1 w step rendered_task
              in case (case transform step of None \<Rightarrow> Inr result | Some f \<Rightarrow> f result) of
                   Inl e \<Rightarrow> (Inl e, c2, w2)
                 | Inr result' \<Rightarrow>
                     (let w3 = fire_hook c2 w2 ''on_step_complete''
                                 (StepComplete (int i + 1) (state c2))
                      in pipeline_steps tsk (i + 1) rest c2 w3 result' result')))"

definition pipeline_run ::
  "PipelineMultiAgent \<Rightarrow> world \<Rightarrow> string \<Rightarrow> (exn + string) \<times> PipelineMultiAgent \<times> world" where
  "pipeline_run c w tsk =
     (if steps c = [] then (Inr no_steps, c, w)
      else
        (let c0 = c\<lparr>state := (reset_state (state c))
                     \<lparr>task := tsk, status := Executing,
                      plan := map (\<lambda>(i, s). plan_line i s) (enumerate 0 (steps c))\<rparr>\<rparr>;
             (outcome, c1, w1) = pipeline_steps tsk 0 (steps c0) c0 w [] []
         in case outcome of
              Inl e \<Rightarrow> (Inl e, c1, w1)
            | Inr final_result \<Rightarrow> (Inr final_result, c1\<lparr>state := (state c1)\<lparr>status := Done\<rparr>\<rparr>, w1)))"

section \<open>multi/orchestrator.py: OrchestratorMultiAgent\<close>

text \<open>
  \<open>PLANNER_PROMPT.format(agents_description=d)\<close>: the text of the template before and
  after its one field, with \<open>{{\<close> and \<open>}}\<close> as the braces they stand for. The template
  tells the planner to split the task, lists the agents and asks for a JSON array of
  objects with the keys \<open>agent\<close> and \<open>task\<close>.
\<close>

definition PLANNER_PROMPT_head :: string where
  "PLANNER_PROMPT_head =
     [CHR 0xE4, CHR 0xBD, CHR 0xA0, CHR 0xE6, CHR 0x98, CHR 0xAF, CHR 0xE4, CHR 0xB8,
       CHR 0x80, CHR 0xE4, CHR 0xB8, CHR 0xAA, CHR 0xE4, CHR 0xBB, CHR 0xBB, CHR 0xE5,
       CHR 0x8A, CHR 0xA1, CHR 0xE8, CHR 0xA7, CHR 0x84, CHR 0xE5, CHR 0x88, CHR 0x92,
       CHR 0xE5, CHR 0x92, CHR 0x8C, CHR 0xE7, CHR 0xBC, CHR 0x96, CHR 0xE6, CHR 0x8E,
       CHR 0x92, CHR 0xE4, CHR 0xB8, CHR 0x93, CHR 0xE5, CHR 0xAE, CHR 0xB6, CHR 0xE3,
       CHR 0x80, CHR 0x82, CHR 0xE4, CHR 0xBD, CHR 0xA0, CHR 0xE9, CHR 0x9C, CHR 0x80,
       CHR 0xE8, CHR 0xA6, CHR 0x81, CHR 0xE5, CHR 0xB0, CHR 0x86, CHR 0xE5, CHR 0xA4,
       CHR 0x8D, CHR 0xE6, CHR 0x9D, CHR 0x82, CHR 0xE4, CHR 0xBB, CHR 0xBB, CHR 0xE5,
       CHR 0x8A, CHR 0xA1, CHR 0xE6, CHR 0x8B, CHR 0x86, CHR 0xE8, CHR 0xA7, CHR 0xA3,
       CHR 0xE4, CHR 0xB8, CHR 0xBA, CHR 0xE5, CHR 0xAD, CHR 0x90, CHR 0xE4, CHR 0xBB,
       CHR 0xBB, CHR 0xE5, CHR 0x8A, CHR 0xA1, CHR 0xEF, CHR 0xBC, CHR 0x8C, CHR 0xE5,
       CHR 0xB9, CHR 0xB6, CHR 0xE5, CHR 0x88, CHR 0x86, CHR 0xE9, CHR 0x85, CHR 0x8D,
       CHR 0xE7, CHR 0xBB, CHR 0x99, CHR 0xE5, CHR 0x90, CHR 0x88, CHR 0xE9, CHR 0x80,
       CHR 0x82, CHR 0xE7, CHR 0x9A, CHR 0x84] @ '' Agent '' @ [CHR 0xE6, CHR 0x89,
       CHR 0xA7, CHR 0xE8, CHR 0xA1, CHR 0x8C, CHR 0xE3, CHR 0x80, CHR 0x82, CHR 0x0A,
       CHR 0x0A, CHR 0xE5, CHR 0x8F, CHR 0xAF, CHR 0xE7, CHR 0x94, CHR 0xA8, CHR 0xE7,
       CHR 0x9A, CHR 0x84] @ '' Agent'' @ [CHR 0xEF, CHR 0xBC, CHR 0x9A, CHR 0x0A]"

definition PLANNER_PROMPT_tail :: string where
  "PLANNER_PROMPT_tail =
     [CHR 0x0A, CHR 0x0A, CHR 0xE4, CHR 0xBD, CHR 0xA0, CHR 0xE9, CHR 0x9C, CHR 0x80,
       CHR 0xE8, CHR 0xA6, CHR 0x81, CHR 0xE8, CHR 0xBE, CHR 0x93, CHR 0xE5, CHR 0x87,
       CHR 0xBA, CHR 0xE4, CHR 0xB8, CHR 0x80, CHR 0xE4, CHR 0xB8, CHR 0xAA] @ '' JSON '' @
       [CHR 0xE6, CHR 0xA0, CHR 0xBC, CHR 0xE5, CHR 0xBC, CHR 0x8F, CHR 0xE7, CHR 0x9A,
       CHR 0x84, CHR 0xE6, CHR 0x89, CHR 0xA7, CHR 0xE8, CHR 0xA1, CHR 0x8C, CHR 0xE8,
       CHR 0xAE, CHR 0xA1, CHR 0xE5, CHR 0x88, CHR 0x92, CHR 0xEF, CHR 0xBC, CHR 0x8C,
       CHR 0xE6, CHR 0xA0, CHR 0xBC, CHR 0xE5, CHR 0xBC, CHR 0x8F, CHR 0xE5, CHR 0xA6,
       CHR 0x82, CHR 0xE4, CHR 0xB8, CHR 0x8B, CHR 0xEF, CHR 0xBC, CHR 0x9A, CHR 0x0A,
       CHR 0x60, CHR 0x60, CHR 0x60] @ ''json'' @ [CHR 0x0A] @ ''['' @ [CHR 0x0A] @
       ''  {'' @ [CHR 0x22] @ ''agent'' @ [CHR 0x22] @ '': '' @ [CHR 0x22] @
       ''agent_name'' @ [CHR 0x22] @ '', '' @ [CHR 0x22] @ ''task'' @ [CHR 0x22] @ '': '' @
       [CHR 0x22, CHR 0xE5, CHR 0x85, CHR 0xB7, CHR 0xE4, CHR 0xBD, CHR 0x93, CHR 0xE7,
       CHR 0x9A, CHR 0x84, CHR 0xE5, CHR 0xAD, CHR 0x90, CHR 0xE4, CHR 0xBB, CHR 0xBB,
       CHR 0xE5, CHR 0x8A, CHR 0xA1, CHR 0xE6, CHR 0x8F, CHR 0x8F, CHR 0xE8, CHR 0xBF,
       CHR 0xB0, CHR 0x22] @ ''},'' @ [CHR 0x0A] @ ''  {'' @ [CHR 0x22] @ ''agent'' @
       [CHR 0x22] @ '': '' @ [CHR 0x22] @ ''agent_name'' @ [CHR 0x22] @ '', '' @
       [CHR 0x22] @ ''task'' @ [CHR 0x22] @ '': '' @ [CHR 0x22, CHR 0xE5, CHR 0x85,
       CHR 0xB7, CHR 0xE4, CHR 0xBD, CHR 0x93, CHR 0xE7, CHR 0x9A, CHR 0x84, CHR 0xE5,
       CHR 0xAD, CHR 0x90, CHR 0xE4, CHR 0xBB, CHR 0xBB, CHR 0xE5, CHR 0x8A, CHR 0xA1,
       CHR 0xE6, CHR 0x8F, CHR 0x8F, CHR 0xE8, CHR 0xBF, CHR 0xB0, CHR 0x22] @ ''}'' @
       [CHR 0x0A] @ '']'' @ [CHR 0x0A, CHR 0x60, CHR 0x60, CHR 0x60, CHR 0x0A, CHR 0x0A,
       CHR 0xE8, CHR 0xA7, CHR 0x84, CHR 0xE5, CHR 0x88, CHR 0x99, CHR 0xEF, CHR 0xBC,
       CHR 0x9A, CHR 0x0A] @ ''- '' @ [CHR 0xE6, CHR 0xAF, CHR 0x8F, CHR 0xE4, CHR 0xB8,
       CHR 0xAA, CHR 0xE5, CHR 0xAD, CHR 0x90, CHR 0xE4, CHR 0xBB, CHR 0xBB, CHR 0xE5,
       CHR 0x8A, CHR 0xA1, CHR 0xE8, CHR 0xA6, CHR 0x81, CHR 0xE5, CHR 0x85, CHR 0xB7,
       CHR 0xE4, CHR 0xBD, CHR 0x93, CHR 0xE6, CHR 0x98, CHR 0x8E, CHR 0xE7, CHR 0xA1,
       CHR 0xAE, CHR 0xEF, CHR 0xBC, CHR 0x8C, CHR 0xE8, CHR 0xAE, CHR 0xA9, CHR 0xE5,
       CHR 0xAF, CHR 0xB9, CHR 0xE5, CHR 0xBA, CHR 0x94, CHR 0xE7, CHR 0x9A, CHR 0x84] @
       '' Agent '' @ [CHR 0xE8, CHR 0x83, CHR 0xBD, CHR 0xE7, CHR 0x9B, CHR 0xB4, CHR 0xE6,
       CHR 0x8E, CHR 0xA5, CHR 0xE6, CHR 0x89, CHR 0xA7, CHR 0xE8, CHR 0xA1, CHR 0x8C,
       CHR 0x0A] @ ''- '' @ [CHR 0xE5, CHR 0x90, CHR 0x88, CHR 0xE7, CHR 0x90, CHR 0x86,
       CHR 0xE5, CHR 0xAE, CHR 0x89, CHR 0xE6, CHR 0x8E, CHR 0x92, CHR 0xE9, CHR 0xA1,
       CHR 0xBA, CHR 0xE5, CHR 0xBA, CHR 0x8F, CHR 0xEF, CHR 0xBC, CHR 0x8C, CHR 0xE5,
       CHR 0x90, CHR 0x8E, CHR 0xE9, CHR 0x9D, CHR 0xA2, CHR 0xE7, CHR 0x9A, CHR 0x84,
       CHR 0xE4, CHR 0xBB, CHR 0xBB, CHR 0xE5, CHR 0x8A, CHR 0xA1, CHR 0xE5, CHR 0x8F,
       CHR 0xAF, CHR 0xE4, CHR 0xBB, CHR 0xA5, CHR 0xE4, CHR 0xBE, CHR 0x9D, CHR 0xE8,
       CHR 0xB5, CHR 0x96, CHR 0xE5, CHR 0x89, CHR 0x8D, CHR 0xE9, CHR 0x9D, CHR 0xA2,
       CHR 0xE7, CHR 0x9A, CHR 0x84, CHR 0xE7, CHR 0xBB, CHR 0x93, CHR 0xE6, CHR 0x9E,
       CHR 0x9C, CHR 0x0A] @ ''- agent '' @ [CHR 0xE5, CHR 0x90, CHR 0x8D, CHR 0xE7,
       CHR 0xA7, CHR 0xB0, CHR 0xE5, CHR 0xBF, CHR 0x85, CHR 0xE9, CHR 0xA1, CHR 0xBB,
       CHR 0xE6, CHR 0x98, CHR 0xAF, CHR 0xE5, CHR 0x8F, CHR 0xAF, CHR 0xE7, CHR 0x94,
       CHR 0xA8] @ '' Agent '' @ [CHR 0xE4, CHR 0xB9, CHR 0x8B, CHR 0xE4, CHR 0xB8,
       CHR 0x80, CHR 0x0A] @ ''- '' @ [CHR 0xE5, CHR 0x8F, CHR 0xAA, CHR 0xE8, CHR 0xBE,
       CHR 0x93, CHR 0xE5, CHR 0x87, CHR 0xBA] @ '' JSON'' @ [CHR 0xEF, CHR 0xBC, CHR 0x8C,
       CHR 0xE4, CHR 0xB8, CHR 0x8D, CHR 0xE8, CHR 0xA6, CHR 0x81, CHR 0xE8, CHR 0xBE,
       CHR 0x93, CHR 0xE5, CHR 0x87, CHR 0xBA, CHR 0xE5, CHR 0x85, CHR 0xB6, CHR 0xE4,
       CHR 0xBB, CHR 0x96, CHR 0xE5, CHR 0x86, CHR 0x85, CHR 0xE5, CHR 0xAE, CHR 0xB9]"

definition PLANNER_PROMPT_format :: "string \<Rightarrow> string" where
  "PLANNER_PROMPT_format agents_description =
     PLANNER_PROMPT_head @ agents_description @ PLANNER_PROMPT_tail"

text \<open>
  \<open>SUMMARIZER_PROMPT.format(task=t, all_results=r)\<close>: the template asks for one
  structured answer from the task and the agents' results.
\<close>

definition SUMMARIZER_PROMPT_head :: string where
  "SUMMARIZER_PROMPT_head =
     [CHR 0xE4, CHR 0xBD, CHR 0xA0, CHR 0xE6, CHR 0x98, CHR 0xAF, CHR 0xE4, CHR 0xB8,
       CHR 0x80, CHR 0xE4, CHR 0xB8, CHR 0xAA, CHR 0xE6, CHR 0xB1, CHR 0x87, CHR 0xE6,
       CHR 0x80, CHR 0xBB, CHR 0xE4, CHR 0xB8, CHR 0x93, CHR 0xE5, CHR 0xAE, CHR 0xB6,
       CHR 0xE3, CHR 0x80, CHR 0x82, CHR 0xE8, CHR 0xAF, CHR 0xB7, CHR 0xE6, CHR 0xA0,
       CHR 0xB9, CHR 0xE6, CHR 0x8D, CHR 0xAE, CHR 0xE4, CHR 0xBB, CHR 0xA5, CHR 0xE4,
       CHR 0xB8, CHR 0x8B, CHR 0xE5, CHR 0x90, CHR 0x84, CHR 0xE4, CHR 0xB8, CHR 0xAA] @
       '' Agent '' @ [CHR 0xE7, CHR 0x9A, CHR 0x84, CHR 0xE6, CHR 0x89, CHR 0xA7, CHR 0xE8,
       CHR 0xA1, CHR 0x8C, CHR 0xE7, CHR 0xBB, CHR 0x93, CHR 0xE6, CHR 0x9E, CHR 0x9C,
       CHR 0xEF, CHR 0xBC, CHR 0x8C, CHR 0xE7, CHR 0xBB, CHR 0xBC, CHR 0xE5, CHR 0x90,
       CHR 0x88, CHR 0xE7, CHR 0x94, CHR 0x9F, CHR 0xE6, CHR 0x88, CHR 0x90, CHR 0xE4,
       CHR 0xB8, CHR 0x80, CHR 0xE4, CHR 0xB8, CHR 0xAA, CHR 0xE5, CHR 0xAE, CHR 0x8C,
       CHR 0xE6, CHR 0x95, CHR 0xB4, CHR 0xE3, CHR 0x80, CHR 0x81, CHR 0xE7, CHR 0xBB,
       CHR 0x93, CHR 0xE6, CHR 0x9E, CHR 0x84, CHR 0xE5, CHR 0x8C, CHR 0x96, CHR 0xE7,
       CHR 0x9A, CHR 0x84, CHR 0xE6, CHR 0x9C, CHR 0x80, CHR 0xE7, CHR 0xBB, CHR 0x88,
       CHR 0xE5, CHR 0x9B, CHR 0x9E, CHR 0xE7, CHR 0xAD, CHR 0x94, CHR 0xE3, CHR 0x80,
       CHR 0x82, CHR 0x0A, CHR 0x0A, CHR 0xE5, CHR 0x8E, CHR 0x9F, CHR 0xE5, CHR 0xA7,
       CHR 0x8B, CHR 0xE4, CHR 0xBB, CHR 0xBB, CHR 0xE5, CHR 0x8A, CHR 0xA1, CHR 0xEF,
       CHR 0xBC, CHR 0x9A]"

definition SUMMARIZER_PROMPT_mid :: string where
  "SUMMARIZER_PROMPT_mid =
     [CHR 0x0A, CHR 0x0A, CHR 0xE5, CHR 0x90, CHR 0x84] @ '' Agent '' @ [CHR 0xE7,
       CHR 0x9A, CHR 0x84, CHR 0xE6, CHR 0x89, CHR 0xA7, CHR 0xE8, CHR 0xA1, CHR 0x8C,
       CHR 0xE7, CHR 0xBB, CHR 0x93, CHR 0xE6, CHR 0x9E, CHR 0x9C, CHR 0xEF, CHR 0xBC,
       CHR 0x9A, CHR 0x0A]"

definition SUMMARIZER_PROMPT_tail :: string where
  "SUMMARIZER_PROMPT_tail =
     [CHR 0x0A, CHR 0x0A, CHR 0xE8, CHR 0xAF, CHR 0xB7, CHR 0xE7, CHR 0xBB, CHR 0xBC,
       CHR 0xE5, CHR 0x90, CHR 0x88, CHR 0xE4, CHR 0xBB, CHR 0xA5, CHR 0xE4, CHR 0xB8,
       CHR 0x8A, CHR 0xE4, CHR 0xBF, CHR 0xA1, CHR 0xE6, CHR 0x81, CHR 0xAF, CHR 0xEF,
       CHR 0xBC, CHR 0x8C, CHR 0xE7, CHR 0xBB, CHR 0x99, CHR 0xE5, CHR 0x87, CHR 0xBA,
       CHR 0xE5, CHR 0xAE, CHR 0x8C, CHR 0xE6, CHR 0x95, CHR 0xB4, CHR 0xE7, CHR 0x9A,
       CHR 0x84, CHR 0xE6, CHR 0x9C, CHR 0x80, CHR 0xE7, CHR 0xBB, CHR 0x88, CHR 0xE5,
       CHR 0x9B, CHR 0x9E, CHR 0xE7, CHR 0xAD, CHR 0x94, CHR 0xE3, CHR 0x80, CHR 0x82,
       CHR 0xE8, CHR 0xA6, CHR 0x81, CHR 0xE6, CHR 0xB1, CHR 0x82, CHR 0xEF, CHR 0xBC,
       CHR 0x9A, CHR 0x0A] @ ''- '' @ [CHR 0xE7, CHR 0xBB, CHR 0x93, CHR 0xE6, CHR 0x9E,
       CHR 0x84, CHR 0xE6, CHR 0xB8, CHR 0x85, CHR 0xE6, CHR 0x99, CHR 0xB0, CHR 0xEF,
       CHR 0xBC, CHR 0x8C, CHR 0xE4, CHR 0xBD, CHR 0xBF, CHR 0xE7, CHR 0x94, CHR 0xA8,
       CHR 0xE6, CHR 0xA0, CHR 0x87, CHR 0xE9, CHR 0xA2, CHR 0x98, CHR 0xE5, CHR 0x92,
       CHR 0x8C, CHR 0xE5, CHR 0x88, CHR 0x97, CHR 0xE8, CHR 0xA1, CHR 0xA8, CHR 0x0A] @
       ''- '' @ [CHR 0xE6, CHR 0xB6, CHR 0xB5, CHR 0xE7, CHR 0x9B, CHR 0x96, CHR 0xE6,
       CHR 0x89, CHR 0x80, CHR 0xE6, CHR 0x9C, CHR 0x89] @ '' Agent '' @ [CHR 0xE6,
       CHR 0x8F, CHR 0x90, CHR 0xE4, CHR 0xBE, CHR 0x9B, CHR 0xE7, CHR 0x9A, CHR 0x84,
       CHR 0xE5, CHR 0x85, CHR 0xB3, CHR 0xE9, CHR 0x94, CHR 0xAE, CHR 0xE4, CHR 0xBF,
       CHR 0xA1, CHR 0xE6, CHR 0x81, CHR 0xAF, CHR 0x0A] @ ''- '' @ [CHR 0xE8, CHR 0xAF,
       CHR 0xAD, CHR 0xE8, CHR 0xA8, CHR 0x80, CHR 0xE7, CHR 0xAE, CHR 0x80, CHR 0xE6,
       CHR 0xB4, CHR 0x81, CHR 0xE4, CHR 0xB8, CHR 0x93, CHR 0xE4, CHR 0xB8, CHR 0x9A]"

definition SUMMARIZER_PROMPT_format :: "string \<Rightarrow> string \<Rightarrow> string" where
  "SUMMARIZER_PROMPT_format t all_results =
     SUMMARIZER_PROMPT_head @ t @ SUMMARIZER_PROMPT_mid @ all_results @ SUMMARIZER_PROMPT_tail"

record OrchestratorMultiAgent = BaseMultiAgent +
  max_replan :: int

text \<open>
  \<open>re.search(r"\[.*\]", text, re.DOTALL)\<close>: with \<open>.\<close> matching every character the
  match runs from the first \<open>[\<close> to the last \<open>]\<close> of the text, and there is none when no
  \<open>]\<close> follows the first \<open>[\<close>. Both brackets are ASCII, so bytes and characters agree.
\<close>

definition search_bracketed :: "string \<Rightarrow> string option" where
  "search_bracketed text =
     (let from_open = dropWhile (\<lambda>ch. ch \<noteq> CHR ''['') text
      in if from_open = [] then None
         else if CHR '']'' \<in> set from_open
              then Some (rev (dropWhile (\<lambda>ch. ch \<noteq> CHR '']'') (rev from_open)))
              else None)"

text \<open>An item of the plan is kept when it is a dict with both keys.\<close>

definition validated :: "json \<Rightarrow> (json \<times> json) option" where
  "validated item =
     (case item of
        JObj kv \<Rightarrow>
          (case (dict_get kv ''agent'', dict_get kv ''task'') of
             (Some a, Some t) \<Rightarrow> Some (a, t)
           | _ \<Rightarrow> None)
      | _ \<Rightarrow> None)"

text \<open>
  \<open>_parse_plan\<close>. A plan entry is the pair of the values under \<open>agent\<close> and \<open>task\<close>.
  A decoded value that is no array gives no entry: the loop over a dict or a string
  meets no dict, and the loop over any other value raises the \<open>TypeError\<close> that is caught.
\<close>

definition parse_plan :: "world \<Rightarrow> string \<Rightarrow> (json \<times> json) list" where
  "parse_plan w text =
     (case search_bracketed text of
        None \<Rightarrow> []
      | Some json_match \<Rightarrow>
          (case json_loads w json_match of
             None \<Rightarrow> []
           | Some (JArr items) \<Rightarrow> List.map_filter validated items
           | Some _ \<Rightarrow> []))"

text \<open>The first \<open>n\<close> characters of a text in UTF-8: a character is a byte and the continuation bytes after it.\<close>

definition continuation :: "char \<Rightarrow> bool" where
  "continuation ch = (128 \<le> (of_char ch :: nat) \<and> (of_char ch :: nat) < 192)"

fun take_chars :: "nat \<Rightarrow> string \<Rightarrow> string" where
  "take_chars 0 s = []"
| "take_chars (Suc n) [] = []"
| "take_chars (Suc n) (ch # s) =
     ch # takeWhile continuation s @ take_chars n (dropWhile continuation s)"

text \<open>"- NAME: " and the first 80 characters of the agent's role prompt ("generic agent" without one), then "...".\<close>

definition agent_line :: "string \<times> ReActAgent \<Rightarrow> string" where
  "agent_line na =
     ''- '' @ fst na @ '': '' @
     take_chars 80 (case role_system_prompt (snd na) of
                      None \<Rightarrow> [CHR 0xE9, CHR 0x80, CHR 0x9A, CHR 0xE7, CHR 0x94, CHR 0xA8] @ ''Agent''
                    | Some p \<Rightarrow> p) @ ''...''"

definition make_plan ::
  "'a BaseMultiAgent_scheme \<Rightarrow> world \<Rightarrow> string \<Rightarrow> (exn + (json \<times> json) list) \<times> world" where
  "make_plan c w tsk =
     (let agents_desc = join [CHR 0x0A] (map agent_line (agents c));
          prompt = PLANNER_PROMPT_format agents_desc;
          (response, w') = chat_simple w tsk prompt
      in case response of
           Inl e \<Rightarrow> (Inl e, w')
         | Inr text \<Rightarrow> (Inr (parse_plan w' text), w'))"

definition summarize ::
  "'a BaseMultiAgent_scheme \<Rightarrow> world \<Rightarrow> string \<Rightarrow> (exn + string) \<times> world" where
  "summarize c w tsk =
     chat_simple w (SUMMARIZER_PROMPT_format tsk (get_all_results (state c))) []"

text \<open>"error: no plan could be made".\<close>

definition no_plan :: string where
  "no_plan =
     [CHR 0xE9, CHR 0x94, CHR 0x99, CHR 0xE8, CHR 0xAF, CHR 0xAF, CHR 0xEF, CHR 0xBC,
       CHR 0x9A, CHR 0xE6, CHR 0x97, CHR 0xA0, CHR 0xE6, CHR 0xB3, CHR 0x95, CHR 0xE7,
       CHR 0x94, CHR 0x9F, CHR 0xE6, CHR 0x88, CHR 0x90, CHR 0xE6, CHR 0x89, CHR 0xA7,
       CHR 0xE8, CHR 0xA1, CHR 0x8C, CHR 0xE8, CHR 0xAE, CHR 0xA1, CHR 0xE5, CHR 0x88,
       CHR 0x92, CHR 0xE3, CHR 0x80, CHR 0x82]"

text \<open>"[reference] the results of the steps before:" and the results.\<close>

definition with_results :: "string \<Rightarrow> string \<Rightarrow> string" where
  "with_results sub_task all_results =
     sub_task @
     [CHR 0x0A, CHR 0x0A] @ ''['' @ [CHR 0xE5, CHR 0x8F, CHR 0x82, CHR 0xE8, CHR 0x80,
       CHR 0x83, CHR 0xE4, CHR 0xBF, CHR 0xA1, CHR 0xE6, CHR 0x81, CHR 0xAF] @ ''] '' @
       [CHR 0xE5, CHR 0x89, CHR 0x8D, CHR 0xE9, CHR 0x9D, CHR 0xA2, CHR 0xE6, CHR 0xAD,
       CHR 0xA5, CHR 0xE9, CHR 0xAA, CHR 0xA4, CHR 0xE7, CHR 0x9A, CHR 0x84, CHR 0xE7,
       CHR 0xBB, CHR 0x93, CHR 0xE6, CHR 0x9E, CHR 0x9C] @ '':'' @ [CHR 0x0A] @ all_results"

text \<open>
  The loop of \<open>run\<close> over \<open>enumerate(plan)\<close>, from index \<open>i\<close> on. The plan is annotated
  \<open>list[dict[str, str]]\<close>; for an entry whose agent or task is no string the source's
  behaviour depends on the run-time type, and the model stops there with an exception.
\<close>

fun execute_plan ::
  "nat \<Rightarrow> (json \<times> json) list \<Rightarrow> 'a BaseMultiAgent_scheme \<Rightarrow> world
   \<Rightarrow> (exn + unit) \<times> 'a BaseMultiAgent_scheme \<times> world" where
  "execute_plan i [] c w = (Inr (), c, w)"
| "execute_plan i ((JStr agent, JStr step_task) # rest) c w =
     (let c1 = c\<lparr>state := (state c)\<lparr>current_step := int i + 1\<rparr>\<rparr>;
          sub_task = (if results (state c1) \<noteq> []
                      then with_results step_task (get_all_results (state c1))
                      else step_task)
      in if agent \<notin> set (dict_keys (agents c1)) then execute_plan (i + 1) rest c1 w
         else (let (result, c2, w2) = dispatch c1 w agent sub_task;
                   w3 = fire_hook c2 w2 ''on_step_complete'' (StepComplete (int i + 1) (state c2))
               in execute_plan (i + 1) rest c2 w3))"
| "execute_plan i (entry # rest) c w =
     (Inl (Exception ''TypeError''), c\<lparr>state := (state c)\<lparr>current_step := int i + 1\<rparr>\<rparr>, w)"

text \<open>\<open>str\<close> of a value of the plan, for the plan's lines; \<open>json.dumps\<close> stands in for a value that is no string.\<close>

definition plan_entry_line :: "world \<Rightarrow> json \<times> json \<Rightarrow> string" where
  "plan_entry_line w p =
     (case fst p of JStr a \<Rightarrow> a | v \<Rightarrow> json_dumps w v) @ '': '' @
     (case snd p of JStr t \<Rightarrow> t | v \<Rightarrow> json_dumps w v)"

definition orchestrator_run ::
  "OrchestratorMultiAgent \<Rightarrow> world \<Rightarrow> string
   \<Rightarrow> (exn + string) \<times> OrchestratorMultiAgent \<times> world" where
  "orchestrator_run c w tsk =
     (let c0 = c\<lparr>state := (reset_state (state c))\<lparr>task := tsk, status := Planning\<rparr>\<rparr>;
          (planned, w1) = make_plan c0 w tsk
      in case planned of
           Inl e \<Rightarrow> (Inl e, c0, w1)
         | Inr pl \<Rightarrow>
             if pl = [] then (Inr no_plan, c0, w1)
             else
               (let c1 = c0\<lparr>state := (state c0)
                            \<lparr>plan := map (plan_entry_line w1) pl, status := Executing\<rparr>\<rparr>;
                    (walked, c2, w2) = execute_plan 0 pl c1 w1
                in case walked of
                     Inl e \<Rightarrow> (Inl e, c2, w2)
                   | Inr u \<Rightarrow>
                       (let c3 = c2\<lparr>state := (state c2)\<lparr>status := Reviewing\<rparr>\<rparr>;
                            (final, w3) = summarize c3 w2 tsk
                        in case final of
                             Inl e \<Rightarrow> (Inl e, c3, w3)
                           | Inr text \<Rightarrow>
                               (Inr text, c3\<lparr>state := (state c3)\<lparr>status := Done\<rparr>\<rparr>, w3))))"

section \<open>multi/debate.py: DebateMultiAgent\<close>

text \<open>
  \<open>JUDGE_PROMPT.format(topic=t, rounds_summary=s)\<close>: the template names the topic,
  gives the rounds and asks the judge for a reasoned verdict.
\<close>

definition JUDGE_PROMPT_head :: string where
  "JUDGE_PROMPT_head =
     [CHR 0xE4, CHR 0xBD, CHR 0xA0, CHR 0xE6, CHR 0x98, CHR 0xAF, CHR 0xE4, CHR 0xB8,
       CHR 0x80, CHR 0xE4, CHR 0xB8, CHR 0xAA, CHR 0xE5, CHR 0x85, CHR 0xAC, CHR 0xE6,
       CHR 0xAD, CHR 0xA3, CHR 0xE7, CHR 0x9A, CHR 0x84, CHR 0xE8, CHR 0xA3, CHR 0x81,
       CHR 0xE5, CHR 0x88, CHR 0xA4, CHR 0xE3, CHR 0x80, CHR 0x82, CHR 0xE5, CHR 0xA4,
       CHR 0x9A, CHR 0xE4, CHR 0xBD, CHR 0x8D, CHR 0xE4, CHR 0xB8, CHR 0x93, CHR 0xE5,
       CHR 0xAE, CHR 0xB6, CHR 0xE5, CHR 0x9B, CHR 0xB4, CHR 0xE7, CHR 0xBB, CHR 0x95,
       CHR 0xE4, CHR 0xBB, CHR 0xA5, CHR 0xE4, CHR 0xB8, CHR 0x8B, CHR 0xE8, CHR 0xAF,
       CHR 0x9D, CHR 0xE9, CHR 0xA2, CHR 0x98, CHR 0xE8, CHR 0xBF, CHR 0x9B, CHR 0xE8,
       CHR 0xA1, CHR 0x8C, CHR 0xE4, CHR 0xBA, CHR 0x86, CHR 0xE8, CHR 0xBE, CHR 0xA9,
       CHR 0xE8, CHR 0xAE, CHR 0xBA, CHR 0xEF, CHR 0xBC, CHR 0x8C, CHR 0xE8, CHR 0xAF,
       CHR 0xB7, CHR 0xE4, CHR 0xBD, CHR 0xA0, CHR 0xE7, CHR 0xBB, CHR 0xBC, CHR 0xE5,
       CHR 0x90, CHR 0x88, CHR 0xE6, CHR 0x89, CHR 0x80, CHR 0xE6, CHR 0x9C, CHR 0x89,
       CHR 0xE8, CHR 0xA7, CHR 0x82, CHR 0xE7, CHR 0x82, CHR 0xB9, CHR 0xEF, CHR 0xBC,
       CHR 0x8C, CHR 0xE7, CHR 0xBB, CHR 0x99, CHR 0xE5, CHR 0x87, CHR 0xBA, CHR 0xE6,
       CHR 0x9C, CHR 0x80, CHR 0xE7, CHR 0xBB, CHR 0x88, CHR 0xE8, CHR 0xA3, CHR 0x81,
       CHR 0xE5, CHR 0x86, CHR 0xB3, CHR 0xE3, CHR 0x80, CHR 0x82, CHR 0x0A, CHR 0x0A,
       CHR 0xE5, CHR 0x8E, CHR 0x9F, CHR 0xE5, CHR 0xA7, CHR 0x8B, CHR 0xE8, CHR 0xAF,
       CHR 0x9D, CHR 0xE9, CHR 0xA2, CHR 0x98, CHR 0xEF, CHR 0xBC, CHR 0x9A]"

definition JUDGE_PROMPT_mid :: string where
  "JUDGE_PROMPT_mid =
     [CHR 0x0A, CHR 0x0A]"

definition JUDGE_PROMPT_tail :: string where
  "JUDGE_PROMPT_tail =
     [CHR 0x0A, CHR 0x0A, CHR 0xE8, CHR 0xAF, CHR 0xB7, CHR 0xE4, CHR 0xBD, CHR 0xA0,
       CHR 0xEF, CHR 0xBC, CHR 0x9A, CHR 0x0A] @ ''1. '' @ [CHR 0xE6, CHR 0x80, CHR 0xBB,
       CHR 0xE7, CHR 0xBB, CHR 0x93, CHR 0xE5, CHR 0x90, CHR 0x84, CHR 0xE6, CHR 0x96,
       CHR 0xB9, CHR 0xE7, CHR 0x9A, CHR 0x84, CHR 0xE6, CHR 0xA0, CHR 0xB8, CHR 0xE5,
       CHR 0xBF, CHR 0x83, CHR 0xE8, CHR 0xA7, CHR 0x82, CHR 0xE7, CHR 0x82, CHR 0xB9,
       CHR 0xE5, CHR 0x92, CHR 0x8C, CHR 0xE8, CHR 0xAE, CHR 0xBA, CHR 0xE6, CHR 0x8D,
       CHR 0xAE, CHR 0x0A] @ ''2. '' @ [CHR 0xE5, CHR 0x88, CHR 0x86, CHR 0xE6, CHR 0x9E,
       CHR 0x90, CHR 0xE5, CHR 0x90, CHR 0x84, CHR 0xE6, CHR 0x96, CHR 0xB9, CHR 0xE8,
       CHR 0xA7, CHR 0x82, CHR 0xE7, CHR 0x82, CHR 0xB9, CHR 0xE7, CHR 0x9A, CHR 0x84,
       CHR 0xE4, CHR 0xBC, CHR 0x98, CHR 0xE7, CHR 0xBC, CHR 0xBA, CHR 0xE7, CHR 0x82,
       CHR 0xB9, CHR 0x0A] @ ''3. '' @ [CHR 0xE7, CHR 0xBB, CHR 0x99, CHR 0xE5, CHR 0x87,
       CHR 0xBA, CHR 0xE4, CHR 0xBD, CHR 0xA0, CHR 0xE7, CHR 0x9A, CHR 0x84, CHR 0xE6,
       CHR 0x9C, CHR 0x80, CHR 0xE7, CHR 0xBB, CHR 0x88, CHR 0xE7, CHR 0xBB, CHR 0x93,
       CHR 0xE8, CHR 0xAE, CHR 0xBA, CHR 0xE5, CHR 0x92, CHR 0x8C, CHR 0xE5, CHR 0xBB,
       CHR 0xBA, CHR 0xE8, CHR 0xAE, CHR 0xAE, CHR 0x0A] @ ''4. '' @ [CHR 0xE8, CHR 0xAF,
       CHR 0xB4, CHR 0xE6, CHR 0x98, CHR 0x8E, CHR 0xE4, CHR 0xBD, CHR 0xA0, CHR 0xE7,
       CHR 0x9A, CHR 0x84, CHR 0xE8, CHR 0xA3, CHR 0x81, CHR 0xE5, CHR 0x86, CHR 0xB3,
       CHR 0xE7, CHR 0x90, CHR 0x86, CHR 0xE7, CHR 0x94, CHR 0xB1, CHR 0x0A, CHR 0x0A,
       CHR 0xE8, CHR 0xA6, CHR 0x81, CHR 0xE6, CHR 0xB1, CHR 0x82, CHR 0xEF, CHR 0xBC,
       CHR 0x9A, CHR 0xE5, CHR 0xAE, CHR 0xA2, CHR 0xE8, CHR 0xA7, CHR 0x82, CHR 0xE5,
       CHR 0x85, CHR 0xAC, CHR 0xE6, CHR 0xAD, CHR 0xA3, CHR 0xEF, CHR 0xBC, CHR 0x8C,
       CHR 0xE8, CHR 0xAE, CHR 0xBA, CHR 0xE6, CHR 0x8D, CHR 0xAE, CHR 0xE5, CHR 0x85,
       CHR 0x85, CHR 0xE5, CHR 0x88, CHR 0x86, CHR 0xEF, CHR 0xBC, CHR 0x8C, CHR 0xE7,
       CHR 0xBB, CHR 0x93, CHR 0xE8, CHR 0xAE, CHR 0xBA, CHR 0xE6, CHR 0x98, CHR 0x8E,
       CHR 0xE7, CHR 0xA1, CHR 0xAE, CHR 0xE3, CHR 0x80, CHR 0x82]"

definition JUDGE_PROMPT_format :: "string \<Rightarrow> string \<Rightarrow> string" where
  "JUDGE_PROMPT_format topic rounds_summary =
     JUDGE_PROMPT_head @ topic @ JUDGE_PROMPT_mid @ rounds_summary @ JUDGE_PROMPT_tail"

record DebateMultiAgent = BaseMultiAgent +
  max_rounds :: int
  judge_role :: "AgentRole option"
  debater_names :: "string list"

definition set_judge :: "DebateMultiAgent \<Rightarrow> AgentRole \<Rightarrow> exn + DebateMultiAgent" where
  "set_judge c role = add_agent (c\<lparr>judge_role := Some role\<rparr>) role None None"

definition add_debater ::
  "DebateMultiAgent \<Rightarrow> AgentRole \<Rightarrow> string option \<Rightarrow> int option \<Rightarrow> exn + DebateMultiAgent" where
  "add_debater c role md ms =
     (case add_agent c role md ms of
        Inl e \<Rightarrow> Inl e
      | Inr c' \<Rightarrow> Inr (c'\<lparr>debater_names := debater_names c' @ [r_name role]\<rparr>))"

text \<open>"error: there is no debater" and "error: no judge is set".\<close>

definition no_debaters :: string where
  "no_debaters =
     [CHR 0xE9, CHR 0x94, CHR 0x99, CHR 0xE8, CHR 0xAF, CHR 0xAF, CHR 0xEF, CHR 0xBC,
       CHR 0x9A, CHR 0xE6, CHR 0xB2, CHR 0xA1, CHR 0xE6, CHR 0x9C, CHR 0x89, CHR 0xE8,
       CHR 0xBE, CHR 0xA9, CHR 0xE8, CHR 0xAE, CHR 0xBA, CHR 0xE5, CHR 0x8F, CHR 0x82,
       CHR 0xE4, CHR 0xB8, CHR 0x8E, CHR 0xE8, CHR 0x80, CHR 0x85, CHR 0xE3, CHR 0x80,
       CHR 0x82]"

definition no_judge :: string where
  "no_judge =
     [CHR 0xE9, CHR 0x94, CHR 0x99, CHR 0xE8, CHR 0xAF, CHR 0xAF, CHR 0xEF, CHR 0xBC,
       CHR 0x9A, CHR 0xE6, CHR 0xB2, CHR 0xA1, CHR 0xE6, CHR 0x9C, CHR 0x89, CHR 0xE8,
       CHR 0xAE, CHR 0xBE, CHR 0xE7, CHR 0xBD, CHR 0xAE, CHR 0xE8, CHR 0xA3, CHR 0x81,
       CHR 0xE5, CHR 0x88, CHR 0xA4, CHR 0xE3, CHR 0x80, CHR 0x82]"

text \<open>The task of round 1: "give your view on this topic:", the topic, "give your points, arguments and conclusion".\<close>

definition first_round_task :: "string \<Rightarrow> string" where
  "first_round_task tsk =
     [CHR 0xE8, CHR 0xAF, CHR 0xB7, CHR 0xE5, CHR 0xB0, CHR 0xB1, CHR 0xE4, CHR 0xBB,
       CHR 0xA5, CHR 0xE4, CHR 0xB8, CHR 0x8B, CHR 0xE8, CHR 0xAF, CHR 0x9D, CHR 0xE9,
       CHR 0xA2, CHR 0x98, CHR 0xE5, CHR 0x8F, CHR 0x91, CHR 0xE8, CHR 0xA1, CHR 0xA8,
       CHR 0xE4, CHR 0xBD, CHR 0xA0, CHR 0xE7, CHR 0x9A, CHR 0x84, CHR 0xE8, CHR 0xA7,
       CHR 0x82, CHR 0xE7, CHR 0x82, CHR 0xB9, CHR 0xEF, CHR 0xBC, CHR 0x9A, CHR 0x0A,
       CHR 0x0A] @ tsk @
     [CHR 0x0A, CHR 0x0A, CHR 0xE8, CHR 0xA6, CHR 0x81, CHR 0xE6, CHR 0xB1, CHR 0x82,
       CHR 0xEF, CHR 0xBC, CHR 0x9A, CHR 0xE7, CHR 0xBB, CHR 0x99, CHR 0xE5, CHR 0x87,
       CHR 0xBA, CHR 0xE4, CHR 0xBD, CHR 0xA0, CHR 0xE7, CHR 0x9A, CHR 0x84, CHR 0xE6,
       CHR 0xA0, CHR 0xB8, CHR 0xE5, CHR 0xBF, CHR 0x83, CHR 0xE8, CHR 0xA7, CHR 0x82,
       CHR 0xE7, CHR 0x82, CHR 0xB9, CHR 0xE3, CHR 0x80, CHR 0x81, CHR 0xE8, CHR 0xAE,
       CHR 0xBA, CHR 0xE6, CHR 0x8D, CHR 0xAE, CHR 0xE5, CHR 0x92, CHR 0x8C, CHR 0xE7,
       CHR 0xBB, CHR 0x93, CHR 0xE8, CHR 0xAE, CHR 0xBA, CHR 0xE3, CHR 0x80, CHR 0x82]"

text \<open>
  The task of a later round: "topic:", the topic, "the views of the other participants
  in the rounds before:", those views, and "answer them; give your updated points".
\<close>

definition later_round_task :: "string \<Rightarrow> string \<Rightarrow> string" where
  "later_round_task tsk others_opinions =
     [CHR 0xE8, CHR 0xAF, CHR 0x9D, CHR 0xE9, CHR 0xA2, CHR 0x98, CHR 0xEF, CHR 0xBC,
       CHR 0x9A] @ tsk @
     [CHR 0x0A, CHR 0x0A, CHR 0xE4, CHR 0xBB, CHR 0xA5, CHR 0xE4, CHR 0xB8, CHR 0x8B,
       CHR 0xE6, CHR 0x98, CHR 0xAF, CHR 0xE5, CHR 0x85, CHR 0xB6, CHR 0xE4, CHR 0xBB,
       CHR 0x96, CHR 0xE5, CHR 0x8F, CHR 0x82, CHR 0xE4, CHR 0xB8, CHR 0x8E, CHR 0xE8,
       CHR 0x80, CHR 0x85, CHR 0xE5, CHR 0x9C, CHR 0xA8, CHR 0xE4, CHR 0xB9, CHR 0x8B,
       CHR 0xE5, CHR 0x89, CHR 0x8D, CHR 0xE8, CHR 0xBD, CHR 0xAE, CHR 0xE6, CHR 0xAC,
       CHR 0xA1, CHR 0xE7, CHR 0x9A, CHR 0x84, CHR 0xE8, CHR 0xA7, CHR 0x82, CHR 0xE7,
       CHR 0x82, CHR 0xB9, CHR 0xEF, CHR 0xBC, CHR 0x9A, CHR 0x0A] @ others_opinions @
     [CHR 0x0A, CHR 0x0A, CHR 0xE8, CHR 0xAF, CHR 0xB7, CHR 0xE4, CHR 0xBD, CHR 0xA0,
       CHR 0xE9, CHR 0x92, CHR 0x88, CHR 0xE5, CHR 0xAF, CHR 0xB9, CHR 0xE5, CHR 0x85,
       CHR 0xB6, CHR 0xE4, CHR 0xBB, CHR 0x96, CHR 0xE4, CHR 0xBA, CHR 0xBA, CHR 0xE7,
       CHR 0x9A, CHR 0x84, CHR 0xE8, CHR 0xA7, CHR 0x82, CHR 0xE7, CHR 0x82, CHR 0xB9,
       CHR 0xE8, CHR 0xBF, CHR 0x9B, CHR 0xE8, CHR 0xA1, CHR 0x8C, CHR 0xE5, CHR 0x9B,
       CHR 0x9E, CHR 0xE5, CHR 0xBA, CHR 0x94, CHR 0xEF, CHR 0xBC, CHR 0x8C, CHR 0xE5,
       CHR 0x8F, CHR 0xAF, CHR 0xE4, CHR 0xBB, CHR 0xA5, CHR 0xE5, CHR 0x8F, CHR 0x8D,
       CHR 0xE9, CHR 0xA9, CHR 0xB3, CHR 0xE3, CHR 0x80, CHR 0x81, CHR 0xE8, CHR 0xA1,
       CHR 0xA5, CHR 0xE5, CHR 0x85, CHR 0x85, CHR 0xE6, CHR 0x88, CHR 0x96, CHR 0xE4,
       CHR 0xBF, CHR 0xAE, CHR 0xE6, CHR 0xAD, CHR 0xA3, CHR 0xE8, CHR 0x87, CHR 0xAA,
       CHR 0xE5, CHR 0xB7, CHR 0xB1, CHR 0xE7, CHR 0x9A, CHR 0x84, CHR 0xE8, CHR 0xA7,
       CHR 0x82, CHR 0xE7, CHR 0x82, CHR 0xB9, CHR 0xE3, CHR 0x80, CHR 0x82, CHR 0xE7,
       CHR 0xBB, CHR 0x99, CHR 0xE5, CHR 0x87, CHR 0xBA, CHR 0xE4, CHR 0xBD, CHR 0xA0,
       CHR 0xE6, CHR 0x9B, CHR 0xB4, CHR 0xE6, CHR 0x96, CHR 0xB0, CHR 0xE5, CHR 0x90,
       CHR 0x8E, CHR 0xE7, CHR 0x9A, CHR 0x84, CHR 0xE6, CHR 0xA0, CHR 0xB8, CHR 0xE5,
       CHR 0xBF, CHR 0x83, CHR 0xE8, CHR 0xA7, CHR 0x82, CHR 0xE7, CHR 0x82, CHR 0xB9,
       CHR 0xE5, CHR 0x92, CHR 0x8C, CHR 0xE8, CHR 0xAE, CHR 0xBA, CHR 0xE6, CHR 0x8D,
       CHR 0xAE, CHR 0xE3, CHR 0x80, CHR 0x82]"

text \<open>One line of \<open>_format_opinions\<close>: "[round I - NAME]:", a line break, the opinion, a line break.\<close>

definition opinion_line :: "nat \<Rightarrow> string \<Rightarrow> string \<Rightarrow> string" where
  "opinion_line i n opinion =
     ''['' @ [CHR 0xE7, CHR 0xAC, CHR 0xAC] @ str_nat i @
     [CHR 0xE8, CHR 0xBD, CHR 0xAE] @ '' - '' @ n @
     '']:'' @ [CHR 0x0A] @ opinion @ [CHR 0x0A]"

text \<open>
  The two loops of \<open>_format_opinions\<close>: over \<open>enumerate(all_rounds, 1)\<close>, from round
  \<open>i\<close> on, and over the items of a round, keeping a name that is not \<open>exclude\<close>.
\<close>

fun round_lines :: "nat \<Rightarrow> (string \<times> string) list \<Rightarrow> string \<Rightarrow> string list" where
  "round_lines i [] exclude = []"
| "round_lines i ((n, opinion) # ops) exclude =
     (if n \<noteq> exclude then opinion_line i n opinion # round_lines i ops exclude
      else round_lines i ops exclude)"

fun opinion_lines :: "nat \<Rightarrow> (string \<times> string) list list \<Rightarrow> string \<Rightarrow> string list" where
  "opinion_lines i [] exclude = []"
| "opinion_lines i (round_ops # rest) exclude =
     round_lines i round_ops exclude @ opinion_lines (Suc i) rest exclude"

text \<open>"(no other views yet)" when no line is left.\<close>

definition format_opinions :: "(string \<times> string) list list \<Rightarrow> string \<Rightarrow> string" where
  "format_opinions all_rounds exclude =
     (let lines = opinion_lines 1 all_rounds exclude
      in if lines \<noteq> [] then join [CHR 0x0A] lines
         else ''('' @ [CHR 0xE6, CHR 0x9A, CHR 0x82, CHR 0xE6, CHR 0x97, CHR 0xA0, CHR 0xE5,
       CHR 0x85, CHR 0xB6, CHR 0xE4, CHR 0xBB, CHR 0x96, CHR 0xE8, CHR 0xA7, CHR 0x82,
       CHR 0xE7, CHR 0x82, CHR 0xB9] @ '')'')"

text \<open>\<open>_format_all_rounds\<close>: "=== round I ===" and every opinion of the round under its name.\<close>

definition round_header :: "nat \<Rightarrow> string" where
  "round_header i =
     ''=== '' @ [CHR 0xE7, CHR 0xAC, CHR 0xAC] @ '' '' @ str_nat i @
     '' '' @ [CHR 0xE8, CHR 0xBD, CHR 0xAE] @ '' ===''"

definition judged_line :: "string \<times> string \<Rightarrow> string" where
  "judged_line no = [CHR 0x0A] @ ''['' @ fst no @ '']:'' @ [CHR 0x0A] @ snd no @ [CHR 0x0A]"

fun all_round_lines :: "nat \<Rightarrow> (string \<times> string) list list \<Rightarrow> string list" where
  "all_round_lines i [] = []"
| "all_round_lines i (round_ops # rest) =
     round_header i # map judged_line round_ops @ all_round_lines (Suc i) rest"

definition format_all_rounds :: "(string \<times> string) list list \<Rightarrow> string" where
  "format_all_rounds all_rounds = join [CHR 0x0A] (all_round_lines 1 all_rounds)"

text \<open>The loop of a round over the debaters, with \<open>round_opinions\<close> as it stands.\<close>

fun debate_round ::
  "string \<Rightarrow> int \<Rightarrow> (string \<times> string) list list \<Rightarrow> string list \<Rightarrow> (string \<times> string) list
   \<Rightarrow> 'a BaseMultiAgent_scheme \<Rightarrow> world
   \<Rightarrow> (string \<times> string) list \<times> 'a BaseMultiAgent_scheme \<times> world" where
  "debate_round tsk round_num all_rounds [] round_opinions c w = (round_opinions, c, w)"
| "debate_round tsk round_num all_rounds (debater_name # rest) round_opinions c w =
     (let sub_task =
            (if round_num = 1 then first_round_task tsk
             else later_round_task tsk (format_opinions all_rounds debater_name));
          (result, c1, w1) = dispatch c w debater_name sub_task;
          round_opinions' = dict_set round_opinions debater_name result;
          (m, w2) = Message_init w1 debater_name ''all'' result RESULT [(''round'', JInt round_num)];
          c2 = c1\<lparr>state := add_message (state c1) m\<rparr>
      in debate_round tsk round_num all_rounds rest round_opinions' c2 w2)"

text \<open>The loop over \<open>range(1, max_rounds + 1)\<close>, by the number of rounds left.\<close>

fun debate_rounds ::
  "string \<Rightarrow> nat \<Rightarrow> int \<Rightarrow> string list \<Rightarrow> (string \<times> string) list list
   \<Rightarrow> 'a BaseMultiAgent_scheme \<Rightarrow> world
   \<Rightarrow> (string \<times> string) list list \<times> 'a BaseMultiAgent_scheme \<times> world" where
  "debate_rounds tsk 0 round_num debaters all_rounds c w = (all_rounds, c, w)"
| "debate_rounds tsk (Suc n) round_num debaters all_rounds c w =
     (let c1 = c\<lparr>state := (state c)\<lparr>current_step := round_num\<rparr>\<rparr>;
          (round_opinions, c2, w2) = debate_round tsk round_num all_rounds debaters [] c1 w;
          w3 = fire_hook c2 w2 ''on_step_complete'' (StepComplete round_num (state c2))
      in debate_rounds tsk n (round_num + 1) debaters (all_rounds @ [round_opinions]) c2 w3)"

definition judge ::
  "DebateMultiAgent \<Rightarrow> world \<Rightarrow> AgentRole \<Rightarrow> string \<Rightarrow> (string \<times> string) list list
   \<Rightarrow> string \<times> DebateMultiAgent \<times> world" where
  "judge c w role topic all_rounds =
     dispatch c w (r_name role) (JUDGE_PROMPT_format topic (format_all_rounds all_rounds))"

definition debate_run ::
  "DebateMultiAgent \<Rightarrow> world \<Rightarrow> string \<Rightarrow> string \<times> DebateMultiAgent \<times> world" where
  "debate_run c w tsk =
     (if debater_names c = [] then (no_debaters, c, w)
      else case judge_role c of
             None \<Rightarrow> (no_judge, c, w)
           | Some role \<Rightarrow>
               (let c0 = c\<lparr>state := (reset_state (state c))\<lparr>task := tsk, status := Executing\<rparr>\<rparr>;
                    (all_rounds, c1, w1) =
                      debate_rounds tsk (nat (max_rounds c0)) 1 (debater_names c0) [] c0 w;
                    c2 = c1\<lparr>state := (state c1)\<lparr>status := Reviewing\<rparr>\<rparr>;
                    (final, c3, w3) = judge c2 w1 role tsk all_rounds
                in (final, c3\<lparr>state := (state c3)\<lparr>status := Done\<rparr>\<rparr>, w3)))"

section \<open>Notions of the statements\<close>

text \<open>The last \<open>k\<close> elements of a list.\<close>

definition lastn :: "nat \<Rightarrow> 'a list \<Rightarrow> 'a list" where
  "lastn k xs = drop (length xs - k) xs"

text \<open>
  What a run of an agent may change of the world: the port (it answers calls), the
  requests and the executions. Everything else is as before.
\<close>

definition agent_frame :: "world \<Rightarrow> world \<Rightarrow> bool" where
  "agent_frame w w' =
     (w' = w\<lparr>port := port w', requests := requests w', executions := executions w'\<rparr>)"

text \<open>A reply that asks for exactly one invocation, and that invocation as \<open>execute\<close> receives it.\<close>

definition single_call :: "reply \<Rightarrow> bool" where
  "single_call message = (length (or_empty_calls (reply_tool_calls message)) = 1)"

definition requested_call :: "reply \<Rightarrow> string \<times> string" where
  "requested_call message =
     (tc_name (hd (or_empty_calls (reply_tool_calls message))),
      tc_arguments (hd (or_empty_calls (reply_tool_calls message))))"

text \<open>A reply with at least one invocation: no terminal reply of the structured-call protocol.\<close>

definition asks_for_tools :: "reply \<Rightarrow> bool" where
  "asks_for_tools message = (or_empty_calls (reply_tool_calls message) \<noteq> [])"


text \<open>
  The world in which \<open>_dispatch\<close> calls the agent's \<open>run\<close> (the call is traced, the
  start hooks have run, the task message is built), and the task it passes.
\<close>

definition world_at_run :: "'a BaseMultiAgent_scheme \<Rightarrow> world \<Rightarrow> string \<Rightarrow> string \<Rightarrow> world" where
  "world_at_run c w agent t =
     snd (Message_init
            (fire_hook c (w\<lparr>dispatches := dispatches w @ [(agent, t)]\<rparr>)
               ''on_agent_start'' (AgentStart agent t))
            ''system'' agent t TASK [])"

definition task_at_run :: "ReActAgent \<Rightarrow> string \<Rightarrow> string" where
  "task_at_run agent t =
     (if or_empty (role_system_prompt agent) \<noteq> []
      then with_role_prompt (or_empty (role_system_prompt agent)) t else t)"

text \<open>The \<open>k\<close>-th of \<open>k\<close> dispatches in a row of one task to one agent: its result and what it leaves.\<close>

fun attempts ::
  "nat \<Rightarrow> 'a BaseMultiAgent_scheme \<Rightarrow> world \<Rightarrow> string \<Rightarrow> string
   \<Rightarrow> string \<times> 'a BaseMultiAgent_scheme \<times> world" where
  "attempts 0 c w agent t = ([], c, w)"
| "attempts (Suc k) c w agent t =
     (let (result, c', w') = attempts k c w agent t in dispatch c' w' agent t)"

text \<open>The pipeline when \<open>run\<close> enters its first step: the state reset, the task and the plan set, at step 1.\<close>

definition at_first_step :: "PipelineMultiAgent \<Rightarrow> string \<Rightarrow> PipelineMultiAgent" where
  "at_first_step c tsk =
     c\<lparr>state := (reset_state (state c))
          \<lparr>task := tsk, status := Executing,
           plan := map (\<lambda>(i, s). plan_line i s) (enumerate 0 (steps c)),
           current_step := 1\<rparr>\<rparr>"

text \<open>The debate when \<open>run\<close> enters round 1.\<close>

definition at_first_round :: "DebateMultiAgent \<Rightarrow> string \<Rightarrow> DebateMultiAgent" where
  "at_first_round c tsk =
     c\<lparr>state := (reset_state (state c))\<lparr>task := tsk, status := Executing, current_step := 1\<rparr>\<rparr>"

text \<open>The task \<open>run\<close> gives a debater in a round, from the rounds before.\<close>

definition round_task :: "string \<Rightarrow> int \<Rightarrow> (string \<times> string) list list \<Rightarrow> string \<Rightarrow> string" where
  "round_task tsk round_num all_rounds debater =
     (if round_num = 1 then first_round_task tsk
      else later_round_task tsk (format_opinions all_rounds debater))"

text \<open>
  What one pass of the loop over the debaters leaves: the debater was dispatched and
  the opinion is logged as a message to all.
\<close>

definition after_opinion ::
  "'a BaseMultiAgent_scheme \<Rightarrow> world \<Rightarrow> string \<Rightarrow> string \<Rightarrow> int
   \<Rightarrow> 'a BaseMultiAgent_scheme \<times> world" where
  "after_opinion c w debater t round_num =
     (let (result, c1, w1) = dispatch c w debater t;
          (m, w2) = Message_init w1 debater ''all'' result RESULT [(''round'', JInt round_num)]
      in (c1\<lparr>state := add_message (state c1) m\<rparr>, w2))"

section \<open>Concrete inputs\<close>

text \<open>
  Two tools, a world and agents for the concrete instances below. The world's library
  functions are small instances of the parameters: \<open>json_loads\<close> decodes only \<open>{}\<close>,
  \<open>str_format\<close> fills the templates \<open>{task}\<close> and \<open>{tools_description}\<close>, the searches
  find a marker at the start of the text, and the port answers from the script \<open>p\<close>.
\<close>

definition calculator :: Tool where
  "calculator =
     \<lparr>name = ''calculator'', description = ''evaluates an arithmetic expression'',
      parameters = JObj [(''type'', JStr ''object'')], run = (\<lambda>args. Inr ''4'')\<rparr>"

definition weather :: Tool where
  "weather =
     \<lparr>name = ''weather'', description = ''looks up the weather of a city'',
      parameters = JObj [(''type'', JStr ''object'')],
      run = (\<lambda>args. Inl (Exception ''missing argument city''))\<rparr>"

definition test_world :: "(exn + reply) stream \<Rightarrow> world" where
  "test_world p =
     \<lparr>json_loads = (\<lambda>s. if s = ''{}'' then Some (JObj []) else None),
      json_dumps = (\<lambda>v. ''{}''),
      repr_str = (\<lambda>s. [CHR 0x27] @ s @ [CHR 0x27]),
      str_format =
        (\<lambda>t kw. if t = ''{task}'' then Inr (or_empty (map_of kw ''task''))
                 else if t = ''{tools_description}''
                      then Inr (or_empty (map_of kw ''tools_description''))
                      else Inl (Exception ''KeyError'')),
      str_strip = (\<lambda>s. s),
      re_final_answer = (\<lambda>s. if prefix ''Final Answer: '' s then Some (drop 14 s) else None),
      re_action = (\<lambda>s. if prefix ''Action: '' s then Some (drop 8 s) else None),
      re_action_input = (\<lambda>s. None),
      SYSTEM_PROMPT_FUNCTION_CALLING = ''You can call tools.'',
      SYSTEM_PROMPT_TEXT_PARSING = ''{tools_description}'',
      port = p,
      clock = (\<lambda>n. ''2024-01-01T00:00:00''),
      msg_heap = [], requests = [], executions = [], dispatches = [], hook_calls = []\<rparr>"

text \<open>The port after its script: every further call raises.\<close>

definition closed_port :: "(exn + reply) stream" where
  "closed_port = sconst (Inl (Exception ''connection closed''))"


definition says :: "string \<Rightarrow> reply" where
  "says text = \<lparr>reply_content = Some text, reply_tool_calls = None\<rparr>"

definition test_agent :: "string \<Rightarrow> int \<Rightarrow> ReActAgent" where
  "test_agent md ms = ReActAgent_init [(''calculator'', calculator)] md ms"

text \<open>A coordinator with one agent, "solver", that has no role prompt, and no hooks.\<close>

definition test_team :: "int \<Rightarrow> BaseMultiAgent" where
  "test_team ms =
     \<lparr>global_tools = [(''calculator'', calculator)], state = SharedState_init,
      agents = [(''solver'', test_agent ''function_calling'' ms)], hooks = []\<rparr>"

text \<open>A world whose store holds one message, from "planner" to "solver".\<close>

definition one_message_world :: world where
  "one_message_world =
     (test_world closed_port)
       \<lparr>msg_heap := [\<lparr>sender = ''planner'', receiver = ''solver'', content = ''hello'',
                       msg_type = TASK, metadata = [], timestamp = ''2024-01-01T00:00:00''\<rparr>]\<rparr>"

text \<open>
  A pipeline of one step for an agent "ghost" that is not registered, tried three times,
  with the transform \<open>tr\<close>, and an orchestrator, each with the one agent "solver" of
  \<open>test_team\<close>; and a debate of the agents "pro" and "con" before the agent "judge",
  two rounds long.
\<close>

definition test_pipeline :: "(string \<Rightarrow> exn + string) option \<Rightarrow> PipelineMultiAgent" where
  "test_pipeline tr =
     \<lparr>global_tools = [(''calculator'', calculator)], state = SharedState_init,
      agents = [(''solver'', test_agent ''function_calling'' 1)], hooks = [],
      steps = [\<lparr>agent_name = ''ghost'', task_template = ''{task}'', retry = 3, transform = tr\<rparr>]\<rparr>"

definition test_orchestrator :: OrchestratorMultiAgent where
  "test_orchestrator =
     \<lparr>global_tools = [(''calculator'', calculator)], state = SharedState_init,
      agents = [(''solver'', test_agent ''function_calling'' 1)], hooks = [],
      max_replan = 2\<rparr>"

definition test_debate :: DebateMultiAgent where
  "test_debate =
     \<lparr>global_tools = [(''calculator'', calculator)], state = SharedState_init,
      agents = [(''pro'', test_agent ''function_calling'' 1),
                (''con'', test_agent ''function_calling'' 1),
                (''judge'', test_agent ''function_calling'' 1)],
      hooks = [],
      max_rounds = 2,
      judge_role = Some \<lparr>r_name = ''judge'', r_description = ''decides'',
                          system_prompt = ''You are the judge.'', r_tools = []\<rparr>,
      debater_names = [''pro'', ''con'']\<rparr>"

text \<open>A world whose port gives the five answers of that debate: two rounds of two opinions and the verdict.\<close>

definition debate_world :: world where
  "debate_world =
     test_world ([Inr (says ''yes''), Inr (says ''no''), Inr (says ''yes, still''),
                  Inr (says ''no, still''), Inr (says ''pro wins'')] @- closed_port)"

section \<open>Properties of the conversation history\<close>


lemma slice_last:
  "0 < k \<Longrightarrow> k < int (length xs) \<Longrightarrow> py_slice_from xs (- k) = lastn (nat k) xs"
  by (auto simp: py_slice_from_def lastn_def Let_def max_def nat_diff_distrib'
           intro: arg_cong[where f="\<lambda>n. drop n xs"])

lemma truncate_lastn:
  "0 < max_turns h \<Longrightarrow>
   h_messages (truncate_history h) = lastn (nat (2 * max_turns h)) (h_messages h)"
  by (auto simp: truncate_history_def Let_def slice_last lastn_def mult.commute)

lemma max_turns_truncate [simp]: "max_turns (truncate_history h) = max_turns h"
  by (simp add: truncate_history_def Let_def)

lemma lastn_snoc: "0 < k \<Longrightarrow> lastn k (lastn k xs @ [x]) = lastn k (xs @ [x])"
proof (cases "k \<le> length xs")
  case True
  assume "0 < k"
  with True show ?thesis by (simp add: lastn_def Suc_diff_le)
next
  case False
  then show ?thesis by (simp add: lastn_def)
qed

lemma lastn_append_lastn: "lastn k (lastn k xs @ ys) = lastn k (xs @ ys)"
  by (cases "k \<le> length xs") (auto simp: lastn_def add.commute)

lemma add_turn_lastn:
  assumes "0 < max_turns h"
  shows "h_messages (add_turn h t) = lastn (nat (2 * max_turns h)) (h_messages h @ turn_messages t)"
    and "max_turns (add_turn h t) = max_turns h"
proof -
  let ?k = "nat (2 * max_turns h)"
  let ?u = "role_msg ''user'' (fst t)"
  let ?a = "role_msg ''assistant'' (snd t)"
  have k: "0 < ?k" using assms by simp
  have "h_messages (add_turn h t) = lastn ?k (lastn ?k (h_messages h @ [?u]) @ [?a])"
    using assms
    by (simp add: add_turn_def add_assistant_message_def truncate_lastn add_user_message_def)
  also have "\<dots> = lastn ?k ((h_messages h @ [?u]) @ [?a])"
    using k by (rule lastn_snoc)
  finally show "h_messages (add_turn h t) = lastn ?k (h_messages h @ turn_messages t)"
    by (simp add: turn_messages_def)
  show "max_turns (add_turn h t) = max_turns h"
    by (simp add: add_turn_def add_assistant_message_def add_user_message_def)
qed

lemma add_turns_snoc: "add_turns h (ts @ [t]) = add_turn (add_turns h ts) t"
  by (simp add: add_turns_def)

lemma add_turns_lastn:
  assumes "0 < m"
  shows "h_messages (add_turns (ConversationHistory_init m) ts)
           = lastn (nat (2 * m)) (concat (map turn_messages ts))
       \<and> max_turns (add_turns (ConversationHistory_init m) ts) = m"
proof (induction ts rule: rev_induct)
  case Nil
  show ?case by (simp add: add_turns_def ConversationHistory_init_def lastn_def)
next
  case (snoc t ts)
  let ?h = "add_turns (ConversationHistory_init m) ts"
  from snoc assms have pos: "0 < max_turns ?h" by simp
  show ?case
    using snoc add_turn_lastn[OF pos, of t] by (simp add: add_turns_snoc lastn_append_lastn)
qed

lemma length_turns: "length (concat (map turn_messages ts)) = 2 * length ts"
  by (induction ts) (simp_all add: turn_messages_def)

lemma drop_turns:
  "drop (2 * j) (concat (map turn_messages ts)) = concat (map turn_messages (drop j ts))"
proof (induction ts arbitrary: j)
  case Nil
  show ?case by simp
next
  case (Cons t ts)
  show ?case
  proof (cases j)
    case 0
    then show ?thesis by simp
  next
    case (Suc i)
    then show ?thesis using Cons[of i] by (simp add: turn_messages_def)
  qed
qed

lemma lastn_turns:
  "lastn (2 * k) (concat (map turn_messages ts))
     = concat (map turn_messages (drop (length ts - k) ts))"
  by (simp add: lastn_def length_turns drop_turns flip: diff_mult_distrib2)

text \<open>
  With \<open>max_turns = 0\<close> the slice of \<open>_truncate\<close> is \<open>_messages[-0:]\<close>, the whole list:
  nothing is ever dropped. With a negative \<open>max_turns\<close> every message is dropped.
\<close>

lemma add_turn_zero:
  assumes "max_turns h = 0"
  shows "h_messages (add_turn h t) = h_messages h @ turn_messages t"
    and "max_turns (add_turn h t) = 0"
  using assms
  by (simp_all add: add_turn_def add_user_message_def add_assistant_message_def
        truncate_history_def py_slice_from_def turn_messages_def)

lemma add_turn_neg:
  assumes "max_turns h < 0" "h_messages h = []"
  shows "h_messages (add_turn h t) = []" and "max_turns (add_turn h t) = max_turns h"
  using assms
  by (simp_all add: add_turn_def add_user_message_def add_assistant_message_def
        truncate_history_def py_slice_from_def Let_def min_def)

lemma add_turns_zero:
  "h_messages (add_turns (ConversationHistory_init 0) ts) = concat (map turn_messages ts)
   \<and> max_turns (add_turns (ConversationHistory_init 0) ts) = 0"
proof (induction ts rule: rev_induct)
  case Nil
  show ?case by (simp add: add_turns_def ConversationHistory_init_def)
next
  case (snoc t ts)
  then show ?case by (simp add: add_turns_snoc add_turn_zero)
qed

lemma add_turns_neg:
  "m < 0 \<Longrightarrow>
   h_messages (add_turns (ConversationHistory_init m) ts) = []
   \<and> max_turns (add_turns (ConversationHistory_init m) ts) = m"
proof (induction ts rule: rev_induct)
  case Nil
  show ?case by (simp add: add_turns_def ConversationHistory_init_def)
next
  case (snoc t ts)
  then show ?case by (simp add: add_turns_snoc add_turn_neg)
qed

lemma zero_capacity_keeps_all:
  "get_messages (add_turns (ConversationHistory_init 0) [(''q1'', ''a1''), (''q2'', ''a2'')])
     = [role_msg ''user'' ''q1'', role_msg ''assistant'' ''a1'',
        role_msg ''user'' ''q2'', role_msg ''assistant'' ''a2'']"
  using add_turns_zero[of "[(''q1'', ''a1''), (''q2'', ''a2'')]"]
  by (simp add: get_messages_def turn_messages_def)

lemma even_length_after_turns:
  "even (length (h_messages (add_turns (ConversationHistory_init m) ts)))"
proof -
  consider "0 < m" | "m = 0" | "m < 0" by linarith
  then show ?thesis
  proof cases
    case 1
    have "nat (2 * m) = 2 * nat m" by (simp add: nat_mult_distrib)
    then show ?thesis
      using add_turns_lastn[OF 1, of ts] by (simp add: lastn_turns length_turns)
  next
    case 2
    then show ?thesis using add_turns_zero[of ts] by (simp add: length_turns)
  next
    case 3
    then show ?thesis using add_turns_neg[of m ts] by simp
  qed
qed

text \<open>
  C1, as the code has it. The claim as written fails after a single
  \<open>add_user_message\<close>: the history then holds one message and no whole turn
  (the last theorem of this section). What holds: when the calls come as
  turns, a question by \<open>add_user_message\<close> and then its answer by
  \<open>add_assistant_message\<close>, starting from a new history, then after every turn
  \<open>len(history) = 2 * turn_count\<close>; and for a capacity \<open>max_turns\<close> of at least 1,
  once more than \<open>max_turns\<close> turns were added the history holds \<open>max_turns\<close> turns and
  \<open>get_messages()\<close> is exactly the messages of the last \<open>max_turns\<close> turns, in the
  order they were added.
\<close>

theorem history_keeps_latest_turns:
  "len_history (add_turns (ConversationHistory_init m) ts)
     = 2 * turn_count (add_turns (ConversationHistory_init m) ts)
   \<and> (0 < m \<and> m < int (length ts) \<longrightarrow>
        turn_count (add_turns (ConversationHistory_init m) ts) = nat m
        \<and> get_messages (add_turns (ConversationHistory_init m) ts)
            = concat (map turn_messages (drop (length ts - nat m) ts)))"
proof -
  let ?h = "add_turns (ConversationHistory_init m) ts"
  have a: "len_history ?h = 2 * turn_count ?h"
    using even_length_after_turns[of m ts] by (simp add: len_history_def turn_count_def)
  have b: "get_messages ?h = concat (map turn_messages (drop (length ts - nat m) ts))"
    if "0 < m"
  proof -
    have "nat (2 * m) = 2 * nat m" by (simp add: nat_mult_distrib)
    then show ?thesis
      using add_turns_lastn[OF that, of ts] by (simp add: get_messages_def lastn_turns)
  qed
  have c: "turn_count ?h = nat m" if "0 < m" "m < int (length ts)"
    using b[OF that(1)] that by (simp add: turn_count_def get_messages_def length_turns)
  show ?thesis using a b c by blast
qed

theorem history_keeps_latest_turns_witness:
  "len_history (add_turns (ConversationHistory_init 1) [(''q1'', ''a1''), (''q2'', ''a2'')]) = 2
   \<and> turn_count (add_turns (ConversationHistory_init 1) [(''q1'', ''a1''), (''q2'', ''a2'')]) = 1
   \<and> get_messages (add_turns (ConversationHistory_init 1) [(''q1'', ''a1''), (''q2'', ''a2'')])
       = [role_msg ''user'' ''q2'', role_msg ''assistant'' ''a2'']"
  using history_keeps_latest_turns[of 1 "[(''q1'', ''a1''), (''q2'', ''a2'')]"]
  by (simp add: turn_messages_def)

theorem history_odd_after_user_message:
  "len_history (add_user_message (ConversationHistory_init 3) ''q'')
     \<noteq> 2 * turn_count (add_user_message (ConversationHistory_init 3) ''q'')"
  by (simp add: len_history_def turn_count_def add_user_message_def truncate_history_def
        ConversationHistory_init_def)

section \<open>The copy that get_messages returns\<close>

text \<open>The list object and the value agree: the store refines the history of the sections above.\<close>

lemma truncate_obj_abs:
  "o_messages h < length s \<Longrightarrow>
   abs_history (fst (truncate_obj s h)) (snd (truncate_obj s h))
     = truncate_history (abs_history s h)"
  by (simp add: truncate_obj_def truncate_history_def abs_history_def new_list_def Let_def)

lemma add_user_message_obj_abs:
  "o_messages h < length s \<Longrightarrow>
   abs_history (fst (add_user_message_obj s h c)) (snd (add_user_message_obj s h c))
     = add_user_message (abs_history s h) c"
  by (simp add: add_user_message_obj_def add_user_message_def truncate_obj_abs append_obj_def)
     (simp add: abs_history_def)

lemma add_assistant_message_obj_abs:
  "o_messages h < length s \<Longrightarrow>
   abs_history (fst (add_assistant_message_obj s h c)) (snd (add_assistant_message_obj s h c))
     = add_assistant_message (abs_history s h) c"
  by (simp add: add_assistant_message_obj_def add_assistant_message_def truncate_obj_abs
        append_obj_def)
     (simp add: abs_history_def)

lemma get_messages_obj_abs:
  "o_messages h < length s \<Longrightarrow>
   snd (get_messages_obj s h) ! fst (get_messages_obj s h) = get_messages (abs_history s h)"
  by (simp add: get_messages_obj_def new_list_def get_messages_def abs_history_def)

text \<open>
  C10. For every store \<open>s\<close> and every history whose list is an object of \<open>s\<close>,
  \<open>get_messages()\<close> returns a new list object, not the history's own, with the
  history's messages; whatever list \<open>xs\<close> the caller turns the returned object into
  (by appending, removing or reordering), the history's list is as before, and a
  second \<open>get_messages()\<close> returns the history's messages again, equal to what the
  first call returned.
\<close>

theorem get_messages_returns_fresh_copy:
  assumes "o_messages h < length s"
  shows "fst (get_messages_obj s h) \<noteq> o_messages h
       \<and> snd (get_messages_obj s h) ! fst (get_messages_obj s h) = s ! o_messages h
       \<and> snd (get_messages_obj s h) ! o_messages h = s ! o_messages h
       \<and> (\<forall>xs. (snd (get_messages_obj s h))[fst (get_messages_obj s h) := xs] ! o_messages h
                  = s ! o_messages h
             \<and> (let s2 = (snd (get_messages_obj s h))[fst (get_messages_obj s h) := xs]
                in snd (get_messages_obj s2 h) ! fst (get_messages_obj s2 h)
                     = s ! o_messages h))"
  using assms by (simp add: get_messages_obj_def new_list_def nth_append Let_def)

theorem get_messages_returns_fresh_copy_witness:
  "fst (get_messages_obj [[role_msg ''user'' ''q'']] \<lparr>o_max_turns = 3, o_messages = 0\<rparr>) = 1
   \<and> ((snd (get_messages_obj [[role_msg ''user'' ''q'']] \<lparr>o_max_turns = 3, o_messages = 0\<rparr>))
         [1 := [role_msg ''user'' ''q'', role_msg ''user'' ''forged'']]) ! 0
       = [role_msg ''user'' ''q'']"
  using get_messages_returns_fresh_copy
          [of "\<lparr>o_max_turns = 3, o_messages = 0\<rparr>" "[[role_msg ''user'' ''q'']]"]
  by (simp add: get_messages_obj_def new_list_def)

section \<open>Properties of the tool registry\<close>


lemma dict_set_fresh: "k \<notin> set (dict_keys d) \<Longrightarrow> dict_set d k v = d @ [(k, v)]"
  by (induction d) (auto simp: dict_set_def dict_keys_def)

text \<open>
  C9. Registering a tool under a name the registry holds already returns
  \<open>ValueError\<close> at that call, in particular for a second tool with the name of a
  tool registered just before; registering two tools with distinct names that the
  registry does not hold yet succeeds both times, and the schema export
  \<open>to_openai_tools\<close> then ends with the schemas of both.
\<close>

theorem register_rejects_duplicates:
  "(contains r (name tool) \<longrightarrow> register r tool = Inl (ValueError (already_registered (name tool))))
   \<and> (register r t1 = Inr r1 \<and> name t2 = name t1 \<longrightarrow>
        register r1 t2 = Inl (ValueError (already_registered (name t2))))
   \<and> (\<not> contains r (name t1) \<and> \<not> contains r (name t2) \<and> name t1 \<noteq> name t2 \<longrightarrow>
        (\<exists>r1 r2. register r t1 = Inr r1 \<and> register r1 t2 = Inr r2
           \<and> to_openai_tools r2 = to_openai_tools r @ [to_openai_tool t1, to_openai_tool t2]))"
proof -
  have a: "register r tool = Inl (ValueError (already_registered (name tool)))" if "contains r (name tool)"
    using that by (simp add: register_def contains_def)
  have b: "register r1 t2 = Inl (ValueError (already_registered (name t2)))"
    if "register r t1 = Inr r1" "name t2 = name t1"
  proof -
    have "r1 = r @ [(name t1, t1)]" and "name t1 \<notin> set (dict_keys r)"
      using that(1) by (auto simp: register_def dict_set_fresh split: if_splits)
    then show ?thesis using that(2) by (simp add: register_def dict_keys_def)
  qed
  have c: "\<exists>r1 r2. register r t1 = Inr r1 \<and> register r1 t2 = Inr r2
           \<and> to_openai_tools r2 = to_openai_tools r @ [to_openai_tool t1, to_openai_tool t2]"
    if "\<not> contains r (name t1)" "\<not> contains r (name t2)" "name t1 \<noteq> name t2"
  proof -
    have r1: "register r t1 = Inr (r @ [(name t1, t1)])"
      using that(1) by (simp add: register_def contains_def dict_set_fresh)
    have k2: "name t2 \<notin> set (dict_keys (r @ [(name t1, t1)]))"
      using that by (simp add: contains_def dict_keys_def)
    have r2: "register (r @ [(name t1, t1)]) t2 = Inr (r @ [(name t1, t1), (name t2, t2)])"
      using k2 by (simp add: register_def dict_set_fresh)
    show ?thesis using r1 r2 by (simp add: to_openai_tools_def dict_values_def)
  qed
  show ?thesis using a b c by blast
qed


theorem register_rejects_duplicates_witness:
  "register [(''calculator'', calculator)] calculator
     = Inl (ValueError (already_registered ''calculator''))
   \<and> (\<exists>r1 r2. register ToolRegistry_init calculator = Inr r1 \<and> register r1 weather = Inr r2
         \<and> to_openai_tools r2 = [to_openai_tool calculator, to_openai_tool weather])"
proof -
  have h: "register ToolRegistry_init calculator = Inr [(''calculator'', calculator)]"
    by (simp add: register_def ToolRegistry_init_def dict_keys_def dict_set_def calculator_def)
  show ?thesis
    using register_rejects_duplicates
            [of ToolRegistry_init calculator calculator "[(''calculator'', calculator)]" calculator]
          register_rejects_duplicates
            [of ToolRegistry_init calculator calculator "[(''calculator'', calculator)]" weather]
          h
    by (simp add: contains_def ToolRegistry_init_def dict_keys_def calculator_def weather_def
          to_openai_tools_def dict_values_def)
qed


section \<open>Properties of the reasoning loop\<close>


text \<open>A run of an agent changes the port, the requests and the executions, and nothing else of the world.\<close>


lemma agent_frame_refl: "agent_frame w w" by (simp add: agent_frame_def)

lemma agent_frame_trans:
  assumes "agent_frame w w1" "agent_frame w1 w2"
  shows "agent_frame w w2"
proof -
  obtain p rq ex where w1: "w1 = w\<lparr>port := p, requests := rq, executions := ex\<rparr>"
    using assms(1) unfolding agent_frame_def by blast
  have "w2 = w1\<lparr>port := port w2, requests := requests w2, executions := executions w2\<rparr>"
    using assms(2) unfolding agent_frame_def .
  then have "w2 = w\<lparr>port := port w2, requests := requests w2, executions := executions w2\<rparr>"
    by (simp add: w1)
  then show ?thesis unfolding agent_frame_def .
qed

lemma agent_frame_chat: "agent_frame w (snd (chat w msgs ts))"
  by (simp add: agent_frame_def chat_def)

lemma snd_execute: "snd (execute w r n a) = w\<lparr>executions := executions w @ [(n, a)]\<rparr>"
  by (simp add: execute_def Let_def split: option.splits sum.splits)

lemma agent_frame_execute: "agent_frame w (snd (execute w r n a))"
  by (simp add: agent_frame_def snd_execute)


lemma agent_frame_run_tool_calls: "agent_frame w (snd (run_tool_calls r tcs w msgs))"
proof (induction tcs arbitrary: w msgs)
  case Nil
  show ?case by (simp add: agent_frame_refl)
next
  case (Cons tc tcs)
  obtain obs w' where e: "execute w r (tc_name tc) (tc_arguments tc) = (obs, w')"
    by (cases "execute w r (tc_name tc) (tc_arguments tc)")
  have "agent_frame w w'" using agent_frame_execute[of w r "tc_name tc" "tc_arguments tc"] e by simp
  moreover have "agent_frame w' (snd (run_tool_calls r tcs w' (msgs @ [tool_msg (tc_id tc) obs])))"
    by (rule Cons.IH)
  ultimately show ?case by (simp add: e agent_frame_trans)
qed

lemma agent_frame_function_calling_steps:
  "agent_frame w (snd (function_calling_steps r ot n w msgs))"
proof (induction n arbitrary: w msgs)
  case 0
  show ?case by (simp add: agent_frame_refl)
next
  case (Suc n)
  let ?ts = "if ot \<noteq> [] then Some ot else None"
  obtain resp w1 where c: "chat w msgs ?ts = (resp, w1)" by (cases "chat w msgs ?ts")
  have f1: "agent_frame w w1" using agent_frame_chat[of w msgs ?ts] c by simp
  show ?case
  proof (cases resp)
    case (Inl e)
    then show ?thesis using c f1 by simp
  next
    case (Inr message)
    show ?thesis
    proof (cases "or_empty_calls (reply_tool_calls message) = []")
      case True
      then show ?thesis using c f1 Inr by simp
    next
      case False
      obtain msgs2 w2 where t: "run_tool_calls r (or_empty_calls (reply_tool_calls message)) w1 (msgs @ [assistant_msg message]) = (msgs2, w2)"
        by (cases "run_tool_calls r (or_empty_calls (reply_tool_calls message)) w1 (msgs @ [assistant_msg message])")
      have f2: "agent_frame w1 w2"
        using agent_frame_run_tool_calls[of w1 r "or_empty_calls (reply_tool_calls message)" "msgs @ [assistant_msg message]"] t by simp
      have f3: "agent_frame w2 (snd (function_calling_steps r ot n w2 msgs2))" by (rule Suc.IH)
      show ?thesis
        using c Inr False t agent_frame_trans[OF f1 agent_frame_trans[OF f2 f3]] by simp
    qed
  qed
qed

lemma agent_frame_text_parsing_steps:
  "agent_frame w (snd (text_parsing_steps r n w msgs))"
proof (induction n arbitrary: w msgs)
  case 0
  show ?case by (simp add: agent_frame_refl)
next
  case (Suc n)
  obtain resp w1 where c: "chat w msgs None = (resp, w1)" by (cases "chat w msgs None")
  have f1: "agent_frame w w1" using agent_frame_chat[of w msgs None] c by simp
  show ?case
  proof (cases resp)
    case (Inl e)
    then show ?thesis using c f1 by simp
  next
    case (Inr message)
    let ?text = "or_empty (reply_content message)"
    show ?thesis
    proof (cases "re_final_answer w1 ?text")
      case (Some g)
      then show ?thesis using c f1 Inr by simp
    next
      case None
      note nofinal = None
      show ?thesis
      proof (cases "re_action w1 ?text")
        case None
        then show ?thesis using c f1 Inr nofinal by simp
      next
        case (Some action_name)
        let ?input = "case re_action_input w1 ?text of Some g \<Rightarrow> g | None \<Rightarrow> ''{}''"
        obtain obs w2 where e: "execute w1 r action_name ?input = (obs, w2)"
          by (cases "execute w1 r action_name ?input")
        have f2: "agent_frame w1 w2"
          using agent_frame_execute[of w1 r action_name ?input] e by simp
        have f3: "agent_frame w2 (snd (text_parsing_steps r n w2
                    (msgs @ [role_msg ''assistant'' ?text, observation_msg obs])))"
          by (rule Suc.IH)
        show ?thesis
          using c Inr nofinal Some e agent_frame_trans[OF f1 agent_frame_trans[OF f2 f3]]
          by simp
      qed
    qed
  qed
qed

lemma agent_frame_agent_run: "agent_frame w (snd (snd (agent_run w a query)))"
proof -
  have fc: "agent_frame w (snd (snd (run_function_calling w a query)))"
    using agent_frame_function_calling_steps
            [of w "tools a" "to_openai_tools (tools a)" "nat (max_steps a)"
                "[role_msg ''system'' (SYSTEM_PROMPT_FUNCTION_CALLING w)]
                 @ get_messages (history a) @ [role_msg ''user'' query]"]
    by (auto simp: run_function_calling_def Let_def split: prod.splits sum.splits option.splits)
  have tp: "agent_frame w (snd (snd (run_text_parsing w a query)))"
  proof (cases "str_format w (SYSTEM_PROMPT_TEXT_PARSING w)
             [(''tools_description'', get_tools_description w (tools a))]")
    case (Inl e)
    then show ?thesis by (simp add: run_text_parsing_def agent_frame_refl)
  next
    case (Inr sp)
    then show ?thesis
      using agent_frame_text_parsing_steps
            [of w "tools a" "nat (max_steps a)"
                "[role_msg ''system'' sp]
                 @ get_messages (history a) @ [role_msg ''user'' (''Question: '' @ query @ [CHR 0x0A])]"]
      by (auto simp: run_text_parsing_def Let_def split: prod.splits sum.splits option.splits)
  qed
  show ?thesis using fc tp by (simp add: agent_run_def agent_frame_refl)
qed

lemma agent_frame_fields:
  assumes "agent_frame w w'"
  shows "msg_heap w' = msg_heap w" "dispatches w' = dispatches w" "hook_calls w' = hook_calls w"
    "clock w' = clock w" "repr_str w' = repr_str w" "json_loads w' = json_loads w"
    "re_final_answer w' = re_final_answer w" "re_action w' = re_action w"
    "re_action_input w' = re_action_input w" "str_strip w' = str_strip w"
    "str_format w' = str_format w" "json_dumps w' = json_dumps w"
proof -
  obtain p rq ex where w': "w' = w\<lparr>port := p, requests := rq, executions := ex\<rparr>"
    using assms unfolding agent_frame_def by blast
  show "msg_heap w' = msg_heap w" "dispatches w' = dispatches w" "hook_calls w' = hook_calls w"
    "clock w' = clock w" "repr_str w' = repr_str w" "json_loads w' = json_loads w"
    "re_final_answer w' = re_final_answer w" "re_action w' = re_action w"
    "re_action_input w' = re_action_input w" "str_strip w' = str_strip w"
    "str_format w' = str_format w" "json_dumps w' = json_dumps w"
    by (simp_all add: w')
qed

lemma run_tool_calls_world:
  "snd (run_tool_calls r tcs w msgs)
     = w\<lparr>executions := executions w @ map (\<lambda>tc. (tc_name tc, tc_arguments tc)) tcs\<rparr>"
proof (induction tcs arbitrary: w msgs)
  case Nil
  show ?case by simp
next
  case (Cons tc tcs)
  obtain obs w' where e: "execute w r (tc_name tc) (tc_arguments tc) = (obs, w')"
    by (cases "execute w r (tc_name tc) (tc_arguments tc)")
  have w': "w' = w\<lparr>executions := executions w @ [(tc_name tc, tc_arguments tc)]\<rparr>"
    using snd_execute[of w r "tc_name tc" "tc_arguments tc"] e by simp
  show ?case using Cons.IH[of w' "msgs @ [tool_msg (tc_id tc) obs]"] by (simp add: e w')
qed

lemma chat_script:
  assumes "port w = Inr message ## p"
  shows "chat w msgs ts = (Inr message, w\<lparr>port := p, requests := requests w @ [(msgs, if ts = Some [] then None else ts)]\<rparr>)"
  using assms by (simp add: chat_def)

lemma function_calling_steps_script:
  assumes "port w = map Inr rs @- (Inr final ## rest)"
    and "list_all single_call rs" and "\<not> asks_for_tools final" and "length rs < n"
  shows "fst (function_calling_steps r ot n w msgs) = Inr (Some (or_empty (reply_content final)))
       \<and> port (snd (function_calling_steps r ot n w msgs)) = rest
       \<and> length (requests (snd (function_calling_steps r ot n w msgs)))
           = length (requests w) + length rs + 1
       \<and> executions (snd (function_calling_steps r ot n w msgs))
           = executions w @ map requested_call rs"
  using assms
proof (induction rs arbitrary: n w msgs)
  case Nil
  then obtain n' where n: "n = Suc n'" by (cases n) auto
  have p: "port w = Inr final ## rest" using Nil by simp
  show ?case
    using Nil(3) by (simp add: n chat_script[OF p] asks_for_tools_def)
next
  case (Cons r0 rs)
  then obtain n' where n: "n = Suc n'" by (cases n) auto
  have p: "port w = Inr r0 ## (map Inr rs @- (Inr final ## rest))" using Cons.prems by simp
  let ?ts = "if ot \<noteq> [] then Some ot else None"
  let ?w1 = "w\<lparr>port := map Inr rs @- (Inr final ## rest),
               requests := requests w @ [(msgs, if ?ts = Some [] then None else ?ts)]\<rparr>"
  have c: "chat w msgs ?ts = (Inr r0, ?w1)" by (rule chat_script[OF p])
  from Cons.prems(2) obtain tc where tc: "or_empty_calls (reply_tool_calls r0) = [tc]"
    by (cases "or_empty_calls (reply_tool_calls r0)") (auto simp: single_call_def)
  let ?msgs1 = "msgs @ [assistant_msg r0]"
  obtain msgs2 w2 where t: "run_tool_calls r [tc] ?w1 ?msgs1 = (msgs2, w2)"
    by (cases "run_tool_calls r [tc] ?w1 ?msgs1")
  have w2: "w2 = ?w1\<lparr>executions := executions w @ [(tc_name tc, tc_arguments tc)]\<rparr>"
    using run_tool_calls_world[of r "[tc]" ?w1 ?msgs1] t by simp
  have rc: "requested_call r0 = (tc_name tc, tc_arguments tc)"
    by (simp add: requested_call_def tc)
  have step: "function_calling_steps r ot n w msgs = function_calling_steps r ot n' w2 msgs2"
    by (simp add: n c tc t del: run_tool_calls.simps)
  have ih: "fst (function_calling_steps r ot n' w2 msgs2) = Inr (Some (or_empty (reply_content final)))
       \<and> port (snd (function_calling_steps r ot n' w2 msgs2)) = rest
       \<and> length (requests (snd (function_calling_steps r ot n' w2 msgs2)))
           = length (requests w2) + length rs + 1
       \<and> executions (snd (function_calling_steps r ot n' w2 msgs2))
           = executions w2 @ map requested_call rs"
    using Cons.prems n by (intro Cons.IH) (simp_all add: w2)
  show ?case using ih by (simp add: step w2 rc)
qed









section \<open>Properties of dispatch\<close>

lemma dispatch_unknown:
  assumes "dict_get (agents c) n = None"
  shows "dispatch c w n t
           = (unknown_agent n (repr_list w (agent_names c)), c,
              w\<lparr>dispatches := dispatches w @ [(n, t)]\<rparr>)"
  using assms by (simp add: dispatch_def repr_list_def)

text \<open>What \<open>_dispatch\<close> does after the agent's \<open>run\<close> came back.\<close>

lemma dispatch_known:
  assumes "dict_get (agents c) n = Some agent"
    and "agent_run (world_at_run c w n t) agent (task_at_run agent t) = (outcome, agent1, w3)"
  shows "fst (dispatch c w n t) = (case outcome of Inr text \<Rightarrow> text | Inl e \<Rightarrow> agent_failed n e)"
    and "msg_heap (snd (snd (dispatch c w n t)))
           = msg_heap w3 @
             [\<lparr>sender = n, receiver = ''system'',
               content = (case outcome of Inr text \<Rightarrow> text | Inl e \<Rightarrow> agent_failed n e),
               msg_type = RESULT, metadata = [], timestamp = clock w3 (length (msg_heap w3))\<rparr>]"
    and "dispatches (snd (snd (dispatch c w n t))) = dispatches w3"
    and "port (snd (snd (dispatch c w n t))) = port w3"
    and "agents (fst (snd (dispatch c w n t))) = dict_set (agents c) n (reset agent1)"
  using assms
  by (simp_all add: dispatch_def Let_def world_at_run_def task_at_run_def fire_hook_def
        Message_init_def add_result_def add_message_def split: sum.splits prod.splits)


lemma world_at_run_fields:
  "dispatches (world_at_run c w n t) = dispatches w @ [(n, t)]"
  "msg_heap (world_at_run c w n t)
     = msg_heap w @ [\<lparr>sender = ''system'', receiver = n, content = t, msg_type = TASK,
                       metadata = [], timestamp = clock w (length (msg_heap w))\<rparr>]"
  "port (world_at_run c w n t) = port w"
  by (simp_all add: world_at_run_def fire_hook_def Message_init_def)

lemma dispatch_trace: "dispatches (snd (snd (dispatch c w n t))) = dispatches w @ [(n, t)]"
proof (cases "dict_get (agents c) n")
  case None
  then show ?thesis by (simp add: dispatch_unknown)
next
  case (Some agent)
  obtain outcome agent1 w3
    where run: "agent_run (world_at_run c w n t) agent (task_at_run agent t) = (outcome, agent1, w3)"
    by (cases "agent_run (world_at_run c w n t) agent (task_at_run agent t)")
  have "agent_frame (world_at_run c w n t) w3"
    using agent_frame_agent_run[of "world_at_run c w n t" agent "task_at_run agent t"] run by simp
  then have "dispatches w3 = dispatches (world_at_run c w n t)" by (rule agent_frame_fields)
  then show ?thesis using dispatch_known(3)[OF Some run] by (simp add: world_at_run_fields)
qed

lemma dispatch_heap: "prefix (msg_heap w) (msg_heap (snd (snd (dispatch c w n t))))"
proof (cases "dict_get (agents c) n")
  case None
  then show ?thesis by (simp add: dispatch_unknown)
next
  case (Some agent)
  obtain outcome agent1 w3
    where run: "agent_run (world_at_run c w n t) agent (task_at_run agent t) = (outcome, agent1, w3)"
    by (cases "agent_run (world_at_run c w n t) agent (task_at_run agent t)")
  have "agent_frame (world_at_run c w n t) w3"
    using agent_frame_agent_run[of "world_at_run c w n t" agent "task_at_run agent t"] run by simp
  then have "msg_heap w3 = msg_heap (world_at_run c w n t)" by (rule agent_frame_fields)
  then show ?thesis using dispatch_known(2)[OF Some run] by (simp add: world_at_run_fields)
qed

lemma sublist_skip: "sublist xs ys \<Longrightarrow> sublist xs (zs @ ys)"
  by (simp add: sublist_append)

text \<open>
  C3. \<open>_dispatch\<close> returns a text in every case; no exception leaves it. For a name
  that is not registered the text is the message of the unknown agent, which contains
  the name and the printed list of the registered names, and the coordinator is
  unchanged. For a registered agent the text is what the agent's \<open>run\<close> returned or,
  when \<open>run\<close> raised \<open>e\<close>, the message of the failed agent, which starts with the
  error prefix and ends with the text of \<open>e\<close>.
\<close>

theorem dispatch_never_raises:
  "(get_agent c n = None \<longrightarrow>
      fst (dispatch c w n t) = unknown_agent n (repr_list w (agent_names c))
      \<and> fst (snd (dispatch c w n t)) = c
      \<and> sublist n (fst (dispatch c w n t))
      \<and> sublist (repr_list w (agent_names c)) (fst (dispatch c w n t)))
   \<and> (get_agent c n = Some agent \<longrightarrow>
        fst (dispatch c w n t)
          = (case fst (agent_run (world_at_run c w n t) agent (task_at_run agent t)) of
               Inr text \<Rightarrow> text
             | Inl e \<Rightarrow> agent_failed n e))
   \<and> prefix error_prefix (agent_failed n e) \<and> sublist (str_exn e) (agent_failed n e)"
proof -
  have a: "fst (dispatch c w n t) = unknown_agent n (repr_list w (agent_names c))
      \<and> fst (snd (dispatch c w n t)) = c
      \<and> sublist n (fst (dispatch c w n t))
      \<and> sublist (repr_list w (agent_names c)) (fst (dispatch c w n t))"
    if "get_agent c n = None"
  proof -
    have d: "dispatch c w n t
           = (unknown_agent n (repr_list w (agent_names c)), c,
              w\<lparr>dispatches := dispatches w @ [(n, t)]\<rparr>)"
      using that by (intro dispatch_unknown) (simp add: get_agent_def)
    have s1: "sublist n (unknown_agent n (repr_list w (agent_names c)))"
      unfolding unknown_agent_def by (simp add: sublist_Cons_right)
    have s2: "sublist (repr_list w (agent_names c)) (unknown_agent n (repr_list w (agent_names c)))"
      unfolding unknown_agent_def append_assoc[symmetric] by (rule sublist_append_leftI)
    show ?thesis using s1 s2 by (simp add: d)
  qed
  have b: "fst (dispatch c w n t)
          = (case fst (agent_run (world_at_run c w n t) agent (task_at_run agent t)) of
               Inr text \<Rightarrow> text
             | Inl e \<Rightarrow> agent_failed n e)"
    if "get_agent c n = Some agent"
  proof -
    obtain outcome agent1 w3
      where run: "agent_run (world_at_run c w n t) agent (task_at_run agent t) = (outcome, agent1, w3)"
      by (cases "agent_run (world_at_run c w n t) agent (task_at_run agent t)")
    have k: "dict_get (agents c) n = Some agent" using that by (simp add: get_agent_def)
    show ?thesis using dispatch_known(1)[OF k run] by (simp add: run)
  qed
  have p: "prefix error_prefix (agent_failed n e)"
    by (simp add: agent_failed_def error_prefix_def)
  have s: "sublist (str_exn e) (agent_failed n e)"
    unfolding agent_failed_def append_assoc[symmetric] by (rule sublist_append_leftI)
  show ?thesis using a b p s by blast
qed

theorem dispatch_never_raises_witness:
  "fst (dispatch (test_team 1) (test_world closed_port) ''ghost'' ''hello'')
     = unknown_agent ''ghost'' (''['' @ [CHR 0x27] @ ''solver'' @ [CHR 0x27] @ '']'')
   \<and> fst (snd (dispatch (test_team 1) (test_world closed_port) ''ghost'' ''hello'')) = test_team 1
   \<and> fst (dispatch (test_team 1) (test_world closed_port) ''solver'' ''hello'')
       = agent_failed ''solver'' (Exception ''connection closed'')"
proof -
  let ?c = "test_team 1"
  let ?w = "test_world closed_port"
  let ?a = "test_agent ''function_calling'' 1"
  have g: "get_agent ?c ''ghost'' = None"
    by (simp add: get_agent_def test_team_def dict_get_def)
  have s: "get_agent ?c ''solver'' = Some ?a"
    by (simp add: get_agent_def test_team_def dict_get_def)
  have p: "port (world_at_run ?c ?w ''solver'' ''hello'') = closed_port"
    by (simp add: world_at_run_fields test_world_def)
  have sh: "shd closed_port = Inl (Exception ''connection closed'')"
    by (simp add: closed_port_def)
  have r: "fst (agent_run (world_at_run ?c ?w ''solver'' ''hello'') ?a (task_at_run ?a ''hello''))
             = Inl (Exception ''connection closed'')"
    by (simp add: agent_run_def run_function_calling_def test_agent_def ReActAgent_init_def
          chat_def p sh Let_def)
  have n: "repr_list ?w (agent_names ?c) = ''['' @ [CHR 0x27] @ ''solver'' @ [CHR 0x27] @ '']''"
    by (simp add: repr_list_def agent_names_def test_team_def dict_keys_def test_world_def)
  show ?thesis
    using dispatch_never_raises[of ?c "''ghost''" ?w "''hello''"]
          dispatch_never_raises[of ?c "''solver''" ?w "''hello''" ?a]
          g s r n
    by simp
qed

section \<open>Properties of the pipeline\<close>

lemma attempts_shift:
  "attempts (Suc (Suc k)) c w a t
     = attempts (Suc k) (fst (snd (dispatch c w a t))) (snd (snd (dispatch c w a t))) a t"
proof (induction k)
  case 0
  show ?case by (simp split: prod.splits)
next
  case (Suc k)
  have "attempts (Suc (Suc (Suc k))) c w a t
          = (let (result, c', w') = attempts (Suc (Suc k)) c w a t in dispatch c' w' a t)"
    by simp
  also have "\<dots> = (let (result, c', w') =
                       attempts (Suc k) (fst (snd (dispatch c w a t))) (snd (snd (dispatch c w a t))) a t
                   in dispatch c' w' a t)"
    by (simp only: Suc.IH)
  also have "\<dots> = attempts (Suc (Suc k)) (fst (snd (dispatch c w a t))) (snd (snd (dispatch c w a t))) a t"
    by simp
  finally show ?case .
qed

lemma attempts_trace:
  "dispatches (snd (snd (attempts k c w a t))) = dispatches w @ replicate k (a, t)"
proof (induction k)
  case 0
  show ?case by simp
next
  case (Suc k)
  obtain r c' w' where at: "attempts k c w a t = (r, c', w')" by (cases "attempts k c w a t")
  have "dispatches (snd (snd (dispatch c' w' a t))) = dispatches w' @ [(a, t)]"
    by (rule dispatch_trace)
  then show ?case using Suc at by (simp add: replicate_append_same)
qed

lemma retry_attempts_all_errors:
  assumes "\<And>k. 1 \<le> k \<Longrightarrow> k \<le> n \<Longrightarrow> prefix error_prefix (fst (attempts k c w (agent_name step) t))"
    and "0 < n"
  shows "retry_attempts n c w step t last_error = attempts n c w (agent_name step) t"
  using assms
proof (induction n arbitrary: c w last_error)
  case 0
  then show ?case by simp
next
  case (Suc n)
  let ?a = "agent_name step"
  obtain r c1 w1 where d: "dispatch c w ?a t = (r, c1, w1)" by (cases "dispatch c w ?a t")
  have first: "prefix error_prefix r" using Suc.prems(1)[of 1] d by simp
  have shift: "attempts (Suc (Suc k)) c w ?a t = attempts (Suc k) c1 w1 ?a t" for k
    using attempts_shift[of k c w ?a t] d by simp
  show ?case
  proof (cases n)
    case 0
    then show ?thesis using d first by simp
  next
    case (Suc m)
    have "retry_attempts n c1 w1 step t r = attempts n c1 w1 ?a t"
    proof (rule Suc.IH)
      fix k assume "1 \<le> k" "k \<le> n"
      then obtain j where "k = Suc j" by (cases k) auto
      then show "prefix error_prefix (fst (attempts k c1 w1 ?a t))"
        using Suc.prems(1)[of "Suc k"] shift[of j] \<open>k \<le> n\<close> by simp
    next
      show "0 < n" using Suc by simp
    qed
    then show ?thesis using d first shift[of m] Suc by simp
  qed
qed

lemma fire_hook_fields:
  "dispatches (fire_hook c w ev kw) = dispatches w"
  "msg_heap (fire_hook c w ev kw) = msg_heap w"
  "port (fire_hook c w ev kw) = port w"
  "requests (fire_hook c w ev kw) = requests w"
  by (simp_all add: fire_hook_def)

lemma pipeline_single_step:
  assumes "steps c = [step]"
    and "str_format w (task_template step)
           [(''task'', tsk), (''prev_result'', []),
            (''all_results'', get_all_results (state (at_first_step c tsk)))] = Inr rendered"
    and "execute_with_retry (at_first_step c tsk) w step rendered = (result, c2, w2)"
  shows "fst (pipeline_run c w tsk)
           = (case transform step of None \<Rightarrow> Inr result | Some f \<Rightarrow> f result)"
    and "dispatches (snd (snd (pipeline_run c w tsk))) = dispatches w2"
proof -
  let ?c0 = "c\<lparr>state := (reset_state (state c))
                 \<lparr>task := tsk, status := Executing,
                  plan := map (\<lambda>(i, s). plan_line i s) (enumerate 0 (steps c))\<rparr>\<rparr>"
  have c1: "?c0\<lparr>state := (state ?c0)\<lparr>current_step := int 0 + 1\<rparr>\<rparr> = at_first_step c tsk"
    by (simp add: at_first_step_def)
  have loop: "pipeline_steps tsk 0 [step] ?c0 w [] []
        = (case (case transform step of None \<Rightarrow> Inr result | Some f \<Rightarrow> f result) of
             Inl e \<Rightarrow> (Inl e, c2, w2)
           | Inr result' \<Rightarrow>
               (Inr result', c2,
                fire_hook c2 w2 ''on_step_complete'' (StepComplete (int 0 + 1) (state c2))))"
    unfolding pipeline_steps.simps c1 Let_def using assms(2,3)
    by (simp split: sum.splits)
  have run: "pipeline_run c w tsk
        = (case pipeline_steps tsk 0 [step] ?c0 w [] [] of
             (Inl e, c1, w1) \<Rightarrow> (Inl e, c1, w1)
           | (Inr final_result, c1, w1) \<Rightarrow>
               (Inr final_result, c1\<lparr>state := (state c1)\<lparr>status := Done\<rparr>\<rparr>, w1))"
    using assms(1) by (simp add: pipeline_run_def Let_def split: prod.splits sum.splits)
  show "fst (pipeline_run c w tsk)
           = (case transform step of None \<Rightarrow> Inr result | Some f \<Rightarrow> f result)"
    unfolding run loop by (simp split: sum.splits option.splits)
  show "dispatches (snd (snd (pipeline_run c w tsk))) = dispatches w2"
    unfolding run loop by (simp add: fire_hook_fields split: sum.splits option.splits)
qed

text \<open>
  C4, as the code has it. For a pipeline of a single step with \<open>retry = 3\<close> whose
  template renders and whose three dispatches in a row all return an error text, \<open>run\<close>
  dispatches exactly three times, each time the rendered task to the step's agent, and
  its output is the error text of the third attempt when the step has no transform;
  with a transform it is what the transform makes of that error text.
\<close>

theorem pipeline_retries_three_times:
  assumes "steps c = [step]" and "retry step = 3"
    and "str_format w (task_template step)
           [(''task'', tsk), (''prev_result'', []),
            (''all_results'', get_all_results (state (at_first_step c tsk)))] = Inr rendered"
    and "prefix error_prefix (fst (attempts 1 (at_first_step c tsk) w (agent_name step) rendered))"
    and "prefix error_prefix (fst (attempts 2 (at_first_step c tsk) w (agent_name step) rendered))"
    and "prefix error_prefix (fst (attempts 3 (at_first_step c tsk) w (agent_name step) rendered))"
  shows "fst (pipeline_run c w tsk)
           = (case transform step of
                None \<Rightarrow> Inr (fst (attempts 3 (at_first_step c tsk) w (agent_name step) rendered))
              | Some f \<Rightarrow> f (fst (attempts 3 (at_first_step c tsk) w (agent_name step) rendered)))
       \<and> dispatches (snd (snd (pipeline_run c w tsk)))
           = dispatches w @ [(agent_name step, rendered), (agent_name step, rendered),
                             (agent_name step, rendered)]"
proof -
  let ?c1 = "at_first_step c tsk"
  let ?a = "agent_name step"
  have all: "prefix error_prefix (fst (attempts k ?c1 w ?a rendered))" if "1 \<le> k" "k \<le> 3" for k
  proof -
    have "k = 1 \<or> k = 2 \<or> k = 3" using that by arith
    then show ?thesis using assms(4,5,6) by auto
  qed
  have retry: "execute_with_retry ?c1 w step rendered = attempts 3 ?c1 w ?a rendered"
    unfolding execute_with_retry_def assms(2)
    using retry_attempts_all_errors[of 3 ?c1 w step rendered "[]"] all by simp
  obtain result c2 w2 where at: "attempts 3 ?c1 w ?a rendered = (result, c2, w2)"
    by (cases "attempts 3 ?c1 w ?a rendered")
  have "dispatches w2 = dispatches w @ replicate 3 (?a, rendered)"
    using attempts_trace[of 3 ?c1 w ?a rendered] at by simp
  then have tr: "dispatches w2 = dispatches w @ [(?a, rendered), (?a, rendered), (?a, rendered)]"
    by (simp add: numeral_3_eq_3)
  have r: "fst (attempts 3 ?c1 w ?a rendered) = result" using at by simp
  have e: "execute_with_retry ?c1 w step rendered = (result, c2, w2)" using retry at by simp
  show ?thesis
    using pipeline_single_step[OF assms(1,3) e] tr by (simp add: r split: option.splits)
qed


lemma attempts_unknown:
  assumes "dict_get (agents c) a = None"
  shows "attempts (Suc k) c w a t
           = (unknown_agent a (repr_list w (agent_names c)), c,
              w\<lparr>dispatches := dispatches w @ replicate (Suc k) (a, t)\<rparr>)"
proof (induction k)
  case 0
  show ?case using assms by (simp add: dispatch_unknown)
next
  case (Suc k)
  have "attempts (Suc (Suc k)) c w a t
          = dispatch c (w\<lparr>dispatches := dispatches w @ replicate (Suc k) (a, t)\<rparr>) a t"
    using Suc by simp
  then show ?case
    using assms by (simp add: dispatch_unknown repr_list_def replicate_append_same)
qed

lemma test_pipeline_ghost:
  "fst (attempts (Suc k) (at_first_step (test_pipeline tr) ''sum up'') (test_world closed_port)
          ''ghost'' ''sum up'')
     = unknown_agent ''ghost'' (''['' @ [CHR 0x27] @ ''solver'' @ [CHR 0x27] @ '']'')"
proof -
  let ?c = "at_first_step (test_pipeline tr) ''sum up''"
  let ?w = "test_world closed_port"
  have n: "dict_get (agents ?c) ''ghost'' = None"
    by (simp add: at_first_step_def test_pipeline_def dict_get_def)
  have "fst (attempts (Suc k) ?c ?w ''ghost'' ''sum up'')
          = unknown_agent ''ghost'' (repr_list ?w (agent_names ?c))"
    by (simp only: attempts_unknown[OF n] fst_conv)
  moreover have "repr_list ?w (agent_names ?c) = ''['' @ [CHR 0x27] @ ''solver'' @ [CHR 0x27] @ '']''"
    by (simp add: repr_list_def agent_names_def dict_keys_def at_first_step_def
          test_pipeline_def test_world_def)
  ultimately show ?thesis by (simp only:)
qed

lemma unknown_agent_is_error: "prefix error_prefix (unknown_agent a names)"
  by (simp add: unknown_agent_def error_prefix_def)

theorem pipeline_retries_three_times_witness:
  "fst (pipeline_run (test_pipeline None) (test_world closed_port) ''sum up'')
     = Inr (unknown_agent ''ghost'' (''['' @ [CHR 0x27] @ ''solver'' @ [CHR 0x27] @ '']''))
   \<and> dispatches (snd (snd (pipeline_run (test_pipeline None) (test_world closed_port) ''sum up'')))
       = [(''ghost'', ''sum up''), (''ghost'', ''sum up''), (''ghost'', ''sum up'')]"
proof -
  let ?c = "test_pipeline None"
  let ?w = "test_world closed_port"
  let ?step = "\<lparr>agent_name = ''ghost'', task_template = ''{task}'', retry = 3, transform = None\<rparr>"
  have h1: "steps ?c = [?step]" by (simp add: test_pipeline_def)
  have h2: "retry ?step = 3" by simp
  have h3: "str_format ?w (task_template ?step)
           [(''task'', ''sum up''), (''prev_result'', []),
            (''all_results'', get_all_results (state (at_first_step ?c ''sum up'')))] = Inr ''sum up''"
    by (simp add: test_world_def or_empty_def)
  have e: "prefix error_prefix (fst (attempts k (at_first_step ?c ''sum up'') ?w (agent_name ?step) ''sum up''))"
    if "k = Suc j" for k j
    using that by (simp add: test_pipeline_ghost unknown_agent_is_error del: attempts.simps)
  have h4: "prefix error_prefix (fst (attempts 1 (at_first_step ?c ''sum up'') ?w (agent_name ?step) ''sum up''))"
    by (rule e[of 1 0]) simp
  have h5: "prefix error_prefix (fst (attempts 2 (at_first_step ?c ''sum up'') ?w (agent_name ?step) ''sum up''))"
    by (rule e[of 2 1]) simp
  have h6: "prefix error_prefix (fst (attempts 3 (at_first_step ?c ''sum up'') ?w (agent_name ?step) ''sum up''))"
    by (rule e[of 3 2]) simp
  have v: "fst (attempts 3 (at_first_step ?c ''sum up'') ?w ''ghost'' ''sum up'')
             = unknown_agent ''ghost'' (''['' @ [CHR 0x27] @ ''solver'' @ [CHR 0x27] @ '']'')"
    using test_pipeline_ghost[of 2 None] by (simp add: numeral_3_eq_3)
  show ?thesis
    using pipeline_retries_three_times[OF h1 h2 h3 h4 h5 h6] v
    by (simp add: test_world_def)
qed

text \<open>With a transform the output is not the error text of the last attempt.\<close>

theorem pipeline_transform_replaces_error:
  "steps (test_pipeline (Some (\<lambda>r. Inr ''recovered'')))
     = [\<lparr>agent_name = ''ghost'', task_template = ''{task}'', retry = 3,
         transform = Some (\<lambda>r. Inr ''recovered'')\<rparr>]
   \<and> prefix error_prefix
        (fst (attempts 1 (at_first_step (test_pipeline (Some (\<lambda>r. Inr ''recovered''))) ''sum up'')
                (test_world closed_port) ''ghost'' ''sum up''))
   \<and> prefix error_prefix
        (fst (attempts 2 (at_first_step (test_pipeline (Some (\<lambda>r. Inr ''recovered''))) ''sum up'')
                (test_world closed_port) ''ghost'' ''sum up''))
   \<and> prefix error_prefix
        (fst (attempts 3 (at_first_step (test_pipeline (Some (\<lambda>r. Inr ''recovered''))) ''sum up'')
                (test_world closed_port) ''ghost'' ''sum up''))
   \<and> fst (pipeline_run (test_pipeline (Some (\<lambda>r. Inr ''recovered''))) (test_world closed_port) ''sum up'')
       = Inr ''recovered''
   \<and> fst (pipeline_run (test_pipeline (Some (\<lambda>r. Inr ''recovered''))) (test_world closed_port) ''sum up'')
       \<noteq> Inr (fst (attempts 3 (at_first_step (test_pipeline (Some (\<lambda>r. Inr ''recovered''))) ''sum up'')
                (test_world closed_port) ''ghost'' ''sum up''))"
proof -
  let ?tr = "Some (\<lambda>r::string. (Inr ''recovered'' :: exn + string))"
  let ?c = "test_pipeline ?tr"
  let ?w = "test_world closed_port"
  let ?step = "\<lparr>agent_name = ''ghost'', task_template = ''{task}'', retry = 3, transform = ?tr\<rparr>"
  have h1: "steps ?c = [?step]" by (simp add: test_pipeline_def)
  have h3: "str_format ?w (task_template ?step)
           [(''task'', ''sum up''), (''prev_result'', []),
            (''all_results'', get_all_results (state (at_first_step ?c ''sum up'')))] = Inr ''sum up''"
    by (simp add: test_world_def or_empty_def)
  have e: "prefix error_prefix (fst (attempts k (at_first_step ?c ''sum up'') ?w ''ghost'' ''sum up''))"
    if "k = Suc j" for k j
    using that by (simp add: test_pipeline_ghost unknown_agent_is_error del: attempts.simps)
  have v: "fst (attempts 3 (at_first_step ?c ''sum up'') ?w ''ghost'' ''sum up'')
             = unknown_agent ''ghost'' (''['' @ [CHR 0x27] @ ''solver'' @ [CHR 0x27] @ '']'')"
    using test_pipeline_ghost[of 2 ?tr] by (simp add: numeral_3_eq_3)
  obtain result c2 w2
    where x: "execute_with_retry (at_first_step ?c ''sum up'') ?w ?step ''sum up'' = (result, c2, w2)"
    by (cases "execute_with_retry (at_first_step ?c ''sum up'') ?w ?step ''sum up''")
  have out: "fst (pipeline_run ?c ?w ''sum up'') = Inr ''recovered''"
    using pipeline_single_step(1)[OF h1 h3 x] by simp
  have ne: "Inr ''recovered'' \<noteq>
            (Inr (unknown_agent ''ghost'' (''['' @ [CHR 0x27] @ ''solver'' @ [CHR 0x27] @ '']'')) :: exn + string)"
    by (simp add: unknown_agent_def)
  show ?thesis using h1 e[of 1 0] e[of 2 1] e[of 3 2] out ne by (simp add: v)
qed

section \<open>Properties of the orchestrator\<close>







section \<open>Properties of the debate\<close>

lemma Message_init_fields:
  "dispatches (snd (Message_init w s r ct ty md)) = dispatches w"
  "port (snd (Message_init w s r ct ty md)) = port w"
  by (simp_all add: Message_init_def)

lemma debate_round_pair:
  assumes "A \<noteq> B"
  shows "\<exists>opA opB c' w'.
           debate_round tsk rn all_rounds [A, B] [] c w = ([(A, opA), (B, opB)], c', w')
         \<and> opA = fst (dispatch c w A (round_task tsk rn all_rounds A))
         \<and> opB = fst (dispatch (fst (after_opinion c w A (round_task tsk rn all_rounds A) rn))
                             (snd (after_opinion c w A (round_task tsk rn all_rounds A) rn))
                             B (round_task tsk rn all_rounds B))
         \<and> dispatches w' = dispatches w @ [(A, round_task tsk rn all_rounds A),
                                            (B, round_task tsk rn all_rounds B)]"
proof -
  let ?tA = "round_task tsk rn all_rounds A"
  let ?tB = "round_task tsk rn all_rounds B"
  obtain opA cA wA where dA: "dispatch c w A ?tA = (opA, cA, wA)" by (cases "dispatch c w A ?tA")
  obtain mA wA' where iA: "Message_init wA A ''all'' opA RESULT [(''round'', JInt rn)] = (mA, wA')"
    by (cases "Message_init wA A ''all'' opA RESULT [(''round'', JInt rn)]")
  let ?cA' = "cA\<lparr>state := add_message (state cA) mA\<rparr>"
  obtain opB cB wB where dB: "dispatch ?cA' wA' B ?tB = (opB, cB, wB)"
    by (cases "dispatch ?cA' wA' B ?tB")
  obtain mB wB' where iB: "Message_init wB B ''all'' opB RESULT [(''round'', JInt rn)] = (mB, wB')"
    by (cases "Message_init wB B ''all'' opB RESULT [(''round'', JInt rn)]")
  let ?cB' = "cB\<lparr>state := add_message (state cB) mB\<rparr>"
  have tA: "dispatches wA = dispatches w @ [(A, ?tA)]" using dispatch_trace[of c w A ?tA] dA by simp
  have tA': "dispatches wA' = dispatches wA"
    using Message_init_fields(1)[of wA A "''all''" opA RESULT "[(''round'', JInt rn)]"] iA by simp
  have tB: "dispatches wB = dispatches wA' @ [(B, ?tB)]"
    using dispatch_trace[of ?cA' wA' B ?tB] dB by simp
  have tB': "dispatches wB' = dispatches wB"
    using Message_init_fields(1)[of wB B "''all''" opB RESULT "[(''round'', JInt rn)]"] iB by simp
  have ops: "dict_set (dict_set [] A opA) B opB = [(A, opA), (B, opB)]"
    using assms by (simp add: dict_set_def)
  have "debate_round tsk rn all_rounds [A, B] [] c w = ([(A, opA), (B, opB)], ?cB', wB')"
    using dA iA dB iB ops by (simp add: round_task_def Let_def)
  moreover have "dispatches wB' = dispatches w @ [(A, ?tA), (B, ?tB)]"
    by (simp add: tB' tB tA' tA)
  moreover have "opA = fst (dispatch c w A ?tA)" using dA by simp
  moreover have "opB = fst (dispatch (fst (after_opinion c w A ?tA rn))
                             (snd (after_opinion c w A ?tA rn)) B ?tB)"
    using dA iA dB by (simp add: after_opinion_def)
  ultimately show ?thesis by blast
qed

lemma format_opinions_pair:
  assumes "A \<noteq> B"
  shows "opinion_lines 1 [[(A, opA), (B, opB)]] A = [opinion_line 1 B opB]"
    and "opinion_lines 1 [[(A, opA), (B, opB)]] B = [opinion_line 1 A opA]"
    and "format_opinions [[(A, opA), (B, opB)]] A = opinion_line 1 B opB"
    and "format_opinions [[(A, opA), (B, opB)]] B = opinion_line 1 A opA"
  using assms by (simp_all add: format_opinions_def)

lemma sublist_mid: "sublist xs ((ps @ xs) @ ss)"
  by simp

lemma opinion_in_line: "sublist opinion (opinion_line i n opinion)"
  unfolding opinion_line_def append_assoc[symmetric] by (rule sublist_mid)

lemma opinion_in_task: "sublist opinion (later_round_task tsk (opinion_line i n opinion))"
  using opinion_in_line[of opinion i n]
  by (simp add: later_round_task_def sublist_append sublist_Cons_right)


text \<open>
  C6. Let a debate have the two debaters \<open>A\<close> and \<open>B\<close>, of different names, a judge and
  \<open>max_rounds = 2\<close>, and let \<open>opA\<close> and \<open>opB\<close> be what the dispatches of round 1
  return for \<open>A\<close> and for \<open>B\<close>. Then the ledger of round 1 is \<open>A\<close> with \<open>opA\<close> and
  \<open>B\<close> with \<open>opB\<close>, and \<open>run\<close> dispatches five times: round 1 to \<open>A\<close> and \<open>B\<close>,
  round 2 to \<open>A\<close> and \<open>B\<close>, and the judge. The views in the task of round 2 for \<open>A\<close>
  are the one line of \<open>B\<close> in round 1 with \<open>opB\<close> (so the task contains \<open>opB\<close>): the
  entry of \<open>A\<close> is left out because its name is the excluded name. The same holds for
  \<open>B\<close>, with the line of \<open>A\<close> and \<open>opA\<close>.
\<close>

theorem debate_second_round_excludes_own_opinion:
  assumes "debater_names c = [A, B]" and "A \<noteq> B"
    and "judge_role c = Some role" and "max_rounds c = 2"
    and "opA = fst (dispatch (at_first_round c tsk) w A (first_round_task tsk))"
    and "opB = fst (dispatch
                     (fst (after_opinion (at_first_round c tsk) w A (first_round_task tsk) 1))
                     (snd (after_opinion (at_first_round c tsk) w A (first_round_task tsk) 1))
                     B (first_round_task tsk))"
  shows "fst (debate_round tsk 1 [] [A, B] [] (at_first_round c tsk) w) = [(A, opA), (B, opB)]
       \<and> (\<exists>ops2. dispatches (snd (snd (debate_run c w tsk)))
             = dispatches w @
               [(A, first_round_task tsk), (B, first_round_task tsk),
                (A, later_round_task tsk (format_opinions [[(A, opA), (B, opB)]] A)),
                (B, later_round_task tsk (format_opinions [[(A, opA), (B, opB)]] B)),
                (r_name role,
                 JUDGE_PROMPT_format tsk (format_all_rounds [[(A, opA), (B, opB)], ops2]))])
       \<and> opinion_lines 1 [[(A, opA), (B, opB)]] A = [opinion_line 1 B opB]
       \<and> opinion_lines 1 [[(A, opA), (B, opB)]] B = [opinion_line 1 A opA]
       \<and> format_opinions [[(A, opA), (B, opB)]] A = opinion_line 1 B opB
       \<and> format_opinions [[(A, opA), (B, opB)]] B = opinion_line 1 A opA
       \<and> sublist opB (later_round_task tsk (format_opinions [[(A, opA), (B, opB)]] A))
       \<and> sublist opA (later_round_task tsk (format_opinions [[(A, opA), (B, opB)]] B))"
proof -
  let ?c0 = "c\<lparr>state := (reset_state (state c))\<lparr>task := tsk, status := Executing\<rparr>\<rparr>"
  let ?c1 = "?c0\<lparr>state := (state ?c0)\<lparr>current_step := 1\<rparr>\<rparr>"
  have c1: "?c1 = at_first_round c tsk" by (simp add: at_first_round_def)
  obtain opA' opB' c2 w2
    where r1': "debate_round tsk 1 [] [A, B] [] ?c1 w = ([(A, opA'), (B, opB')], c2, w2)"
      and oA: "opA' = fst (dispatch ?c1 w A (round_task tsk 1 [] A))"
      and oB: "opB' = fst (dispatch (fst (after_opinion ?c1 w A (round_task tsk 1 [] A) 1))
                             (snd (after_opinion ?c1 w A (round_task tsk 1 [] A) 1))
                             B (round_task tsk 1 [] B))"
      and t1: "dispatches w2 = dispatches w @ [(A, round_task tsk 1 [] A), (B, round_task tsk 1 [] B)]"
    using debate_round_pair[OF assms(2), of tsk 1 "[]" ?c1 w] by blast
  have eA: "opA' = opA" using oA assms(5) unfolding c1 by (simp add: round_task_def)
  have eB: "opB' = opB" using oB assms(6) unfolding c1 by (simp add: round_task_def)
  have r1: "debate_round tsk 1 [] [A, B] [] ?c1 w = ([(A, opA), (B, opB)], c2, w2)"
    using r1' eA eB by simp
  let ?ops1 = "[(A, opA), (B, opB)]"
  let ?w3 = "fire_hook c2 w2 ''on_step_complete'' (StepComplete 1 (state c2))"
  let ?c3 = "c2\<lparr>state := (state c2)\<lparr>current_step := 1 + 1\<rparr>\<rparr>"
  obtain opA2 opB2 c4 w4
    where r2: "debate_round tsk (1 + 1) [?ops1] [A, B] [] ?c3 ?w3 = ([(A, opA2), (B, opB2)], c4, w4)"
      and t2: "dispatches w4 = dispatches ?w3 @ [(A, round_task tsk (1 + 1) [?ops1] A),
                                               (B, round_task tsk (1 + 1) [?ops1] B)]"
    using debate_round_pair[OF assms(2), of tsk "1 + 1" "[?ops1]" ?c3 ?w3] by blast
  let ?ops2 = "[(A, opA2), (B, opB2)]"
  let ?w5 = "fire_hook c4 w4 ''on_step_complete'' (StepComplete (1 + 1) (state c4))"
  have "debate_rounds tsk (Suc (Suc 0)) 1 [A, B] [] ?c0 w
          = debate_rounds tsk (Suc 0) (1 + 1) [A, B] [?ops1] c2 ?w3"
    by (simp only: debate_rounds.simps Let_def r1 prod.case append_Nil)
  also have "\<dots> = debate_rounds tsk 0 (1 + 1 + 1) [A, B] [?ops1, ?ops2] c4 ?w5"
    by (simp only: debate_rounds.simps Let_def r2 prod.case append_Cons append_Nil)
  also have "\<dots> = ([?ops1, ?ops2], c4, ?w5)" by simp
  finally have rounds:
    "debate_rounds tsk (Suc (Suc 0)) 1 [A, B] [] ?c0 w = ([?ops1, ?ops2], c4, ?w5)" .
  let ?c5 = "c4\<lparr>state := (state c4)\<lparr>status := Reviewing\<rparr>\<rparr>"
  let ?jp = "JUDGE_PROMPT_format tsk (format_all_rounds [?ops1, ?ops2])"
  have n2: "nat (max_rounds c) = Suc (Suc 0)" using assms(4) by simp
  have run: "snd (snd (debate_run c w tsk)) = snd (snd (dispatch ?c5 ?w5 (r_name role) ?jp))"
    unfolding debate_run_def using assms(1,3)
    by (simp add: Let_def n2 rounds judge_def split: prod.splits del: debate_rounds.simps)
  have t5: "dispatches ?w5 = dispatches w @
               [(A, round_task tsk 1 [] A), (B, round_task tsk 1 [] B),
                (A, round_task tsk (1 + 1) [?ops1] A), (B, round_task tsk (1 + 1) [?ops1] B)]"
    by (simp add: fire_hook_fields t2 t1)
  have tr: "dispatches (snd (snd (debate_run c w tsk)))
             = dispatches w @
               [(A, first_round_task tsk), (B, first_round_task tsk),
                (A, later_round_task tsk (format_opinions [?ops1] A)),
                (B, later_round_task tsk (format_opinions [?ops1] B)),
                (r_name role, ?jp)]"
    unfolding run dispatch_trace t5 by (simp add: round_task_def)
  have f1: "fst (debate_round tsk 1 [] [A, B] [] (at_first_round c tsk) w) = ?ops1"
    using r1 unfolding c1 by simp
  have s1: "sublist opB (later_round_task tsk (format_opinions [?ops1] A))"
    unfolding format_opinions_pair(3)[OF assms(2)] by (rule opinion_in_task)
  have s2: "sublist opA (later_round_task tsk (format_opinions [?ops1] B))"
    unfolding format_opinions_pair(4)[OF assms(2)] by (rule opinion_in_task)
  show ?thesis
    using f1 tr format_opinions_pair[OF assms(2), of opA opB] s1 s2 by blast
qed

lemma dispatch_answers:
  assumes "dict_get (agents c) n = Some agent" and "mode agent = ''function_calling''"
    and "0 < max_steps agent" and "port w = Inr (says text) ## p"
  shows "fst (dispatch c w n t) = text"
    and "port (snd (snd (dispatch c w n t))) = p"
    and "agents (fst (snd (dispatch c w n t)))
           = dict_set (agents c) n (reset (remember agent (task_at_run agent t) text))"
proof -
  let ?w = "world_at_run c w n t"
  let ?q = "task_at_run agent t"
  let ?msgs = "role_msg ''system'' (SYSTEM_PROMPT_FUNCTION_CALLING ?w)
                 # get_messages (history agent) @ [role_msg ''user'' ?q]"
  let ?loop = "function_calling_steps (tools agent) (to_openai_tools (tools agent))
                 (nat (max_steps agent)) ?w ?msgs"
  have pw: "port ?w = map Inr [] @- (Inr (says text) ## p)"
    using assms(4) by (simp add: world_at_run_fields)
  have fin: "\<not> asks_for_tools (says text)"
    by (simp add: asks_for_tools_def says_def or_empty_calls_def)
  have n: "length ([] :: reply list) < nat (max_steps agent)" using assms(3) by simp
  have l: "fst ?loop = Inr (Some (or_empty (reply_content (says text)))) \<and> port (snd ?loop) = p"
    using function_calling_steps_script[OF pw _ fin n] by simp
  obtain outcome w3 where lo: "?loop = (outcome, w3)" by (cases ?loop)
  have o: "outcome = Inr (Some text)" and w3: "port w3 = p"
    using l unfolding lo by (simp_all add: says_def or_empty_def)
  have run: "agent_run ?w agent ?q = (Inr text, remember agent ?q text, w3)"
    using lo o by (simp add: agent_run_def assms(2) run_function_calling_def)
  show "fst (dispatch c w n t) = text" using dispatch_known(1)[OF assms(1) run] by simp
  show "port (snd (snd (dispatch c w n t))) = p"
    using dispatch_known(4)[OF assms(1) run] w3 by simp
  show "agents (fst (snd (dispatch c w n t)))
           = dict_set (agents c) n (reset (remember agent ?q text))"
    using dispatch_known(5)[OF assms(1) run] by simp
qed


lemma after_opinion_fields:
  "agents (fst (after_opinion c w d t rn)) = agents (fst (snd (dispatch c w d t)))"
  "port (snd (after_opinion c w d t rn)) = port (snd (snd (dispatch c w d t)))"
  by (simp_all add: after_opinion_def Message_init_def Let_def split: prod.splits)

lemma dict_get_set: "dict_get (dict_set d k v) k' = (if k' = k then Some v else dict_get d k')"
  by (simp add: dict_get_def dict_set_def update_conv')

theorem debate_second_round_excludes_own_opinion_witness:
  "fst (debate_round ''cats'' 1 [] [''pro'', ''con''] [] (at_first_round test_debate ''cats'')
          debate_world) = [(''pro'', ''yes''), (''con'', ''no'')]
   \<and> format_opinions [[(''pro'', ''yes''), (''con'', ''no'')]] ''pro'' = opinion_line 1 ''con'' ''no''
   \<and> dispatches (snd (snd (debate_run test_debate debate_world ''cats''))) ! 2
       = (''pro'', later_round_task ''cats'' (opinion_line 1 ''con'' ''no''))
   \<and> dispatches (snd (snd (debate_run test_debate debate_world ''cats''))) ! 3
       = (''con'', later_round_task ''cats'' (opinion_line 1 ''pro'' ''yes''))"
proof -
  let ?c1 = "at_first_round test_debate ''cats''"
  let ?t = "first_round_task ''cats''"
  let ?agent = "test_agent ''function_calling'' 1"
  let ?role = "\<lparr>r_name = ''judge'', r_description = ''decides'',
                system_prompt = ''You are the judge.'', r_tools = []\<rparr>"
  let ?p1 = "[Inr (says ''no''), Inr (says ''yes, still''),
              Inr (says ''no, still''), Inr (says ''pro wins'')] @- closed_port"
  let ?p2 = "[Inr (says ''yes, still''), Inr (says ''no, still''), Inr (says ''pro wins'')]
               @- closed_port"
  have h1: "debater_names test_debate = [''pro'', ''con'']" by (simp add: test_debate_def)
  have h2: "''pro'' \<noteq> ''con''" by simp
  have h3: "judge_role test_debate = Some ?role" by (simp add: test_debate_def)
  have h4: "max_rounds test_debate = 2" by (simp add: test_debate_def)
  have m: "mode ?agent = ''function_calling''" "0 < max_steps ?agent"
    by (simp_all add: test_agent_def ReActAgent_init_def)
  have aA: "dict_get (agents ?c1) ''pro'' = Some ?agent"
    by (simp add: at_first_round_def test_debate_def dict_get_def)
  have pA: "port debate_world = Inr (says ''yes'') ## ?p1"
    by (simp add: debate_world_def test_world_def)
  note dA = dispatch_answers[OF aA m pA, of ?t]
  have hA: "''yes'' = fst (dispatch ?c1 debate_world ''pro'' ?t)" using dA(1) by simp
  let ?cA = "fst (after_opinion ?c1 debate_world ''pro'' ?t 1)"
  let ?wA = "snd (after_opinion ?c1 debate_world ''pro'' ?t 1)"
  have aB: "dict_get (agents ?cA) ''con'' = Some ?agent"
    unfolding after_opinion_fields dA(3)
    by (simp add: dict_get_set) (simp add: at_first_round_def test_debate_def dict_get_def)
  have pB: "port ?wA = Inr (says ''no'') ## ?p2"
    unfolding after_opinion_fields dA(2) by simp
  have hB: "''no'' = fst (dispatch ?cA ?wA ''con'' ?t)"
    using dispatch_answers(1)[OF aB m pB, of ?t] by simp
  have d0: "dispatches debate_world = []" by (simp add: debate_world_def test_world_def)
  from debate_second_round_excludes_own_opinion[OF h1 h2 h3 h4 hA hB]
  obtain ops2 where
    r: "fst (debate_round ''cats'' 1 [] [''pro'', ''con''] [] ?c1 debate_world)
          = [(''pro'', ''yes''), (''con'', ''no'')]"
    and f: "format_opinions [[(''pro'', ''yes''), (''con'', ''no'')]] ''pro''
              = opinion_line 1 ''con'' ''no''"
           "format_opinions [[(''pro'', ''yes''), (''con'', ''no'')]] ''con''
              = opinion_line 1 ''pro'' ''yes''"
    and t: "dispatches (snd (snd (debate_run test_debate debate_world ''cats'')))
             = dispatches debate_world @
               [(''pro'', ?t), (''con'', ?t),
                (''pro'', later_round_task ''cats''
                            (format_opinions [[(''pro'', ''yes''), (''con'', ''no'')]] ''pro'')),
                (''con'', later_round_task ''cats''
                            (format_opinions [[(''pro'', ''yes''), (''con'', ''no'')]] ''con'')),
                (r_name ?role,
                 JUDGE_PROMPT_format ''cats''
                   (format_all_rounds [[(''pro'', ''yes''), (''con'', ''no'')], ops2]))]"
    by blast
  show ?thesis unfolding t d0 f using r f(1) by simp
qed

section \<open>Messages are objects that can change\<close>

lemma broadcast_heap:
  "msg_heap (snd (broadcast c w m)) = (msg_heap w)[m := (msg_heap w ! m)\<lparr>receiver := ''all''\<rparr>]"
  by (simp add: broadcast_def)

text \<open>A run of a strategy only adds messages to the store.\<close>

lemma retry_attempts_heap:
  "prefix (msg_heap w) (msg_heap (snd (snd (retry_attempts n c w step t last_error))))"
proof (induction n arbitrary: c w last_error)
  case 0
  show ?case by simp
next
  case (Suc n)
  obtain r c1 w1 where d: "dispatch c w (agent_name step) t = (r, c1, w1)"
    by (cases "dispatch c w (agent_name step) t")
  have h1: "prefix (msg_heap w) (msg_heap w1)"
    using dispatch_heap[of w c "agent_name step" t] d by simp
  have h2: "prefix (msg_heap w1) (msg_heap (snd (snd (retry_attempts n c1 w1 step t r))))"
    by (rule Suc.IH)
  show ?case using d h1 prefix_order.trans[OF h1 h2] by simp
qed

lemma pipeline_steps_heap:
  "prefix (msg_heap w) (msg_heap (snd (snd (pipeline_steps tsk i sts c w prev final))))"
proof (induction sts arbitrary: i c w prev final)
  case Nil
  show ?case by simp
next
  case (Cons step rest)
  let ?c1 = "c\<lparr>state := (state c)\<lparr>current_step := int i + 1\<rparr>\<rparr>"
  let ?f = "str_format w (task_template step)
              [(''task'', tsk), (''prev_result'', prev),
               (''all_results'', get_all_results (state ?c1))]"
  show ?case
  proof (cases ?f)
    case (Inl e)
    then show ?thesis by (simp add: Let_def)
  next
    case (Inr rendered)
    obtain result c2 w2 where x: "execute_with_retry ?c1 w step rendered = (result, c2, w2)"
      by (cases "execute_with_retry ?c1 w step rendered")
    have h1: "prefix (msg_heap w) (msg_heap w2)"
      using retry_attempts_heap[of w "nat (retry step)" ?c1 step rendered "[]"] x
      by (simp add: execute_with_retry_def)
    show ?thesis
    proof (cases "case transform step of None \<Rightarrow> Inr result | Some f \<Rightarrow> f result")
      case (Inl e)
      then show ?thesis using Inr x h1 by (simp add: Let_def)
    next
      case tr: (Inr result')
      let ?w3 = "fire_hook c2 w2 ''on_step_complete'' (StepComplete (int i + 1) (state c2))"
      have h2: "prefix (msg_heap ?w3)
                  (msg_heap (snd (snd (pipeline_steps tsk (i + 1) rest c2 ?w3 result' result'))))"
        by (rule Cons.IH)
      have "prefix (msg_heap w)
              (msg_heap (snd (snd (pipeline_steps tsk (i + 1) rest c2 ?w3 result' result'))))"
        using h1 h2 by (simp add: fire_hook_fields)
      then show ?thesis using Inr x tr by (simp add: Let_def)
    qed
  qed
qed

lemma pipeline_run_heap: "prefix (msg_heap w) (msg_heap (snd (snd (pipeline_run c w tsk))))"
proof (cases "steps c = []")
  case True
  then show ?thesis by (simp add: pipeline_run_def)
next
  case False
  let ?c0 = "c\<lparr>state := (reset_state (state c))
                 \<lparr>task := tsk, status := Executing,
                  plan := map (\<lambda>(i, s). plan_line i s) (enumerate 0 (steps c))\<rparr>\<rparr>"
  obtain outcome c1 w1 where p: "pipeline_steps tsk 0 (steps c) ?c0 w [] [] = (outcome, c1, w1)"
    by (cases "pipeline_steps tsk 0 (steps c) ?c0 w [] []")
  have "prefix (msg_heap w) (msg_heap w1)"
    using pipeline_steps_heap[of w tsk 0 "steps c" ?c0 "[]" "[]"] p by simp
  then show ?thesis using False p by (simp add: pipeline_run_def Let_def split: sum.splits)
qed

lemma chat_simple_heap: "msg_heap (snd (chat_simple w prompt system)) = msg_heap w"
  by (simp add: chat_simple_def chat_def Let_def split: sum.splits)

lemma execute_plan_heap:
  "prefix (msg_heap w) (msg_heap (snd (snd (execute_plan i pl c w))))"
proof (induction pl arbitrary: i c w)
  case Nil
  show ?case by simp
next
  case (Cons entry rest)
  obtain a t where e: "entry = (a, t)" by (cases entry)
  show ?case
  proof (cases "\<exists>agent step_task. a = JStr agent \<and> t = JStr step_task")
    case False
    then show ?thesis unfolding e by (cases a; cases t) simp_all
  next
    case True
    then obtain agent step_task where at: "a = JStr agent" "t = JStr step_task" by blast
    let ?c1 = "c\<lparr>state := (state c)\<lparr>current_step := int i + 1\<rparr>\<rparr>"
    let ?sub = "if results (state ?c1) \<noteq> []
                then with_results step_task (get_all_results (state ?c1)) else step_task"
    show ?thesis
    proof (cases "agent \<notin> set (dict_keys (agents ?c1))")
      case True
      then show ?thesis using Cons.IH[of w "i + 1" ?c1] unfolding e at by (simp add: Let_def)
    next
      case False
      obtain result c2 w2 where d: "dispatch ?c1 w agent ?sub = (result, c2, w2)"
        by (cases "dispatch ?c1 w agent ?sub")
      let ?w3 = "fire_hook c2 w2 ''on_step_complete'' (StepComplete (int i + 1) (state c2))"
      have h1: "prefix (msg_heap w) (msg_heap ?w3)"
        using dispatch_heap[of w ?c1 agent ?sub] d by (simp add: fire_hook_fields)
      have h2: "prefix (msg_heap ?w3) (msg_heap (snd (snd (execute_plan (i + 1) rest c2 ?w3))))"
        by (rule Cons.IH)
      show ?thesis
        using False d prefix_order.trans[OF h1 h2] unfolding e at by (simp add: Let_def)
    qed
  qed
qed

lemma orchestrator_run_heap:
  "prefix (msg_heap w) (msg_heap (snd (snd (orchestrator_run c w tsk))))"
proof -
  let ?c0 = "c\<lparr>state := (reset_state (state c))\<lparr>task := tsk, status := Planning\<rparr>\<rparr>"
  obtain planned w1 where mp: "make_plan ?c0 w tsk = (planned, w1)" by (cases "make_plan ?c0 w tsk")
  have w1: "msg_heap w1 = msg_heap w"
    using mp chat_simple_heap[of w tsk "PLANNER_PROMPT_format (join [CHR 0x0A] (map agent_line (agents ?c0)))"]
    by (auto simp: make_plan_def Let_def split: prod.splits sum.splits)
  show ?thesis
  proof (cases planned)
    case (Inl e)
    then show ?thesis using mp w1 by (simp add: orchestrator_run_def Let_def)
  next
    case (Inr pl)
    show ?thesis
    proof (cases "pl = []")
      case True
      then show ?thesis using mp w1 Inr by (simp add: orchestrator_run_def Let_def)
    next
      case False
      let ?c1 = "?c0\<lparr>state := (state ?c0)\<lparr>plan := map (plan_entry_line w1) pl, status := Executing\<rparr>\<rparr>"
      obtain walked c2 w2 where ep: "execute_plan 0 pl ?c1 w1 = (walked, c2, w2)"
        by (cases "execute_plan 0 pl ?c1 w1")
      have w2: "prefix (msg_heap w) (msg_heap w2)"
        using execute_plan_heap[of w1 0 pl ?c1] ep w1 by simp
      let ?c3 = "c2\<lparr>state := (state c2)\<lparr>status := Reviewing\<rparr>\<rparr>"
      have s: "msg_heap (snd (summarize ?c3 w2 tsk)) = msg_heap w2"
        by (simp add: summarize_def chat_simple_heap)
      show ?thesis
        using mp Inr False ep w2 s
        by (auto simp: orchestrator_run_def Let_def split: sum.splits prod.splits)
    qed
  qed
qed

lemma debate_round_heap:
  "prefix (msg_heap w) (msg_heap (snd (snd (debate_round tsk rn all_rounds ds ops c w))))"
proof (induction ds arbitrary: ops c w)
  case Nil
  show ?case by simp
next
  case (Cons d ds)
  let ?t = "if rn = 1 then first_round_task tsk
            else later_round_task tsk (format_opinions all_rounds d)"
  obtain result c1 w1 where dd: "dispatch c w d ?t = (result, c1, w1)"
    by (cases "dispatch c w d ?t")
  obtain m w2 where i: "Message_init w1 d ''all'' result RESULT [(''round'', JInt rn)] = (m, w2)"
    by (cases "Message_init w1 d ''all'' result RESULT [(''round'', JInt rn)]")
  have h1: "prefix (msg_heap w) (msg_heap w1)" using dispatch_heap[of w c d ?t] dd by simp
  have h2: "prefix (msg_heap w1) (msg_heap w2)" using i by (auto simp: Message_init_def)
  have h3: "prefix (msg_heap w2)
              (msg_heap (snd (snd (debate_round tsk rn all_rounds ds (dict_set ops d result)
                                     (c1\<lparr>state := add_message (state c1) m\<rparr>) w2))))"
    by (rule Cons.IH)
  show ?case
    using dd i prefix_order.trans[OF h1 prefix_order.trans[OF h2 h3]] by (simp add: Let_def)
qed

lemma debate_rounds_heap:
  "prefix (msg_heap w) (msg_heap (snd (snd (debate_rounds tsk n rn ds all_rounds c w))))"
proof (induction n arbitrary: rn all_rounds c w)
  case 0
  show ?case by simp
next
  case (Suc n)
  let ?c1 = "c\<lparr>state := (state c)\<lparr>current_step := rn\<rparr>\<rparr>"
  obtain ops c2 w2 where r: "debate_round tsk rn all_rounds ds [] ?c1 w = (ops, c2, w2)"
    by (cases "debate_round tsk rn all_rounds ds [] ?c1 w")
  let ?w3 = "fire_hook c2 w2 ''on_step_complete'' (StepComplete rn (state c2))"
  have h1: "prefix (msg_heap w) (msg_heap ?w3)"
    using debate_round_heap[of w tsk rn all_rounds ds "[]" ?c1] r by (simp add: fire_hook_fields)
  have h2: "prefix (msg_heap ?w3)
              (msg_heap (snd (snd (debate_rounds tsk n (rn + 1) ds (all_rounds @ [ops]) c2 ?w3))))"
    by (rule Suc.IH)
  show ?case using r prefix_order.trans[OF h1 h2] by (simp add: Let_def)
qed

lemma debate_run_heap: "prefix (msg_heap w) (msg_heap (snd (snd (debate_run c w tsk))))"
proof (cases "debater_names c = [] \<or> judge_role c = None")
  case True
  then show ?thesis by (auto simp: debate_run_def)
next
  case False
  then obtain role where j: "judge_role c = Some role" and d: "debater_names c \<noteq> []" by auto
  let ?c0 = "c\<lparr>state := (reset_state (state c))\<lparr>task := tsk, status := Executing\<rparr>\<rparr>"
  obtain all_rounds c1 w1
    where r: "debate_rounds tsk (nat (max_rounds c)) 1 (debater_names c) [] ?c0 w = (all_rounds, c1, w1)"
    by (cases "debate_rounds tsk (nat (max_rounds c)) 1 (debater_names c) [] ?c0 w")
  have h1: "prefix (msg_heap w) (msg_heap w1)"
    using debate_rounds_heap[of w tsk "nat (max_rounds c)" 1 "debater_names c" "[]" ?c0] r by simp
  let ?c2 = "c1\<lparr>state := (state c1)\<lparr>status := Reviewing\<rparr>\<rparr>"
  let ?jp = "JUDGE_PROMPT_format tsk (format_all_rounds all_rounds)"
  have h2: "prefix (msg_heap w1) (msg_heap (snd (snd (dispatch ?c2 w1 (r_name role) ?jp))))"
    by (rule dispatch_heap)
  show ?thesis
    using j d r prefix_order.trans[OF h1 h2]
    by (auto simp: debate_run_def Let_def judge_def split: prod.splits)
qed

text \<open>
  C8, as the code has it. \<open>Message\<close> is a dataclass that is not frozen, and
  \<open>_broadcast\<close> assigns \<open>"all"\<close> to the \<open>receiver\<close> of the message it is given. What
  holds: building a message, \<open>add_result\<close> and \<open>_dispatch\<close> only add objects to the
  store, so that every message that exists keeps all its fields (\<open>add_message\<close>,
  \<open>get_messages_for\<close> and \<open>reset\<close> do not touch the store at all); \<open>_broadcast\<close>
  changes the receiver of its message to \<open>"all"\<close> and nothing else: the sender, content,
  type, metadata and timestamp of every message, and the receiver of every other
  message, are as before. The runs of the three strategies, which reach messages only
  through these operations and never call \<open>_broadcast\<close>, only add objects to the store
  as well.
\<close>

theorem only_broadcast_changes_a_message:
  "prefix (msg_heap w) (msg_heap (snd (Message_init w s r ct ty md)))
   \<and> prefix (msg_heap w) (msg_heap (snd (add_result w st a res)))
   \<and> prefix (msg_heap w) (msg_heap (snd (snd (dispatch c w n t))))
   \<and> prefix (msg_heap w) (msg_heap (snd (snd (pipeline_run cp w tsk))))
   \<and> prefix (msg_heap w) (msg_heap (snd (snd (orchestrator_run co w tsk))))
   \<and> prefix (msg_heap w) (msg_heap (snd (snd (debate_run cd w tsk))))
   \<and> msg_heap (snd (broadcast c w m)) = (msg_heap w)[m := (msg_heap w ! m)\<lparr>receiver := ''all''\<rparr>]
   \<and> (k < length (msg_heap w) \<longrightarrow>
        sender (msg_heap (snd (broadcast c w m)) ! k) = sender (msg_heap w ! k)
        \<and> content (msg_heap (snd (broadcast c w m)) ! k) = content (msg_heap w ! k)
        \<and> msg_type (msg_heap (snd (broadcast c w m)) ! k) = msg_type (msg_heap w ! k)
        \<and> metadata (msg_heap (snd (broadcast c w m)) ! k) = metadata (msg_heap w ! k)
        \<and> timestamp (msg_heap (snd (broadcast c w m)) ! k) = timestamp (msg_heap w ! k)
        \<and> receiver (msg_heap (snd (broadcast c w m)) ! k)
            = (if k = m then ''all'' else receiver (msg_heap w ! k)))"
proof -
  have a: "prefix (msg_heap w) (msg_heap (snd (Message_init w s r ct ty md)))"
    by (simp add: Message_init_def)
  have b: "prefix (msg_heap w) (msg_heap (snd (add_result w st a res)))"
    by (simp add: add_result_def Message_init_def)
  have d: "sender (msg_heap (snd (broadcast c w m)) ! k) = sender (msg_heap w ! k)
        \<and> content (msg_heap (snd (broadcast c w m)) ! k) = content (msg_heap w ! k)
        \<and> msg_type (msg_heap (snd (broadcast c w m)) ! k) = msg_type (msg_heap w ! k)
        \<and> metadata (msg_heap (snd (broadcast c w m)) ! k) = metadata (msg_heap w ! k)
        \<and> timestamp (msg_heap (snd (broadcast c w m)) ! k) = timestamp (msg_heap w ! k)
        \<and> receiver (msg_heap (snd (broadcast c w m)) ! k)
            = (if k = m then ''all'' else receiver (msg_heap w ! k))"
    if "k < length (msg_heap w)"
    using that by (simp add: broadcast_heap nth_list_update)
  show ?thesis
    using a b dispatch_heap pipeline_run_heap orchestrator_run_heap debate_run_heap
          broadcast_heap d
    by blast
qed

theorem only_broadcast_changes_a_message_witness:
  "msg_heap (snd (broadcast (test_team 1) one_message_world 0))
     = [\<lparr>sender = ''planner'', receiver = ''all'', content = ''hello'',
         msg_type = TASK, metadata = [], timestamp = ''2024-01-01T00:00:00''\<rparr>]
   \<and> sender (msg_heap (snd (broadcast (test_team 1) one_message_world 0)) ! 0) = ''planner''"
  using only_broadcast_changes_a_message
          [of one_message_world "''a''" "''b''" "''c''" TASK "[]" SharedState_init "''a''" "''r''"
              "test_team 1" "''solver''" "''t''" "test_pipeline None" "''t''" test_orchestrator
              test_debate 0 0]
  by (simp add: one_message_world_def)

text \<open>The claim as written fails: \<open>_broadcast\<close> changes the receiver of a message that exists.\<close>

theorem broadcast_overwrites_receiver:
  "receiver (msg_heap (snd (broadcast (test_team 1) one_message_world 0)) ! 0)
     \<noteq> receiver (msg_heap one_message_world ! 0)"
  by (simp add: broadcast_def one_message_world_def)

end
